theory Spec2Isabelle
  imports Complex_Main
begin

section \<open>Data model\<close>

text \<open>
  The slot game animates a grid of reels. JavaScript numbers are idealised as
  real numbers: positions in pixels, times in milliseconds. A texture handle is
  the index of the texture in the asset loader's array of symbol textures.
\<close>

datatype MovingDirection = UP | DOWN | LEFT | RIGHT

record GameConfig =
  config_reelsCount :: nat
  config_symbolsPerReel :: nat
  config_reelAreaWidth :: real
  config_reelAreaHeight :: real
  config_spinningSpeed :: real
  config_stopDelay :: real
  config_stopInterval :: real
  config_startInterval :: real
  config_movingDirection :: MovingDirection

text \<open>
  The asset loader is a singleton. Its textures are loaded before the game is
  built, so \<open>symbolTextures\<close> is the length of \<open>loadedTextures.symbols\<close>. The
  values of \<open>Math.random()\<close> are an input of the model: \<open>mathRandom al k\<close> is
  the value returned by the call number \<open>k\<close>, and \<open>randomCalls\<close> counts the calls.
\<close>

record AssetLoader =
  symbolTextures :: nat
  mathRandom :: "nat \<Rightarrow> real"
  randomCalls :: nat

definition getRandomSymbolTexture :: "AssetLoader \<Rightarrow> nat \<times> AssetLoader" where
  "getRandomSymbolTexture al =
     (nat \<lfloor>mathRandom al (randomCalls al) * real (symbolTextures al)\<rfloor>,
      al\<lparr>randomCalls := Suc (randomCalls al)\<rparr>)"

record ReelSymbol =
  texture :: nat
  symbol_x :: real
  symbol_y :: real

text \<open>
  A call of \<open>gsap.to\<close> on the position of a reel makes a tween. The animation
  driver is outside the repository: the model keeps the arguments of the call
  (the targets for \<open>x\<close> and \<open>y\<close>, the duration), the position the tween starts
  from, and the state the code reads and writes (\<open>tween.time()\<close>,
  \<open>tween.pause()\<close>). A tween that is given no target for \<open>x\<close> keeps \<open>x\<close>.
\<close>

datatype TweenKind = EaseIn | Spinning | Stopping

datatype TweenStatus = Running | Paused | Completed

record Tween =
  tweenKind :: TweenKind
  tweenFromX :: real
  tweenFrom :: real
  tweenToX :: real
  tweenTo :: real
  tweenDuration :: real
  tweenTime :: real
  tweenStatus :: TweenStatus

text \<open>
  The fields of the class \<open>Reel\<close>, the position of its container, its tweens,
  and two counters that observe it: the number of \<open>stoppedSpinning\<close> events
  it has emitted and the number of calls of \<open>loopReel\<close>. The first version of
  the reel has no moving direction and never reads the field.
\<close>

record Reel =
  symbols :: "ReelSymbol list"
  stopping :: bool
  backoutStarted :: bool
  needsToStop :: bool
  symbolWidth :: real
  symbolHeight :: real
  reelAreaWidth :: real
  reelAreaHeight :: real
  movingDirection :: MovingDirection
  spinningTweenDuration :: real
  position_x :: real
  position_y :: real
  tweens :: "Tween list"
  stoppedSpinningEmitted :: nat
  loopReelCalls :: nat

definition eps :: real where
  "eps = 1 / 10"

text \<open>The array of symbols is filled by \<open>Array.from\<close>, one random texture per entry.\<close>

fun newSymbols :: "nat \<Rightarrow> AssetLoader \<Rightarrow> ReelSymbol list \<times> AssetLoader" where
  "newSymbols 0 al = ([], al)"
| "newSymbols (Suc n) al =
     (let (t, al1) = getRandomSymbolTexture al;
          (ss, al2) = newSymbols n al1
      in (\<lparr>texture = t, symbol_x = 0, symbol_y = 0\<rparr> # ss, al2))"

text \<open>A loop over the symbols, in the order of the array, that may draw textures.\<close>

fun forEachSymbol ::
  "(ReelSymbol \<Rightarrow> AssetLoader \<Rightarrow> ReelSymbol \<times> AssetLoader) \<Rightarrow> ReelSymbol list \<Rightarrow> AssetLoader
     \<Rightarrow> ReelSymbol list \<times> AssetLoader" where
  "forEachSymbol f [] al = ([], al)"
| "forEachSymbol f (s # ss) al =
     (let (s1, al1) = f s al;
          (ss1, al2) = forEachSymbol f ss al1
      in (s1 # ss1, al2))"

text \<open>JavaScript's \<open>%\<close> on numbers truncates the quotient towards zero.\<close>

definition jsMod :: "real \<Rightarrow> real \<Rightarrow> real" where
  "jsMod a b = a - b * (if a / b \<ge> 0 then of_int \<lfloor>a / b\<rfloor> else of_int \<lceil>a / b\<rceil>)"

text \<open>
  The spinning tween has no easing: at time \<open>t\<close> it writes the linear
  interpolation between its start and its target to the position of the reel.
  \<open>tween.time(t, true)\<close> moves the tween to \<open>t\<close> and writes the position again.
\<close>

definition setTweenTime :: "nat \<Rightarrow> real \<Rightarrow> Reel \<Rightarrow> Reel" where
  "setTweenTime k t r =
     (let tw = tweens r ! k
      in r\<lparr>tweens := (tweens r)[k := tw\<lparr>tweenTime := t\<rparr>],
           position_x := tweenFromX tw + (tweenToX tw - tweenFromX tw) * (t / tweenDuration tw),
           position_y := tweenFrom tw + (tweenTo tw - tweenFrom tw) * (t / tweenDuration tw)\<rparr>)"

definition setTweenStatus :: "nat \<Rightarrow> TweenStatus \<Rightarrow> Reel \<Rightarrow> Reel" where
  "setTweenStatus k st r = r\<lparr>tweens := (tweens r)[k := (tweens r ! k)\<lparr>tweenStatus := st\<rparr>]\<rparr>"

definition newTween :: "TweenKind \<Rightarrow> real \<Rightarrow> real \<Rightarrow> real \<Rightarrow> Reel \<Rightarrow> Reel" where
  "newTween knd x y duration r =
     r\<lparr>tweens := tweens r @
        [\<lparr>tweenKind = knd, tweenFromX = position_x r, tweenFrom = position_y r,
          tweenToX = x, tweenTo = y, tweenDuration = duration, tweenTime = 0,
          tweenStatus = Running\<rparr>]\<rparr>"

definition running :: "Reel \<Rightarrow> nat \<Rightarrow> TweenKind \<Rightarrow> bool" where
  "running r k knd =
     (k < length (tweens r) \<and> tweenKind (tweens r ! k) = knd
      \<and> tweenStatus (tweens r ! k) = Running)"

text \<open>
  What can happen to a reel: a call of one of its public methods, or the
  animation driver advancing one of its running tweens. A frame of an eased
  tween carries the value the driver writes to the position; a frame of the
  spinning tween carries the time of the tween. The last frame of a tween
  writes the target, runs \<open>onUpdate\<close> and resolves the promise, which resumes
  the method that awaits it. An event for a tween that is not running does
  nothing.
\<close>

datatype ReelEvent =
    CallStartSpinning
  | CallStopSpinning
  | EaseInFrame nat real
  | EaseInComplete nat
  | SpinningFrame nat real
  | StoppingFrame nat real
  | StoppingComplete nat

section \<open>The reel moving down (Reel.ts, first version)\<close>

text \<open>The placement loop of the constructor: \<open>symbol.y = (i - 1) * symbolHeight\<close>.\<close>

fun placeSymbols :: "real \<Rightarrow> nat \<Rightarrow> ReelSymbol list \<Rightarrow> ReelSymbol list" where
  "placeSymbols h i [] = []"
| "placeSymbols h i (s # ss) =
     s\<lparr>symbol_y := (real i - 1) * h\<rparr> # placeSymbols h (Suc i) ss"

definition newReel :: "GameConfig \<Rightarrow> AssetLoader \<Rightarrow> Reel \<times> AssetLoader" where
  "newReel config al =
     (let w = config_reelAreaWidth config / real (config_reelsCount config);
          h = config_reelAreaHeight config / real (config_symbolsPerReel config);
          (ss, al1) = newSymbols (config_symbolsPerReel config + 1) al
      in (\<lparr>symbols = placeSymbols h 0 ss,
           stopping = False,
           backoutStarted = False,
           needsToStop = False,
           symbolWidth = w,
           symbolHeight = h,
           reelAreaWidth = config_reelAreaWidth config,
           reelAreaHeight = config_reelAreaHeight config,
           movingDirection = config_movingDirection config,
           spinningTweenDuration =
             1000 / (real (config_symbolsPerReel config) * config_spinningSpeed config),
           position_x = 0,
           position_y = 0,
           tweens = [],
           stoppedSpinningEmitted = 0,
           loopReelCalls = 0\<rparr>, al1))"

text \<open>The body of the loop of \<open>loopReel\<close>, for one symbol.\<close>

definition loopSymbol :: "Reel \<Rightarrow> ReelSymbol \<Rightarrow> AssetLoader \<Rightarrow> ReelSymbol \<times> AssetLoader" where
  "loopSymbol r s al =
     (let s1 = s\<lparr>symbol_y := symbol_y s + symbolHeight r\<rparr>
      in if symbol_y s1 \<ge> reelAreaHeight r - eps
         then (let s2 = s1\<lparr>symbol_y := - symbolHeight r\<rparr>;
                   (t, al1) = getRandomSymbolTexture al
               in (s2\<lparr>texture := t\<rparr>, al1))
         else (s1, al))"

definition loopReel :: "Reel \<Rightarrow> AssetLoader \<Rightarrow> Reel \<times> AssetLoader" where
  "loopReel r al =
     (let (ss, al1) = forEachSymbol (loopSymbol r) (symbols r) al
      in (r\<lparr>symbols := ss, loopReelCalls := Suc (loopReelCalls r)\<rparr>, al1))"

definition stopSpinning :: "Reel \<Rightarrow> Reel" where
  "stopSpinning r = r\<lparr>needsToStop := True\<rparr>"

text \<open>
  \<open>startSpinning\<close> up to its \<open>await\<close>: the ease-in tween is made and the call
  returns. What follows the \<open>await\<close> is \<open>startSpinning_resumed\<close>.
\<close>

definition startSpinning :: "Reel \<Rightarrow> Reel" where
  "startSpinning r =
     newTween EaseIn (position_x r) (symbolHeight r) (spinningTweenDuration r * 2) r"

definition beginStoppingAnimation :: "Reel \<Rightarrow> Reel" where
  "beginStoppingAnimation r =
     (if stopping r then r
      else (let r1 = r\<lparr>stopping := True\<rparr>;
                r2 = r1\<lparr>backoutStarted := False\<rparr>
            in newTween Stopping (position_x r2) (symbolHeight r2)
                 (spinningTweenDuration r2 * 4) r2))"

text \<open>The \<open>onUpdate\<close> callback of the spinning tween number \<open>k\<close>.\<close>

definition spinning_onUpdate :: "nat \<Rightarrow> Reel \<Rightarrow> AssetLoader \<Rightarrow> Reel \<times> AssetLoader" where
  "spinning_onUpdate k r al =
     (let time = tweenTime (tweens r ! k)
      in if time > spinningTweenDuration r
         then (let (r1, al1) = loopReel r al;
                   r2 = setTweenTime k (jsMod time (spinningTweenDuration r1)) r1
               in if needsToStop r2
                  then (beginStoppingAnimation (setTweenStatus k Paused r2), al1)
                  else (r2, al1))
         else (r, al))"

definition startSpinning_resumed :: "Reel \<Rightarrow> AssetLoader \<Rightarrow> Reel \<times> AssetLoader" where
  "startSpinning_resumed r al =
     (let (r1, al1) = loopReel r al;
          r2 = r1\<lparr>position_y := 0\<rparr>;
          r3 = r2\<lparr>needsToStop := False\<rparr>
      in (newTween Spinning (position_x r3) (symbolHeight r3 * 2)
            (spinningTweenDuration r3 * 2) r3, al1))"

definition shiftBack :: "Reel \<Rightarrow> Reel" where
  "shiftBack r =
     r\<lparr>symbols := map (\<lambda>s. s\<lparr>symbol_y := symbol_y s - symbolHeight r\<rparr>) (symbols r)\<rparr>"

text \<open>The \<open>onUpdate\<close> callback of the stopping tween.\<close>

definition stopping_onUpdate :: "Reel \<Rightarrow> AssetLoader \<Rightarrow> Reel \<times> AssetLoader" where
  "stopping_onUpdate r al =
     (if \<not> backoutStarted r \<and> position_y r \<ge> symbolHeight r
      then (let (r1, al1) = loopReel r al;
                r2 = shiftBack r1
            in (r2\<lparr>backoutStarted := True\<rparr>, al1))
      else (r, al))"

text \<open>What follows the \<open>await\<close> of \<open>beginStoppingAnimation\<close>.\<close>

definition beginStoppingAnimation_resumed :: "Reel \<Rightarrow> AssetLoader \<Rightarrow> Reel \<times> AssetLoader" where
  "beginStoppingAnimation_resumed r al =
     (let (r1, al1) = loopReel r al;
          r2 = r1\<lparr>position_y := 0\<rparr>;
          r3 = r2\<lparr>stopping := False\<rparr>
      in (r3\<lparr>stoppedSpinningEmitted := Suc (stoppedSpinningEmitted r3)\<rparr>, al1))"

text \<open>The last frame of the tween number \<open>k\<close>: it writes the targets.\<close>

definition lastFrame :: "nat \<Rightarrow> Reel \<Rightarrow> Reel" where
  "lastFrame k r =
     (setTweenStatus k Completed r)
       \<lparr>position_x := tweenToX (tweens r ! k), position_y := tweenTo (tweens r ! k)\<rparr>"

fun reelStep :: "Reel \<times> AssetLoader \<Rightarrow> ReelEvent \<Rightarrow> Reel \<times> AssetLoader" where
  "reelStep (r, al) CallStartSpinning = (startSpinning r, al)"
| "reelStep (r, al) CallStopSpinning = (stopSpinning r, al)"
| "reelStep (r, al) (EaseInFrame k v) =
     (if running r k EaseIn then (r\<lparr>position_y := v\<rparr>, al) else (r, al))"
| "reelStep (r, al) (EaseInComplete k) =
     (if running r k EaseIn then startSpinning_resumed (lastFrame k r) al else (r, al))"
| "reelStep (r, al) (SpinningFrame k t) =
     (if running r k Spinning then spinning_onUpdate k (setTweenTime k t r) al else (r, al))"
| "reelStep (r, al) (StoppingFrame k v) =
     (if running r k Stopping then stopping_onUpdate (r\<lparr>position_y := v\<rparr>) al else (r, al))"
| "reelStep (r, al) (StoppingComplete k) =
     (if running r k Stopping
      then (let (r1, al1) = stopping_onUpdate (lastFrame k r) al
            in beginStoppingAnimation_resumed r1 al1)
      else (r, al))"

definition reelRun :: "Reel \<times> AssetLoader \<Rightarrow> ReelEvent list \<Rightarrow> Reel \<times> AssetLoader" where
  "reelRun = foldl reelStep"

text \<open>No stopping tween of the reel is running.\<close>

definition noStoppingTweenRunning :: "Reel \<Rightarrow> bool" where
  "noStoppingTweenRunning r =
     list_all (\<lambda>tw. \<not> (tweenKind tw = Stopping \<and> tweenStatus tw = Running)) (tweens r)"

text \<open>
  The resting offsets of the \<open>n + 1\<close> symbols of a reel that moves down, for
  the symbol height \<open>h\<close>: \<open>- h, 0, h, \<dots>, (n - 1) * h\<close>.
\<close>

definition restingOffsets :: "real \<Rightarrow> nat \<Rightarrow> real list" where
  "restingOffsets h n = map (\<lambda>i. (real i - 1) * h) [0..<Suc n]"

text \<open>
  The symbols of the reel are at the resting offsets, or at the resting
  offsets moved back by one symbol height (between the two passes of
  \<open>loopReel\<close> of a stopping animation). \<open>n\<close> is the number of symbols per reel.
\<close>

definition onGrid :: "nat \<Rightarrow> Reel \<Rightarrow> bool" where
  "onGrid n r =
     (reelAreaHeight r = real n * symbolHeight r
      \<and> (set (map symbol_y (symbols r)) = set (restingOffsets (symbolHeight r) n)
         \<or> set (map symbol_y (symbols r))
             = set (map (\<lambda>y. y - symbolHeight r) (restingOffsets (symbolHeight r) n))))"

section \<open>The reel moving up or down (Reel.ts, second version)\<close>

text \<open>The placement loop: the index is \<open>i - 1\<close> when moving down, \<open>i\<close> otherwise.\<close>

fun placeSymbols_upDown :: "MovingDirection \<Rightarrow> real \<Rightarrow> nat \<Rightarrow> ReelSymbol list \<Rightarrow> ReelSymbol list" where
  "placeSymbols_upDown d h i [] = []"
| "placeSymbols_upDown d h i (s # ss) =
     s\<lparr>symbol_y := (if d = DOWN then real i - 1 else real i) * h\<rparr>
       # placeSymbols_upDown d h (Suc i) ss"

definition newReel_upDown :: "GameConfig \<Rightarrow> AssetLoader \<Rightarrow> Reel \<times> AssetLoader" where
  "newReel_upDown config al =
     (let (r, al1) = newReel config al
      in (r\<lparr>symbols :=
              placeSymbols_upDown (config_movingDirection config) (symbolHeight r) 0 (symbols r)\<rparr>,
          al1))"

definition updateSymbolPosition :: "Reel \<Rightarrow> ReelSymbol \<Rightarrow> AssetLoader \<Rightarrow> ReelSymbol \<times> AssetLoader" where
  "updateSymbolPosition r s al =
     (let directionIsDown = (movingDirection r = DOWN);
          movementY = (if directionIsDown then symbolHeight r else - symbolHeight r);
          s1 = s\<lparr>symbol_y := symbol_y s + movementY\<rparr>;
          hasMovedOffscreen =
            (if directionIsDown then symbol_y s1 \<ge> reelAreaHeight r - eps
             else symbol_y s1 \<le> - symbolHeight r + eps)
      in if hasMovedOffscreen
         then (let s2 = s1\<lparr>symbol_y :=
                             (if directionIsDown then - symbolHeight r else reelAreaHeight r)\<rparr>;
                   (t, al1) = getRandomSymbolTexture al
               in (s2\<lparr>texture := t\<rparr>, al1))
         else (s1, al))"

definition loopReel_upDown :: "Reel \<Rightarrow> AssetLoader \<Rightarrow> Reel \<times> AssetLoader" where
  "loopReel_upDown r al =
     (let (ss, al1) = forEachSymbol (updateSymbolPosition r) (symbols r) al
      in (r\<lparr>symbols := ss, loopReelCalls := Suc (loopReelCalls r)\<rparr>, al1))"

definition startSpinning_upDown :: "Reel \<Rightarrow> Reel" where
  "startSpinning_upDown r =
     (let initialShiftReelDirection =
            (if movingDirection r = DOWN then symbolHeight r else - symbolHeight r)
      in newTween EaseIn (position_x r) initialShiftReelDirection (spinningTweenDuration r * 2) r)"

definition beginStoppingAnimation_upDown :: "Reel \<Rightarrow> Reel" where
  "beginStoppingAnimation_upDown r =
     (if stopping r then r
      else (let r1 = r\<lparr>stopping := True\<rparr>;
                r2 = r1\<lparr>backoutStarted := False\<rparr>;
                reelStartY = (if movingDirection r2 = DOWN then symbolHeight r2 else - symbolHeight r2)
            in newTween Stopping (position_x r2) reelStartY (spinningTweenDuration r2 * 4) r2))"

definition spinning_onUpdate_upDown :: "nat \<Rightarrow> Reel \<Rightarrow> AssetLoader \<Rightarrow> Reel \<times> AssetLoader" where
  "spinning_onUpdate_upDown k r al =
     (let time = tweenTime (tweens r ! k)
      in if time > spinningTweenDuration r
         then (let (r1, al1) = loopReel_upDown r al;
                   r2 = setTweenTime k (jsMod time (spinningTweenDuration r1)) r1
               in if needsToStop r2
                  then (beginStoppingAnimation_upDown (setTweenStatus k Paused r2), al1)
                  else (r2, al1))
         else (r, al))"

definition startSpinning_resumed_upDown :: "Reel \<Rightarrow> AssetLoader \<Rightarrow> Reel \<times> AssetLoader" where
  "startSpinning_resumed_upDown r al =
     (let (r1, al1) = loopReel_upDown r al;
          r2 = r1\<lparr>position_y := 0\<rparr>;
          r3 = r2\<lparr>needsToStop := False\<rparr>
      in (newTween Spinning (position_x r3)
            (symbolHeight r3 * 2 * (if movingDirection r3 = DOWN then 1 else - 1))
            (spinningTweenDuration r3 * 2) r3, al1))"

definition crossedUpperThreshold :: "Reel \<Rightarrow> bool" where
  "crossedUpperThreshold r = (position_y r \<ge> symbolHeight r)"

definition crossedLowerThreshold :: "Reel \<Rightarrow> bool" where
  "crossedLowerThreshold r = (position_y r \<le> - symbolHeight r)"

definition isTreshholdCrossed :: "Reel \<Rightarrow> bool" where
  "isTreshholdCrossed r = (crossedUpperThreshold r \<or> crossedLowerThreshold r)"

definition shiftSymbols :: "real \<Rightarrow> Reel \<Rightarrow> Reel" where
  "shiftSymbols shift r =
     r\<lparr>symbols := map (\<lambda>s. s\<lparr>symbol_y := symbol_y s + shift\<rparr>) (symbols r)\<rparr>"

definition stopping_onUpdate_upDown :: "Reel \<Rightarrow> AssetLoader \<Rightarrow> Reel \<times> AssetLoader" where
  "stopping_onUpdate_upDown r al =
     (if \<not> backoutStarted r \<and> isTreshholdCrossed r
      then (let (r1, al1) = loopReel_upDown r al;
                shift = (if movingDirection r1 = UP then symbolHeight r1 else - symbolHeight r1);
                r2 = shiftSymbols shift r1
            in if crossedUpperThreshold r
               then (r2\<lparr>backoutStarted := True\<rparr>, al1)
               else (r2, al1))
      else (r, al))"

definition beginStoppingAnimation_resumed_upDown :: "Reel \<Rightarrow> AssetLoader \<Rightarrow> Reel \<times> AssetLoader" where
  "beginStoppingAnimation_resumed_upDown r al =
     (let (r1, al1) = loopReel_upDown r al;
          r2 = r1\<lparr>position_y := 0\<rparr>;
          r3 = r2\<lparr>stopping := False\<rparr>
      in (r3\<lparr>stoppedSpinningEmitted := Suc (stoppedSpinningEmitted r3)\<rparr>, al1))"

fun reelStep_upDown :: "Reel \<times> AssetLoader \<Rightarrow> ReelEvent \<Rightarrow> Reel \<times> AssetLoader" where
  "reelStep_upDown (r, al) CallStartSpinning = (startSpinning_upDown r, al)"
| "reelStep_upDown (r, al) CallStopSpinning = (stopSpinning r, al)"
| "reelStep_upDown (r, al) (EaseInFrame k v) =
     (if running r k EaseIn then (r\<lparr>position_y := v\<rparr>, al) else (r, al))"
| "reelStep_upDown (r, al) (EaseInComplete k) =
     (if running r k EaseIn then startSpinning_resumed_upDown (lastFrame k r) al else (r, al))"
| "reelStep_upDown (r, al) (SpinningFrame k t) =
     (if running r k Spinning then spinning_onUpdate_upDown k (setTweenTime k t r) al
      else (r, al))"
| "reelStep_upDown (r, al) (StoppingFrame k v) =
     (if running r k Stopping then stopping_onUpdate_upDown (r\<lparr>position_y := v\<rparr>) al
      else (r, al))"
| "reelStep_upDown (r, al) (StoppingComplete k) =
     (if running r k Stopping
      then (let (r1, al1) = stopping_onUpdate_upDown (lastFrame k r) al
            in beginStoppingAnimation_resumed_upDown r1 al1)
      else (r, al))"

definition reelRun_upDown :: "Reel \<times> AssetLoader \<Rightarrow> ReelEvent list \<Rightarrow> Reel \<times> AssetLoader" where
  "reelRun_upDown = foldl reelStep_upDown"

section \<open>The reel moving in four directions (Reel.ts, third version)\<close>

fun placeSymbols_fourDirections ::
  "MovingDirection \<Rightarrow> real \<Rightarrow> real \<Rightarrow> nat \<Rightarrow> ReelSymbol list \<Rightarrow> ReelSymbol list" where
  "placeSymbols_fourDirections d w h i [] = []"
| "placeSymbols_fourDirections d w h i (s # ss) =
     (case d of
        DOWN \<Rightarrow> s\<lparr>symbol_y := (real i - 1) * h, symbol_x := 0\<rparr>
      | UP \<Rightarrow> s\<lparr>symbol_y := real i * h, symbol_x := 0\<rparr>
      | LEFT \<Rightarrow> s\<lparr>symbol_x := real i * w, symbol_y := 0\<rparr>
      | RIGHT \<Rightarrow> s\<lparr>symbol_x := (real i - 1) * w, symbol_y := 0\<rparr>)
       # placeSymbols_fourDirections d w h (Suc i) ss"

definition newReel_fourDirections :: "GameConfig \<Rightarrow> AssetLoader \<Rightarrow> Reel \<times> AssetLoader" where
  "newReel_fourDirections config al =
     (let (r, al1) = newReel config al
      in (r\<lparr>symbols :=
              placeSymbols_fourDirections (config_movingDirection config) (symbolWidth r)
                (symbolHeight r) 0 (symbols r)\<rparr>,
          al1))"

text \<open>The pairs are \<open>(x, y)\<close>.\<close>

definition getReelPosition :: "Reel \<Rightarrow> real \<times> real" where
  "getReelPosition r =
     (case movingDirection r of
        DOWN \<Rightarrow> (position_x r, symbolHeight r)
      | UP \<Rightarrow> (position_x r, - symbolHeight r)
      | LEFT \<Rightarrow> (- symbolWidth r, position_y r)
      | RIGHT \<Rightarrow> (0, position_y r))"

definition getSpinningReelPosition :: "Reel \<Rightarrow> real \<times> real" where
  "getSpinningReelPosition r =
     (case movingDirection r of
        DOWN \<Rightarrow> (position_x r, position_y r + symbolHeight r * 2)
      | UP \<Rightarrow> (position_x r, position_y r - symbolHeight r * 2)
      | RIGHT \<Rightarrow> (position_x r + symbolWidth r * 2, position_y r)
      | LEFT \<Rightarrow> (position_x r - symbolWidth r * 2, position_y r))"

definition getSymbolMovementDirection :: "Reel \<Rightarrow> ReelSymbol \<Rightarrow> real \<times> real" where
  "getSymbolMovementDirection r s =
     (case movingDirection r of
        DOWN \<Rightarrow> (symbol_x s, symbolHeight r)
      | UP \<Rightarrow> (symbol_x s, - symbolHeight r)
      | LEFT \<Rightarrow> (- symbolWidth r, 0)
      | RIGHT \<Rightarrow> (symbolWidth r, 0))"

text \<open>The result is \<open>(xAdjust, yAdjust)\<close>.\<close>

definition isSymbolOffScreen :: "Reel \<Rightarrow> ReelSymbol \<Rightarrow> real \<Rightarrow> real \<times> real" where
  "isSymbolOffScreen r s e =
     (case movingDirection r of
        DOWN \<Rightarrow> (if symbol_y s \<ge> reelAreaHeight r - e then (0, - reelAreaHeight r) else (0, 0))
      | UP \<Rightarrow> (if symbol_y s \<le> - symbolHeight r + e then (0, reelAreaHeight r) else (0, 0))
      | RIGHT \<Rightarrow> (if symbol_x s \<ge> reelAreaWidth r - e then (- reelAreaWidth r, 0) else (0, 0))
      | LEFT \<Rightarrow> (if symbol_x s \<le> - symbolWidth r + e
                then (reelAreaWidth r + symbolWidth r, 0) else (0, 0)))"

definition shiftSymbolPosition :: "Reel \<Rightarrow> ReelSymbol \<Rightarrow> AssetLoader \<Rightarrow> ReelSymbol \<times> AssetLoader" where
  "shiftSymbolPosition r s al =
     (let (x, y) = getSymbolMovementDirection r s;
          s1 = s\<lparr>symbol_y := symbol_y s + y\<rparr>;
          s2 = s1\<lparr>symbol_x := symbol_x s1 + x\<rparr>;
          (xAdjust, yAdjust) = isSymbolOffScreen r s2 eps
      in if xAdjust \<noteq> 0 \<or> yAdjust \<noteq> 0
         then (let (t, al1) = getRandomSymbolTexture al;
                   s3 = s2\<lparr>texture := t\<rparr>;
                   s4 = s3\<lparr>symbol_x := symbol_x s3 + xAdjust\<rparr>
               in (s4\<lparr>symbol_y := symbol_y s4 + yAdjust\<rparr>, al1))
         else (s2, al))"

definition loopReel_fourDirections :: "Reel \<Rightarrow> AssetLoader \<Rightarrow> Reel \<times> AssetLoader" where
  "loopReel_fourDirections r al =
     (let (ss, al1) = forEachSymbol (shiftSymbolPosition r) (symbols r) al
      in (r\<lparr>symbols := ss, loopReelCalls := Suc (loopReelCalls r)\<rparr>, al1))"

definition startSpinning_fourDirections :: "Reel \<Rightarrow> Reel" where
  "startSpinning_fourDirections r =
     (let (x, y) = getReelPosition r
      in newTween EaseIn x y (spinningTweenDuration r * 2) r)"

text \<open>
  \<open>beginStoppingAnimation\<close> of this version starts with \<open>return;\<close>: the rest of
  its body, which would make the stopping tween and emit \<open>stoppedSpinning\<close>,
  is never run.
\<close>

definition beginStoppingAnimation_fourDirections :: "Reel \<Rightarrow> Reel" where
  "beginStoppingAnimation_fourDirections r = r"

definition spinning_onUpdate_fourDirections ::
  "nat \<Rightarrow> Reel \<Rightarrow> AssetLoader \<Rightarrow> Reel \<times> AssetLoader" where
  "spinning_onUpdate_fourDirections k r al =
     (let time = tweenTime (tweens r ! k)
      in if time > spinningTweenDuration r
         then (let (r1, al1) = loopReel_fourDirections r al;
                   r2 = setTweenTime k (jsMod time (spinningTweenDuration r1)) r1
               in if needsToStop r2
                  then (beginStoppingAnimation_fourDirections (setTweenStatus k Paused r2), al1)
                  else (r2, al1))
         else (r, al))"

definition startSpinning_resumed_fourDirections ::
  "Reel \<Rightarrow> AssetLoader \<Rightarrow> Reel \<times> AssetLoader" where
  "startSpinning_resumed_fourDirections r al =
     (let (r1, al1) = loopReel_fourDirections r al;
          r2 = r1\<lparr>needsToStop := False\<rparr>;
          (tweenX, tweenY) = getSpinningReelPosition r2
      in (newTween Spinning tweenX tweenY (spinningTweenDuration r2 * 2) r2, al1))"

text \<open>
  A frame of the ease-in tween writes the coordinate that moves: \<open>y\<close> when the
  reel moves up or down, \<open>x\<close> otherwise. No stopping tween is ever made, so the
  events of a stopping tween do nothing.
\<close>

fun reelStep_fourDirections :: "Reel \<times> AssetLoader \<Rightarrow> ReelEvent \<Rightarrow> Reel \<times> AssetLoader" where
  "reelStep_fourDirections (r, al) CallStartSpinning = (startSpinning_fourDirections r, al)"
| "reelStep_fourDirections (r, al) CallStopSpinning = (stopSpinning r, al)"
| "reelStep_fourDirections (r, al) (EaseInFrame k v) =
     (if running r k EaseIn
      then (if movingDirection r = UP \<or> movingDirection r = DOWN
            then (r\<lparr>position_y := v\<rparr>, al) else (r\<lparr>position_x := v\<rparr>, al))
      else (r, al))"
| "reelStep_fourDirections (r, al) (EaseInComplete k) =
     (if running r k EaseIn then startSpinning_resumed_fourDirections (lastFrame k r) al
      else (r, al))"
| "reelStep_fourDirections (r, al) (SpinningFrame k t) =
     (if running r k Spinning then spinning_onUpdate_fourDirections k (setTweenTime k t r) al
      else (r, al))"
| "reelStep_fourDirections (r, al) (StoppingFrame k v) = (r, al)"
| "reelStep_fourDirections (r, al) (StoppingComplete k) = (r, al)"

definition reelRun_fourDirections ::
  "Reel \<times> AssetLoader \<Rightarrow> ReelEvent list \<Rightarrow> Reel \<times> AssetLoader" where
  "reelRun_fourDirections = foldl reelStep_fourDirections"

section \<open>The reel area (ReelArea.ts)\<close>

datatype ReelAreaEvents = allStartedSpinning | allStoppedSpinning

text \<open>The two closures \<open>startSpinning\<close> hands to \<open>gsap.delayedCall\<close>, for the reel \<open>i\<close>.\<close>

datatype DelayedCall = StartReel nat | StopReel nat

text \<open>The error \<open>startSpinning\<close> throws; its message quotes these three numbers.\<close>

datatype Error = InvalidConfig nat real real

record ReelArea =
  reels :: "Reel list"
  reelsFinishedSpinningCount :: nat
  stopDelay :: real
  stopInterval :: real
  startInterval :: real

text \<open>
  The reel area with what it acts on: the asset loader, the clock of the
  animation driver with its pending delayed calls (the time at which each is
  due, in the order of the calls of \<open>gsap.delayedCall\<close>), and the events the
  area has emitted, each with the time of the clock.
\<close>

record World =
  reelArea :: ReelArea
  assetLoader :: AssetLoader
  gsapTime :: real
  delayedCalls :: "(real \<times> DelayedCall) list"
  emitted :: "(real \<times> ReelAreaEvents) list"

fun newReels :: "nat \<Rightarrow> GameConfig \<Rightarrow> AssetLoader \<Rightarrow> Reel list \<times> AssetLoader" where
  "newReels 0 config al = ([], al)"
| "newReels (Suc n) config al =
     (let (r, al1) = newReel config al;
          (rs, al2) = newReels n config al1
      in (r # rs, al2))"

text \<open>
  The loop of the constructor that places the reels: side by side when the
  symbols move up or down, one under the other when they move left or right.
  (The earlier version of the file has no test of the direction and places them
  side by side.)
\<close>

fun placeReels :: "MovingDirection \<Rightarrow> real \<Rightarrow> real \<Rightarrow> nat \<Rightarrow> Reel list \<Rightarrow> Reel list" where
  "placeReels d w h i [] = []"
| "placeReels d w h i (r # rs) =
     (if d = LEFT \<or> d = RIGHT
      then r\<lparr>position_x := 0, position_y := real i * h\<rparr>
      else if d = UP \<or> d = DOWN
      then r\<lparr>position_x := real i * w, position_y := 0\<rparr>
      else r)
       # placeReels d w h (Suc i) rs"

definition newReelArea :: "GameConfig \<Rightarrow> AssetLoader \<Rightarrow> ReelArea \<times> AssetLoader" where
  "newReelArea config al =
     (let symbolWidth = config_reelAreaWidth config / real (config_reelsCount config);
          symbolHeight = config_reelAreaHeight config / real (config_symbolsPerReel config);
          (rs, al1) = newReels (config_reelsCount config) config al
      in (\<lparr>reels = placeReels (config_movingDirection config) symbolWidth symbolHeight 0 rs,
           reelsFinishedSpinningCount = 0,
           stopDelay = config_stopDelay config,
           stopInterval = config_stopInterval config,
           startInterval = config_startInterval config\<rparr>, al1))"

definition newWorld :: "GameConfig \<Rightarrow> AssetLoader \<Rightarrow> World" where
  "newWorld config al =
     (let (a, al1) = newReelArea config al
      in \<lparr>reelArea = a, assetLoader = al1, gsapTime = 0, delayedCalls = [], emitted = []\<rparr>)"

definition delayedCall :: "real \<Rightarrow> DelayedCall \<Rightarrow> World \<Rightarrow> World" where
  "delayedCall delay c w = w\<lparr>delayedCalls := delayedCalls w @ [(gsapTime w + delay, c)]\<rparr>"

definition emit :: "ReelAreaEvents \<Rightarrow> World \<Rightarrow> World" where
  "emit e w = w\<lparr>emitted := emitted w @ [(gsapTime w, e)]\<rparr>"

text \<open>The two \<open>for\<close> loops of \<open>startSpinning\<close>, over the indices of the reels.\<close>

fun scheduleStarts :: "nat list \<Rightarrow> World \<Rightarrow> World" where
  "scheduleStarts [] w = w"
| "scheduleStarts (i # is) w =
     scheduleStarts is (delayedCall (real i * startInterval (reelArea w)) (StartReel i) w)"

fun scheduleStops :: "nat list \<Rightarrow> World \<Rightarrow> World" where
  "scheduleStops [] w = w"
| "scheduleStops (i # is) w =
     scheduleStops is
       (delayedCall (stopDelay (reelArea w) + real i * stopInterval (reelArea w)) (StopReel i) w)"

text \<open>
  \<open>startSpinning\<close> of the area either throws or returns. A throw is \<open>Inl\<close> of
  the error and of the world as it is when the error is thrown, so that what
  was written before the throw can be read off; a return is \<open>Inr\<close> of the world
  after the call.
\<close>

definition ReelArea_startSpinning :: "World \<Rightarrow> Error \<times> World + World" where
  "ReelArea_startSpinning w =
     (let a = reelArea w
      in if real (length (reels a)) * startInterval a > stopDelay a
         then Inl (InvalidConfig (length (reels a)) (startInterval a) (stopDelay a), w)
         else (let w1 = w\<lparr>reelArea := a\<lparr>reelsFinishedSpinningCount := 0\<rparr>\<rparr>;
                   w2 = scheduleStarts [0..<length (reels a)] w1
               in Inr (scheduleStops [0..<length (reels a)] w2)))"

definition ReelArea_stopSpinning :: "World \<Rightarrow> World" where
  "ReelArea_stopSpinning w =
     w\<lparr>reelArea := (reelArea w)\<lparr>reels := map stopSpinning (reels (reelArea w))\<rparr>\<rparr>"

text \<open>The listener the constructor puts on \<open>stoppedSpinning\<close> of every reel.\<close>

definition onStoppedSpinning :: "World \<Rightarrow> World" where
  "onStoppedSpinning w =
     (let a = reelArea w;
          w1 = w\<lparr>reelArea := a\<lparr>reelsFinishedSpinningCount := reelsFinishedSpinningCount a + 1\<rparr>\<rparr>
      in if reelsFinishedSpinningCount (reelArea w1) = length (reels (reelArea w1))
         then emit allStoppedSpinning w1
         else w1)"

definition updateReel :: "nat \<Rightarrow> (Reel \<Rightarrow> Reel) \<Rightarrow> World \<Rightarrow> World" where
  "updateReel i f w =
     w\<lparr>reelArea := (reelArea w)\<lparr>reels := (reels (reelArea w))[i := f (reels (reelArea w) ! i)]\<rparr>\<rparr>"

text \<open>Running a delayed call. The indices are those of existing reels.\<close>

fun runDelayedCall :: "World \<Rightarrow> DelayedCall \<Rightarrow> World" where
  "runDelayedCall w (StartReel i) =
     (let w1 = updateReel i startSpinning w
      in if int i = int (length (reels (reelArea w1))) - 1
         then emit allStartedSpinning w1
         else w1)"
| "runDelayedCall w (StopReel i) = updateReel i stopSpinning w"

text \<open>
  \<open>gsap.updateRoot t\<close> moves the clock to \<open>t\<close> and runs the delayed calls that
  are due, the earliest first and, at the same time, in the order they were made.
\<close>

definition updateRoot :: "real \<Rightarrow> World \<Rightarrow> World" where
  "updateRoot t w =
     foldl runDelayedCall
       (w\<lparr>gsapTime := t, delayedCalls := filter (\<lambda>c. \<not> fst c \<le> t) (delayedCalls w)\<rparr>)
       (map snd (sort_key fst (filter (\<lambda>c. fst c \<le> t) (delayedCalls w))))"

text \<open>
  An event of the reel \<open>i\<close>. When the reel emits \<open>stoppedSpinning\<close>, the listener
  of the area runs.
\<close>

definition reelEvent :: "nat \<Rightarrow> ReelEvent \<Rightarrow> World \<Rightarrow> World" where
  "reelEvent i ev w =
     (if i < length (reels (reelArea w))
      then (let r = reels (reelArea w) ! i;
                (r1, al1) = reelStep (r, assetLoader w) ev;
                w1 = (updateReel i (\<lambda>_. r1) w)\<lparr>assetLoader := al1\<rparr>
            in if stoppedSpinningEmitted r1 > stoppedSpinningEmitted r
               then onStoppedSpinning w1
               else w1)
      else w)"

text \<open>The number of times the area has emitted the event \<open>e\<close>.\<close>

definition countEmitted :: "ReelAreaEvents \<Rightarrow> World \<Rightarrow> nat" where
  "countEmitted e w = length (filter (\<lambda>p. snd p = e) (emitted w))"

text \<open>
  What happens between two calls of \<open>startSpinning\<close> of the area: the clock
  of the animation driver advances, a reel has an event, or the stop button
  calls \<open>stopSpinning\<close> of the area.
\<close>

datatype WorldEvent = Tick real | OfReel nat ReelEvent | StopClicked

fun worldStep :: "World \<Rightarrow> WorldEvent \<Rightarrow> World" where
  "worldStep w (Tick t) = updateRoot t w"
| "worldStep w (OfReel i ev) = reelEvent i ev w"
| "worldStep w StopClicked = ReelArea_stopSpinning w"

definition worldRun :: "World \<Rightarrow> WorldEvent list \<Rightarrow> World" where
  "worldRun = foldl worldStep"

section \<open>Examples\<close>

text \<open>The configuration of the repository (config.ts), moving down.\<close>

definition gameConfig :: GameConfig where
  "gameConfig =
     \<lparr>config_reelsCount = 6, config_symbolsPerReel = 4,
      config_reelAreaWidth = 800, config_reelAreaHeight = 400,
      config_spinningSpeed = 3, config_stopDelay = 4000,
      config_stopInterval = 400, config_startInterval = 400,
      config_movingDirection = DOWN\<rparr>"

definition exampleLoader :: AssetLoader where
  "exampleLoader =
     \<lparr>symbolTextures = 3, mathRandom = (\<lambda>k. real (k mod 3) / 3 + 1 / 6), randomCalls = 0\<rparr>"

text \<open>A reel of that configuration, and one that moves up (second version).\<close>

definition exampleReel :: Reel where
  "exampleReel = fst (newReel gameConfig exampleLoader)"

definition exampleReelUp :: Reel where
  "exampleReelUp = fst (newReel_upDown (gameConfig\<lparr>config_movingDirection := UP\<rparr>) exampleLoader)"

text \<open>
  The example reel after \<open>startSpinning\<close>, the end of the ease-in and a call of
  \<open>stopSpinning\<close>: it is looping, with a stop requested.
\<close>

definition exampleLooping :: "Reel \<times> AssetLoader" where
  "exampleLooping =
     reelRun (newReel gameConfig exampleLoader)
       [CallStartSpinning, EaseInComplete 0, CallStopSpinning]"

text \<open>The example reel after \<open>startSpinning\<close>: its ease-in tween is running.\<close>

definition exampleEasingIn :: "Reel \<times> AssetLoader" where
  "exampleEasingIn = reelRun (newReel gameConfig exampleLoader) [CallStartSpinning]"

text \<open>
  A grid of three reels with a start interval of 100, and the world after a
  call of \<open>startSpinning\<close> of its area.
\<close>

definition threeReels :: GameConfig where
  "threeReels = gameConfig\<lparr>config_reelsCount := 3, config_startInterval := 100\<rparr>"

definition exampleWorld :: World where
  "exampleWorld = newWorld threeReels exampleLoader"

definition exampleStarted :: World where
  "exampleStarted =
     (case ReelArea_startSpinning exampleWorld of Inr w \<Rightarrow> w | Inl e \<Rightarrow> exampleWorld)"

text \<open>
  A whole cycle of that grid: all reels start, ease in and loop, the stop
  button is clicked, and each reel stops at its next boundary.
\<close>

definition exampleCycle :: "WorldEvent list" where
  "exampleCycle =
     [Tick 200,
      OfReel 0 (EaseInComplete 0), OfReel 1 (EaseInComplete 0), OfReel 2 (EaseInComplete 0),
      StopClicked,
      OfReel 0 (SpinningFrame 1 100), OfReel 0 (StoppingComplete 2),
      OfReel 1 (SpinningFrame 1 100), OfReel 1 (StoppingComplete 2),
      OfReel 2 (SpinningFrame 1 100), OfReel 2 (StoppingComplete 2)]"

definition exampleStopped :: World where
  "exampleStopped = worldRun exampleStarted exampleCycle"

definition exampleRestarted :: World where
  "exampleRestarted =
     (case ReelArea_startSpinning exampleStopped of Inr w \<Rightarrow> w | Inl e \<Rightarrow> exampleStopped)"

text \<open>A second cycle, after the first one has ended.\<close>

definition exampleCycle2 :: "WorldEvent list" where
  "exampleCycle2 =
     [Tick 400,
      OfReel 0 (EaseInComplete 3), OfReel 1 (EaseInComplete 3), OfReel 2 (EaseInComplete 3),
      StopClicked,
      OfReel 0 (SpinningFrame 4 100), OfReel 0 (StoppingComplete 5),
      OfReel 1 (SpinningFrame 4 100), OfReel 1 (StoppingComplete 5),
      OfReel 2 (SpinningFrame 4 100), OfReel 2 (StoppingComplete 5)]"

text \<open>A reel area so low that a symbol is lower than \<open>eps\<close>: 0.2 for 4 symbols.\<close>

definition tinyConfig :: GameConfig where
  "tinyConfig = gameConfig\<lparr>config_reelAreaHeight := 1 / 5\<rparr>"

text \<open>A whole cycle of one reel, from \<open>startSpinning\<close> to the end of the stopping tween.\<close>

definition reelCycle :: "ReelEvent list" where
  "reelCycle =
     [CallStartSpinning, EaseInFrame 0 30, EaseInComplete 0, SpinningFrame 1 50,
      SpinningFrame 1 100, CallStopSpinning, SpinningFrame 1 60, SpinningFrame 1 90,
      StoppingFrame 2 80, StoppingFrame 2 110, StoppingFrame 2 104]"

text \<open>The same without frames between the start and the end of each tween.\<close>

definition shortCycle :: "ReelEvent list" where
  "shortCycle = [CallStartSpinning, EaseInComplete 0, CallStopSpinning, SpinningFrame 1 100]"

text \<open>
  The reel of the second version moving up, and the reel of the third version
  moving down, after the same events: started, eased in, asked to stop, and a
  frame of the spinning tween past the boundary.
\<close>

definition exampleStoppingUp :: "Reel \<times> AssetLoader" where
  "exampleStoppingUp =
     reelRun_upDown (newReel_upDown (gameConfig\<lparr>config_movingDirection := UP\<rparr>) exampleLoader)
       shortCycle"

definition exampleFourDirections :: "Reel \<times> AssetLoader" where
  "exampleFourDirections =
     reelRun_fourDirections (newReel_fourDirections gameConfig exampleLoader) shortCycle"

text \<open>
  The reel of the first version started twice, so that two spinning tweens
  call \<open>beginStoppingAnimation\<close>.
\<close>

definition startedTwice :: "ReelEvent list" where
  "startedTwice =
     [CallStartSpinning, CallStartSpinning, EaseInComplete 0, EaseInComplete 1,
      CallStopSpinning, SpinningFrame 2 100, SpinningFrame 3 100]"

text \<open>The reel of the first version after the same events.\<close>

definition exampleStopping :: "Reel \<times> AssetLoader" where
  "exampleStopping = reelRun (newReel gameConfig exampleLoader) shortCycle"

section \<open>The configuration check of the reel area\<close>

lemma length_placeReels: "length (placeReels d w h i rs) = length rs"
  by (induction rs arbitrary: i) simp_all

lemma length_newReels: "length (fst (newReels n config al)) = n"
  by (induction n arbitrary: al) (simp_all add: split_beta Let_def)

lemma length_reels_newReelArea:
  "length (reels (fst (newReelArea config al))) = config_reelsCount config"
  by (simp add: newReelArea_def split_beta Let_def length_placeReels length_newReels)

lemma reelArea_newWorld: "reelArea (newWorld config al) = fst (newReelArea config al)"
  by (simp add: newWorld_def split_beta)

lemma stopDelay_newReelArea: "stopDelay (fst (newReelArea config al)) = config_stopDelay config"
  by (simp add: newReelArea_def split_beta Let_def)

lemma startInterval_newReelArea:
  "startInterval (fst (newReelArea config al)) = config_startInterval config"
  by (simp add: newReelArea_def split_beta Let_def)

lemma stopInterval_newReelArea:
  "stopInterval (fst (newReelArea config al)) = config_stopInterval config"
  by (simp add: newReelArea_def split_beta Let_def)

lemmas newWorld_simps =
  reelArea_newWorld length_reels_newReelArea stopDelay_newReelArea
  startInterval_newReelArea stopInterval_newReelArea

text \<open>
  C1, as the code has it. \<open>startSpinning\<close> of the reel area throws if and only
  if the number of reels times the start interval exceeds the stop delay (the
  number of reels, not one less). The error carries the three numbers of the
  comparison. The check is the first statement: the world at the throw is the
  world before the call, so no delayed call was made and the count of finished
  reels is as before. Otherwise the call returns a world.
\<close>

theorem ReelArea_startSpinning_check:
  "(real (length (reels (reelArea w))) * startInterval (reelArea w) > stopDelay (reelArea w)
      \<longrightarrow> ReelArea_startSpinning w =
            Inl (InvalidConfig (length (reels (reelArea w))) (startInterval (reelArea w))
                   (stopDelay (reelArea w)), w))
   \<and> (real (length (reels (reelArea w))) * startInterval (reelArea w) \<le> stopDelay (reelArea w)
      \<longrightarrow> (\<exists>w'. ReelArea_startSpinning w = Inr w'))
   \<and> (\<forall>e w'. ReelArea_startSpinning w = Inl (e, w')
      \<longrightarrow> real (length (reels (reelArea w))) * startInterval (reelArea w)
            > stopDelay (reelArea w)
          \<and> e = InvalidConfig (length (reels (reelArea w))) (startInterval (reelArea w))
                 (stopDelay (reelArea w))
          \<and> delayedCalls w' = delayedCalls w
          \<and> reelsFinishedSpinningCount (reelArea w') = reelsFinishedSpinningCount (reelArea w)
          \<and> w' = w)"
proof (intro conjI)
  show "real (length (reels (reelArea w))) * startInterval (reelArea w) > stopDelay (reelArea w)
      \<longrightarrow> ReelArea_startSpinning w =
            Inl (InvalidConfig (length (reels (reelArea w))) (startInterval (reelArea w))
                   (stopDelay (reelArea w)), w)"
    by (simp add: ReelArea_startSpinning_def Let_def)
  show "real (length (reels (reelArea w))) * startInterval (reelArea w) \<le> stopDelay (reelArea w)
      \<longrightarrow> (\<exists>w'. ReelArea_startSpinning w = Inr w')"
    by (simp add: ReelArea_startSpinning_def Let_def)
  show "\<forall>e w'. ReelArea_startSpinning w = Inl (e, w')
      \<longrightarrow> real (length (reels (reelArea w))) * startInterval (reelArea w)
            > stopDelay (reelArea w)
          \<and> e = InvalidConfig (length (reels (reelArea w))) (startInterval (reelArea w))
                 (stopDelay (reelArea w))
          \<and> delayedCalls w' = delayedCalls w
          \<and> reelsFinishedSpinningCount (reelArea w') = reelsFinishedSpinningCount (reelArea w)
          \<and> w' = w"
    by (auto simp add: ReelArea_startSpinning_def Let_def split: if_splits)
qed

theorem ReelArea_startSpinning_check_witness:
  "real (length (reels (reelArea (newWorld (gameConfig\<lparr>config_stopDelay := 1500\<rparr>) exampleLoader))))
     * startInterval (reelArea (newWorld (gameConfig\<lparr>config_stopDelay := 1500\<rparr>) exampleLoader))
     > stopDelay (reelArea (newWorld (gameConfig\<lparr>config_stopDelay := 1500\<rparr>) exampleLoader))
   \<and> ReelArea_startSpinning (newWorld (gameConfig\<lparr>config_stopDelay := 1500\<rparr>) exampleLoader)
       = Inl (InvalidConfig 6 400 1500,
              newWorld (gameConfig\<lparr>config_stopDelay := 1500\<rparr>) exampleLoader)
   \<and> delayedCalls (newWorld (gameConfig\<lparr>config_stopDelay := 1500\<rparr>) exampleLoader) = []
   \<and> real (length (reels (reelArea (newWorld gameConfig exampleLoader))))
     * startInterval (reelArea (newWorld gameConfig exampleLoader))
     \<le> stopDelay (reelArea (newWorld gameConfig exampleLoader))
   \<and> (\<exists>w'. ReelArea_startSpinning (newWorld gameConfig exampleLoader) = Inr w')"
proof -
  have bad:
    "real (length (reels (reelArea (newWorld (gameConfig\<lparr>config_stopDelay := 1500\<rparr>) exampleLoader))))
     * startInterval (reelArea (newWorld (gameConfig\<lparr>config_stopDelay := 1500\<rparr>) exampleLoader))
     > stopDelay (reelArea (newWorld (gameConfig\<lparr>config_stopDelay := 1500\<rparr>) exampleLoader))"
    "length (reels (reelArea (newWorld (gameConfig\<lparr>config_stopDelay := 1500\<rparr>) exampleLoader))) = 6"
    "startInterval (reelArea (newWorld (gameConfig\<lparr>config_stopDelay := 1500\<rparr>) exampleLoader)) = 400"
    "stopDelay (reelArea (newWorld (gameConfig\<lparr>config_stopDelay := 1500\<rparr>) exampleLoader)) = 1500"
    by (simp_all add: newWorld_simps gameConfig_def)
  have good:
    "real (length (reels (reelArea (newWorld gameConfig exampleLoader))))
     * startInterval (reelArea (newWorld gameConfig exampleLoader))
     \<le> stopDelay (reelArea (newWorld gameConfig exampleLoader))"
    by (simp add: newWorld_simps gameConfig_def)
  have calls:
    "delayedCalls (newWorld (gameConfig\<lparr>config_stopDelay := 1500\<rparr>) exampleLoader) = []"
    by (simp add: newWorld_def split_beta)
  from ReelArea_startSpinning_check
          [of "newWorld (gameConfig\<lparr>config_stopDelay := 1500\<rparr>) exampleLoader"] bad
  have thrown:
    "ReelArea_startSpinning (newWorld (gameConfig\<lparr>config_stopDelay := 1500\<rparr>) exampleLoader)
       = Inl (InvalidConfig 6 400 1500,
              newWorld (gameConfig\<lparr>config_stopDelay := 1500\<rparr>) exampleLoader)"
    by metis
  from ReelArea_startSpinning_check [of "newWorld gameConfig exampleLoader"] good
  have returned: "\<exists>w'. ReelArea_startSpinning (newWorld gameConfig exampleLoader) = Inr w'"
    by blast
  from bad(1) thrown calls good returned show ?thesis by blast
qed

text \<open>
  C1, as the specification has it, fails: with 6 reels, a start interval of 400
  and a stop delay of 2200, five intervals fit into the delay (2000), yet
  \<open>startSpinning\<close> throws, since it compares six intervals (2400) with the delay.
\<close>

theorem ReelArea_startSpinning_check_counterexample:
  "(real (length (reels (reelArea (newWorld (gameConfig\<lparr>config_stopDelay := 2200\<rparr>) exampleLoader)))) - 1)
     * startInterval (reelArea (newWorld (gameConfig\<lparr>config_stopDelay := 2200\<rparr>) exampleLoader))
     \<le> stopDelay (reelArea (newWorld (gameConfig\<lparr>config_stopDelay := 2200\<rparr>) exampleLoader))
   \<and> ReelArea_startSpinning (newWorld (gameConfig\<lparr>config_stopDelay := 2200\<rparr>) exampleLoader)
       = Inl (InvalidConfig 6 400 2200,
              newWorld (gameConfig\<lparr>config_stopDelay := 2200\<rparr>) exampleLoader)"
  by (simp add: ReelArea_startSpinning_def Let_def newWorld_simps gameConfig_def)
section \<open>Basic facts about the loop over the symbols\<close>

lemma length_forEachSymbol: "length (fst (forEachSymbol f ss al)) = length ss"
  by (induction ss arbitrary: al) (simp_all add: split_beta)

lemma length_newSymbols: "length (fst (newSymbols n al)) = n"
  by (induction n arbitrary: al) (simp_all add: split_beta)

lemma length_placeSymbols: "length (placeSymbols h i ss) = length ss"
  by (induction ss arbitrary: i) simp_all

lemma length_symbols_newReel:
  "length (symbols (fst (newReel config al))) = config_symbolsPerReel config + 1"
  by (simp add: newReel_def split_beta Let_def length_placeSymbols length_newSymbols)

lemma length_symbols_loopReel: "length (symbols (fst (loopReel r al))) = length (symbols r)"
  by (simp add: loopReel_def split_beta length_forEachSymbol)

lemma symbols_newTween: "symbols (newTween knd x y d r) = symbols r"
  by (simp add: newTween_def)

lemma symbols_setTweenTime: "symbols (setTweenTime k t r) = symbols r"
  by (simp add: setTweenTime_def Let_def)

lemma symbols_setTweenStatus: "symbols (setTweenStatus k st r) = symbols r"
  by (simp add: setTweenStatus_def)

lemma symbols_lastFrame: "symbols (lastFrame k r) = symbols r"
  by (simp add: lastFrame_def symbols_setTweenStatus)

lemma symbols_beginStoppingAnimation: "symbols (beginStoppingAnimation r) = symbols r"
  by (simp add: beginStoppingAnimation_def Let_def symbols_newTween)

lemma length_symbols_startSpinning_resumed:
  "length (symbols (fst (startSpinning_resumed r al))) = length (symbols r)"
  by (simp add: startSpinning_resumed_def split_beta Let_def symbols_newTween
      length_symbols_loopReel)

lemma length_symbols_spinning_onUpdate:
  "length (symbols (fst (spinning_onUpdate k r al))) = length (symbols r)"
  by (simp add: spinning_onUpdate_def split_beta Let_def symbols_setTweenTime
      symbols_setTweenStatus symbols_beginStoppingAnimation length_symbols_loopReel)

lemma length_symbols_stopping_onUpdate:
  "length (symbols (fst (stopping_onUpdate r al))) = length (symbols r)"
  by (simp add: stopping_onUpdate_def split_beta Let_def shiftBack_def length_symbols_loopReel)

lemma length_symbols_beginStoppingAnimation_resumed:
  "length (symbols (fst (beginStoppingAnimation_resumed r al))) = length (symbols r)"
  by (simp add: beginStoppingAnimation_resumed_def split_beta Let_def length_symbols_loopReel)

lemma length_symbols_reelStep:
  "length (symbols (fst (reelStep s e))) = length (symbols (fst s))"
proof (cases s)
  case (Pair r al)
  show ?thesis
    unfolding Pair
    by (cases e)
      (simp_all add: startSpinning_def stopSpinning_def symbols_newTween split_beta
        length_symbols_startSpinning_resumed length_symbols_spinning_onUpdate
        length_symbols_stopping_onUpdate length_symbols_beginStoppingAnimation_resumed
        symbols_lastFrame symbols_setTweenTime)
qed

lemma length_symbols_reelRun:
  "length (symbols (fst (reelRun s es))) = length (symbols (fst s))"
  unfolding reelRun_def
  by (induction es arbitrary: s) (simp_all add: length_symbols_reelStep)

lemma reelRun_Cons: "reelRun s (e # es) = reelRun (reelStep s e) es"
  by (simp add: reelRun_def)

lemma reelRun_Nil: "reelRun s [] = s"
  by (simp add: reelRun_def)

lemma reelRun_append: "reelRun s (es @ es') = reelRun (reelRun s es) es'"
  by (simp add: reelRun_def)

section \<open>What the helper functions leave as it is\<close>

lemma newTween_fields [simp]:
  "symbols (newTween knd x y d r) = symbols r"
  "stopping (newTween knd x y d r) = stopping r"
  "backoutStarted (newTween knd x y d r) = backoutStarted r"
  "needsToStop (newTween knd x y d r) = needsToStop r"
  "symbolWidth (newTween knd x y d r) = symbolWidth r"
  "symbolHeight (newTween knd x y d r) = symbolHeight r"
  "reelAreaWidth (newTween knd x y d r) = reelAreaWidth r"
  "reelAreaHeight (newTween knd x y d r) = reelAreaHeight r"
  "movingDirection (newTween knd x y d r) = movingDirection r"
  "spinningTweenDuration (newTween knd x y d r) = spinningTweenDuration r"
  "position_x (newTween knd x y d r) = position_x r"
  "position_y (newTween knd x y d r) = position_y r"
  "stoppedSpinningEmitted (newTween knd x y d r) = stoppedSpinningEmitted r"
  "loopReelCalls (newTween knd x y d r) = loopReelCalls r"
  by (simp_all add: newTween_def)

lemma setTweenTime_fields [simp]:
  "symbols (setTweenTime k t r) = symbols r"
  "stopping (setTweenTime k t r) = stopping r"
  "backoutStarted (setTweenTime k t r) = backoutStarted r"
  "needsToStop (setTweenTime k t r) = needsToStop r"
  "symbolWidth (setTweenTime k t r) = symbolWidth r"
  "symbolHeight (setTweenTime k t r) = symbolHeight r"
  "reelAreaWidth (setTweenTime k t r) = reelAreaWidth r"
  "reelAreaHeight (setTweenTime k t r) = reelAreaHeight r"
  "movingDirection (setTweenTime k t r) = movingDirection r"
  "spinningTweenDuration (setTweenTime k t r) = spinningTweenDuration r"
  "stoppedSpinningEmitted (setTweenTime k t r) = stoppedSpinningEmitted r"
  "loopReelCalls (setTweenTime k t r) = loopReelCalls r"
  by (simp_all add: setTweenTime_def Let_def)

lemma setTweenStatus_fields [simp]:
  "symbols (setTweenStatus k st r) = symbols r"
  "stopping (setTweenStatus k st r) = stopping r"
  "backoutStarted (setTweenStatus k st r) = backoutStarted r"
  "needsToStop (setTweenStatus k st r) = needsToStop r"
  "symbolWidth (setTweenStatus k st r) = symbolWidth r"
  "symbolHeight (setTweenStatus k st r) = symbolHeight r"
  "reelAreaWidth (setTweenStatus k st r) = reelAreaWidth r"
  "reelAreaHeight (setTweenStatus k st r) = reelAreaHeight r"
  "movingDirection (setTweenStatus k st r) = movingDirection r"
  "spinningTweenDuration (setTweenStatus k st r) = spinningTweenDuration r"
  "position_x (setTweenStatus k st r) = position_x r"
  "position_y (setTweenStatus k st r) = position_y r"
  "stoppedSpinningEmitted (setTweenStatus k st r) = stoppedSpinningEmitted r"
  "loopReelCalls (setTweenStatus k st r) = loopReelCalls r"
  by (simp_all add: setTweenStatus_def)

lemma lastFrame_fields [simp]:
  "symbols (lastFrame k r) = symbols r"
  "stopping (lastFrame k r) = stopping r"
  "backoutStarted (lastFrame k r) = backoutStarted r"
  "needsToStop (lastFrame k r) = needsToStop r"
  "symbolWidth (lastFrame k r) = symbolWidth r"
  "symbolHeight (lastFrame k r) = symbolHeight r"
  "reelAreaWidth (lastFrame k r) = reelAreaWidth r"
  "reelAreaHeight (lastFrame k r) = reelAreaHeight r"
  "movingDirection (lastFrame k r) = movingDirection r"
  "spinningTweenDuration (lastFrame k r) = spinningTweenDuration r"
  "stoppedSpinningEmitted (lastFrame k r) = stoppedSpinningEmitted r"
  "loopReelCalls (lastFrame k r) = loopReelCalls r"
  by (simp_all add: lastFrame_def setTweenStatus_def)

lemma loopReel_fields [simp]:
  "stopping (fst (loopReel r al)) = stopping r"
  "backoutStarted (fst (loopReel r al)) = backoutStarted r"
  "needsToStop (fst (loopReel r al)) = needsToStop r"
  "symbolWidth (fst (loopReel r al)) = symbolWidth r"
  "symbolHeight (fst (loopReel r al)) = symbolHeight r"
  "reelAreaWidth (fst (loopReel r al)) = reelAreaWidth r"
  "reelAreaHeight (fst (loopReel r al)) = reelAreaHeight r"
  "movingDirection (fst (loopReel r al)) = movingDirection r"
  "spinningTweenDuration (fst (loopReel r al)) = spinningTweenDuration r"
  "position_x (fst (loopReel r al)) = position_x r"
  "position_y (fst (loopReel r al)) = position_y r"
  "tweens (fst (loopReel r al)) = tweens r"
  "stoppedSpinningEmitted (fst (loopReel r al)) = stoppedSpinningEmitted r"
  by (simp_all add: loopReel_def split_beta)

lemma loopReel_upDown_fields [simp]:
  "stopping (fst (loopReel_upDown r al)) = stopping r"
  "backoutStarted (fst (loopReel_upDown r al)) = backoutStarted r"
  "needsToStop (fst (loopReel_upDown r al)) = needsToStop r"
  "symbolWidth (fst (loopReel_upDown r al)) = symbolWidth r"
  "symbolHeight (fst (loopReel_upDown r al)) = symbolHeight r"
  "reelAreaWidth (fst (loopReel_upDown r al)) = reelAreaWidth r"
  "reelAreaHeight (fst (loopReel_upDown r al)) = reelAreaHeight r"
  "movingDirection (fst (loopReel_upDown r al)) = movingDirection r"
  "spinningTweenDuration (fst (loopReel_upDown r al)) = spinningTweenDuration r"
  "position_x (fst (loopReel_upDown r al)) = position_x r"
  "position_y (fst (loopReel_upDown r al)) = position_y r"
  "tweens (fst (loopReel_upDown r al)) = tweens r"
  "stoppedSpinningEmitted (fst (loopReel_upDown r al)) = stoppedSpinningEmitted r"
  by (simp_all add: loopReel_upDown_def split_beta)

lemma loopReel_fourDirections_fields [simp]:
  "stopping (fst (loopReel_fourDirections r al)) = stopping r"
  "backoutStarted (fst (loopReel_fourDirections r al)) = backoutStarted r"
  "needsToStop (fst (loopReel_fourDirections r al)) = needsToStop r"
  "symbolWidth (fst (loopReel_fourDirections r al)) = symbolWidth r"
  "symbolHeight (fst (loopReel_fourDirections r al)) = symbolHeight r"
  "reelAreaWidth (fst (loopReel_fourDirections r al)) = reelAreaWidth r"
  "reelAreaHeight (fst (loopReel_fourDirections r al)) = reelAreaHeight r"
  "movingDirection (fst (loopReel_fourDirections r al)) = movingDirection r"
  "spinningTweenDuration (fst (loopReel_fourDirections r al)) = spinningTweenDuration r"
  "position_x (fst (loopReel_fourDirections r al)) = position_x r"
  "position_y (fst (loopReel_fourDirections r al)) = position_y r"
  "tweens (fst (loopReel_fourDirections r al)) = tweens r"
  "stoppedSpinningEmitted (fst (loopReel_fourDirections r al)) = stoppedSpinningEmitted r"
  by (simp_all add: loopReel_fourDirections_def split_beta)

lemma shiftBack_fields [simp]:
  "stopping (shiftBack r) = stopping r"
  "backoutStarted (shiftBack r) = backoutStarted r"
  "needsToStop (shiftBack r) = needsToStop r"
  "symbolWidth (shiftBack r) = symbolWidth r"
  "symbolHeight (shiftBack r) = symbolHeight r"
  "reelAreaWidth (shiftBack r) = reelAreaWidth r"
  "reelAreaHeight (shiftBack r) = reelAreaHeight r"
  "movingDirection (shiftBack r) = movingDirection r"
  "spinningTweenDuration (shiftBack r) = spinningTweenDuration r"
  "position_x (shiftBack r) = position_x r"
  "position_y (shiftBack r) = position_y r"
  "tweens (shiftBack r) = tweens r"
  "stoppedSpinningEmitted (shiftBack r) = stoppedSpinningEmitted r"
  "loopReelCalls (shiftBack r) = loopReelCalls r"
  by (simp_all add: shiftBack_def)

lemma shiftSymbols_fields [simp]:
  "stopping (shiftSymbols x r) = stopping r"
  "backoutStarted (shiftSymbols x r) = backoutStarted r"
  "needsToStop (shiftSymbols x r) = needsToStop r"
  "symbolWidth (shiftSymbols x r) = symbolWidth r"
  "symbolHeight (shiftSymbols x r) = symbolHeight r"
  "reelAreaWidth (shiftSymbols x r) = reelAreaWidth r"
  "reelAreaHeight (shiftSymbols x r) = reelAreaHeight r"
  "movingDirection (shiftSymbols x r) = movingDirection r"
  "spinningTweenDuration (shiftSymbols x r) = spinningTweenDuration r"
  "position_x (shiftSymbols x r) = position_x r"
  "position_y (shiftSymbols x r) = position_y r"
  "tweens (shiftSymbols x r) = tweens r"
  "stoppedSpinningEmitted (shiftSymbols x r) = stoppedSpinningEmitted r"
  "loopReelCalls (shiftSymbols x r) = loopReelCalls r"
  by (simp_all add: shiftSymbols_def)

lemma stopSpinning_fields [simp]:
  "symbols (stopSpinning r) = symbols r"
  "stopping (stopSpinning r) = stopping r"
  "backoutStarted (stopSpinning r) = backoutStarted r"
  "symbolWidth (stopSpinning r) = symbolWidth r"
  "symbolHeight (stopSpinning r) = symbolHeight r"
  "reelAreaWidth (stopSpinning r) = reelAreaWidth r"
  "reelAreaHeight (stopSpinning r) = reelAreaHeight r"
  "movingDirection (stopSpinning r) = movingDirection r"
  "spinningTweenDuration (stopSpinning r) = spinningTweenDuration r"
  "position_x (stopSpinning r) = position_x r"
  "position_y (stopSpinning r) = position_y r"
  "tweens (stopSpinning r) = tweens r"
  "stoppedSpinningEmitted (stopSpinning r) = stoppedSpinningEmitted r"
  "loopReelCalls (stopSpinning r) = loopReelCalls r"
  by (simp_all add: stopSpinning_def)

lemma startSpinning_fields [simp]:
  "symbols (startSpinning r) = symbols r"
  "stopping (startSpinning r) = stopping r"
  "backoutStarted (startSpinning r) = backoutStarted r"
  "needsToStop (startSpinning r) = needsToStop r"
  "symbolWidth (startSpinning r) = symbolWidth r"
  "symbolHeight (startSpinning r) = symbolHeight r"
  "reelAreaWidth (startSpinning r) = reelAreaWidth r"
  "reelAreaHeight (startSpinning r) = reelAreaHeight r"
  "movingDirection (startSpinning r) = movingDirection r"
  "spinningTweenDuration (startSpinning r) = spinningTweenDuration r"
  "position_x (startSpinning r) = position_x r"
  "position_y (startSpinning r) = position_y r"
  "stoppedSpinningEmitted (startSpinning r) = stoppedSpinningEmitted r"
  "loopReelCalls (startSpinning r) = loopReelCalls r"
  by (simp_all add: startSpinning_def)

lemma tweens_newTween [simp]:
  "tweens (newTween knd x y d r) =
     tweens r @ [\<lparr>tweenKind = knd, tweenFromX = position_x r, tweenFrom = position_y r,
                  tweenToX = x, tweenTo = y, tweenDuration = d, tweenTime = 0,
                  tweenStatus = Running\<rparr>]"
  by (simp add: newTween_def)

lemma tweens_setTweenTime [simp]:
  "tweens (setTweenTime k t r) = (tweens r)[k := (tweens r ! k)\<lparr>tweenTime := t\<rparr>]"
  by (simp add: setTweenTime_def Let_def)

lemma tweens_setTweenStatus [simp]:
  "tweens (setTweenStatus k st r) = (tweens r)[k := (tweens r ! k)\<lparr>tweenStatus := st\<rparr>]"
  by (simp add: setTweenStatus_def)

lemma tweens_lastFrame [simp]:
  "tweens (lastFrame k r) = (tweens r)[k := (tweens r ! k)\<lparr>tweenStatus := Completed\<rparr>]"
  by (simp add: lastFrame_def)

lemma position_y_lastFrame [simp]: "position_y (lastFrame k r) = tweenTo (tweens r ! k)"
  by (simp add: lastFrame_def)

lemma loopReelCalls_loopReel [simp]:
  "loopReelCalls (fst (loopReel r al)) = Suc (loopReelCalls r)"
  by (simp add: loopReel_def split_beta)

lemma loopReelCalls_loopReel_upDown [simp]:
  "loopReelCalls (fst (loopReel_upDown r al)) = Suc (loopReelCalls r)"
  by (simp add: loopReel_upDown_def split_beta)

lemma symbols_loopReel:
  "symbols (fst (loopReel r al)) = fst (forEachSymbol (loopSymbol r) (symbols r) al)"
  by (simp add: loopReel_def split_beta)

lemma needsToStop_stopSpinning [simp]: "needsToStop (stopSpinning r)"
  by (simp add: stopSpinning_def)

lemma symbols_shiftBack [simp]:
  "symbols (shiftBack r) = map (\<lambda>s. s\<lparr>symbol_y := symbol_y s - symbolHeight r\<rparr>) (symbols r)"
  by (simp add: shiftBack_def)

lemma beginStoppingAnimation_fields [simp]:
  "symbols (beginStoppingAnimation r) = symbols r"
  "needsToStop (beginStoppingAnimation r) = needsToStop r"
  "symbolHeight (beginStoppingAnimation r) = symbolHeight r"
  "reelAreaHeight (beginStoppingAnimation r) = reelAreaHeight r"
  "spinningTweenDuration (beginStoppingAnimation r) = spinningTweenDuration r"
  "position_y (beginStoppingAnimation r) = position_y r"
  "stoppedSpinningEmitted (beginStoppingAnimation r) = stoppedSpinningEmitted r"
  "loopReelCalls (beginStoppingAnimation r) = loopReelCalls r"
  "stopping (beginStoppingAnimation r)"
  by (simp_all add: beginStoppingAnimation_def Let_def)

section \<open>What the callbacks and the resumed methods do to the fields\<close>

lemma spinning_onUpdate_fields [simp]:
  "symbolHeight (fst (spinning_onUpdate k r al)) = symbolHeight r"
  "reelAreaHeight (fst (spinning_onUpdate k r al)) = reelAreaHeight r"
  "spinningTweenDuration (fst (spinning_onUpdate k r al)) = spinningTweenDuration r"
  "needsToStop (fst (spinning_onUpdate k r al)) = needsToStop r"
  "stoppedSpinningEmitted (fst (spinning_onUpdate k r al)) = stoppedSpinningEmitted r"
  by (simp_all add: spinning_onUpdate_def split_beta Let_def)

lemma symbols_spinning_onUpdate:
  "symbols (fst (spinning_onUpdate k r al)) =
     (if tweenTime (tweens r ! k) > spinningTweenDuration r then symbols (fst (loopReel r al))
      else symbols r)"
  by (simp add: spinning_onUpdate_def split_beta Let_def)

lemma loopReelCalls_spinning_onUpdate:
  "loopReelCalls (fst (spinning_onUpdate k r al)) =
     (if tweenTime (tweens r ! k) > spinningTweenDuration r then Suc (loopReelCalls r)
      else loopReelCalls r)"
  by (simp add: spinning_onUpdate_def split_beta Let_def)

lemma stopping_spinning_onUpdate:
  "stopping (fst (spinning_onUpdate k r al)) =
     (stopping r \<or> (tweenTime (tweens r ! k) > spinningTweenDuration r \<and> needsToStop r))"
  by (simp add: spinning_onUpdate_def split_beta Let_def beginStoppingAnimation_def)

lemma backoutStarted_spinning_onUpdate:
  "backoutStarted (fst (spinning_onUpdate k r al)) =
     (backoutStarted r \<and>
      (stopping r \<or> \<not> (tweenTime (tweens r ! k) > spinningTweenDuration r \<and> needsToStop r)))"
  by (simp add: spinning_onUpdate_def split_beta Let_def beginStoppingAnimation_def)

lemma stopping_onUpdate_fields [simp]:
  "symbolHeight (fst (stopping_onUpdate r al)) = symbolHeight r"
  "reelAreaHeight (fst (stopping_onUpdate r al)) = reelAreaHeight r"
  "spinningTweenDuration (fst (stopping_onUpdate r al)) = spinningTweenDuration r"
  "needsToStop (fst (stopping_onUpdate r al)) = needsToStop r"
  "stopping (fst (stopping_onUpdate r al)) = stopping r"
  "tweens (fst (stopping_onUpdate r al)) = tweens r"
  "position_y (fst (stopping_onUpdate r al)) = position_y r"
  "stoppedSpinningEmitted (fst (stopping_onUpdate r al)) = stoppedSpinningEmitted r"
  by (simp_all add: stopping_onUpdate_def split_beta Let_def)

lemma symbols_stopping_onUpdate:
  "symbols (fst (stopping_onUpdate r al)) =
     (if \<not> backoutStarted r \<and> position_y r \<ge> symbolHeight r
      then map (\<lambda>s. s\<lparr>symbol_y := symbol_y s - symbolHeight r\<rparr>) (symbols (fst (loopReel r al)))
      else symbols r)"
  by (simp add: stopping_onUpdate_def split_beta Let_def)

lemma loopReelCalls_stopping_onUpdate:
  "loopReelCalls (fst (stopping_onUpdate r al)) =
     (if \<not> backoutStarted r \<and> position_y r \<ge> symbolHeight r then Suc (loopReelCalls r)
      else loopReelCalls r)"
  by (simp add: stopping_onUpdate_def split_beta Let_def)

lemma backoutStarted_stopping_onUpdate:
  "backoutStarted (fst (stopping_onUpdate r al)) =
     (backoutStarted r \<or> position_y r \<ge> symbolHeight r)"
  by (simp add: stopping_onUpdate_def split_beta Let_def)

lemma startSpinning_resumed_fields [simp]:
  "symbolHeight (fst (startSpinning_resumed r al)) = symbolHeight r"
  "reelAreaHeight (fst (startSpinning_resumed r al)) = reelAreaHeight r"
  "spinningTweenDuration (fst (startSpinning_resumed r al)) = spinningTweenDuration r"
  "stopping (fst (startSpinning_resumed r al)) = stopping r"
  "backoutStarted (fst (startSpinning_resumed r al)) = backoutStarted r"
  "stoppedSpinningEmitted (fst (startSpinning_resumed r al)) = stoppedSpinningEmitted r"
  "symbols (fst (startSpinning_resumed r al)) = symbols (fst (loopReel r al))"
  "loopReelCalls (fst (startSpinning_resumed r al)) = Suc (loopReelCalls r)"
  "position_y (fst (startSpinning_resumed r al)) = 0"
  "\<not> needsToStop (fst (startSpinning_resumed r al))"
  by (simp_all add: startSpinning_resumed_def split_beta Let_def)

lemma beginStoppingAnimation_resumed_fields [simp]:
  "symbolHeight (fst (beginStoppingAnimation_resumed r al)) = symbolHeight r"
  "reelAreaHeight (fst (beginStoppingAnimation_resumed r al)) = reelAreaHeight r"
  "spinningTweenDuration (fst (beginStoppingAnimation_resumed r al)) = spinningTweenDuration r"
  "needsToStop (fst (beginStoppingAnimation_resumed r al)) = needsToStop r"
  "backoutStarted (fst (beginStoppingAnimation_resumed r al)) = backoutStarted r"
  "tweens (fst (beginStoppingAnimation_resumed r al)) = tweens r"
  "stoppedSpinningEmitted (fst (beginStoppingAnimation_resumed r al))
     = Suc (stoppedSpinningEmitted r)"
  "symbols (fst (beginStoppingAnimation_resumed r al)) = symbols (fst (loopReel r al))"
  "loopReelCalls (fst (beginStoppingAnimation_resumed r al)) = Suc (loopReelCalls r)"
  "position_y (fst (beginStoppingAnimation_resumed r al)) = 0"
  "\<not> stopping (fst (beginStoppingAnimation_resumed r al))"
  by (simp_all add: beginStoppingAnimation_resumed_def split_beta Let_def)

text \<open>A pass of \<open>loopReel\<close> reads the symbols and the two heights only.\<close>

lemma loopSymbol_cong:
  "symbolHeight r = symbolHeight r' \<Longrightarrow> reelAreaHeight r = reelAreaHeight r'
   \<Longrightarrow> loopSymbol r = loopSymbol r'"
  by (intro ext) (simp add: loopSymbol_def Let_def)

lemma loopReel_cong:
  assumes "symbols r = symbols r'" "symbolHeight r = symbolHeight r'"
    "reelAreaHeight r = reelAreaHeight r'"
  shows "symbols (fst (loopReel r al)) = symbols (fst (loopReel r' al))"
    and "snd (loopReel r al) = snd (loopReel r' al)"
  using assms loopSymbol_cong [of r r']
  by (simp_all add: loopReel_def split_beta)

lemma loopReel_setTweenTime [simp]:
  "symbols (fst (loopReel (setTweenTime k t r) al)) = symbols (fst (loopReel r al))"
  "snd (loopReel (setTweenTime k t r) al) = snd (loopReel r al)"
  by (simp_all add: loopReel_cong [of "setTweenTime k t r" r])

lemma loopReel_lastFrame [simp]:
  "symbols (fst (loopReel (lastFrame k r) al)) = symbols (fst (loopReel r al))"
  "snd (loopReel (lastFrame k r) al) = snd (loopReel r al)"
  by (simp_all add: loopReel_cong [of "lastFrame k r" r])

lemma loopReel_position_y [simp]:
  "symbols (fst (loopReel (r\<lparr>position_y := v\<rparr>) al)) = symbols (fst (loopReel r al))"
  "snd (loopReel (r\<lparr>position_y := v\<rparr>) al) = snd (loopReel r al)"
  by (simp_all add: loopReel_cong [of "r\<lparr>position_y := v\<rparr>" r])

section \<open>The example reels, evaluated\<close>

lemma exampleLoader_draw:
  "getRandomSymbolTexture (exampleLoader\<lparr>randomCalls := k\<rparr>)
     = (k mod 3, exampleLoader\<lparr>randomCalls := Suc k\<rparr>)"
proof -
  have "(real (k mod 3) / 3 + 1 / 6) * 3 = real (k mod 3) + 1 / 2"
    by (simp add: field_simps)
  moreover have "\<lfloor>real (k mod 3) + 1 / 2\<rfloor> = int (k mod 3)"
    by linarith
  ultimately show ?thesis
    by (simp add: getRandomSymbolTexture_def exampleLoader_def)
qed

lemma exampleLoader_0: "exampleLoader = exampleLoader\<lparr>randomCalls := 0\<rparr>"
  by (simp add: exampleLoader_def)

lemma five: "(5::nat) = Suc (Suc (Suc (Suc (Suc 0))))"
  by simp

lemma newSymbols_example:
  "newSymbols 5 exampleLoader =
     ([\<lparr>texture = 0, symbol_x = 0, symbol_y = 0\<rparr>,
       \<lparr>texture = 1, symbol_x = 0, symbol_y = 0\<rparr>,
       \<lparr>texture = 2, symbol_x = 0, symbol_y = 0\<rparr>,
       \<lparr>texture = 0, symbol_x = 0, symbol_y = 0\<rparr>,
       \<lparr>texture = 1, symbol_x = 0, symbol_y = 0\<rparr>], exampleLoader\<lparr>randomCalls := 5\<rparr>)"
  apply (subst exampleLoader_0)
  apply (subst five)
  apply (simp only: newSymbols.simps exampleLoader_draw Let_def split_conv)
  apply simp
  done


lemma newReel_example:
  "newReel gameConfig exampleLoader =
     (\<lparr>symbols =
         [\<lparr>texture = 0, symbol_x = 0, symbol_y = - 100\<rparr>,
          \<lparr>texture = 1, symbol_x = 0, symbol_y = 0\<rparr>,
          \<lparr>texture = 2, symbol_x = 0, symbol_y = 100\<rparr>,
          \<lparr>texture = 0, symbol_x = 0, symbol_y = 200\<rparr>,
          \<lparr>texture = 1, symbol_x = 0, symbol_y = 300\<rparr>],
       stopping = False, backoutStarted = False, needsToStop = False,
       symbolWidth = 400 / 3, symbolHeight = 100, reelAreaWidth = 800, reelAreaHeight = 400,
       movingDirection = DOWN, spinningTweenDuration = 250 / 3,
       position_x = 0, position_y = 0, tweens = [],
       stoppedSpinningEmitted = 0, loopReelCalls = 0\<rparr>,
      exampleLoader\<lparr>randomCalls := 5\<rparr>)"
  by (simp add: newReel_def gameConfig_def newSymbols_example)

lemma exampleReelUp_eq:
  "exampleReelUp =
     \<lparr>symbols =
         [\<lparr>texture = 0, symbol_x = 0, symbol_y = 0\<rparr>,
          \<lparr>texture = 1, symbol_x = 0, symbol_y = 100\<rparr>,
          \<lparr>texture = 2, symbol_x = 0, symbol_y = 200\<rparr>,
          \<lparr>texture = 0, symbol_x = 0, symbol_y = 300\<rparr>,
          \<lparr>texture = 1, symbol_x = 0, symbol_y = 400\<rparr>],
       stopping = False, backoutStarted = False, needsToStop = False,
       symbolWidth = 400 / 3, symbolHeight = 100, reelAreaWidth = 800, reelAreaHeight = 400,
       movingDirection = UP, spinningTweenDuration = 250 / 3,
       position_x = 0, position_y = 0, tweens = [],
       stoppedSpinningEmitted = 0, loopReelCalls = 0\<rparr>"
  by (simp add: exampleReelUp_def newReel_upDown_def newReel_def gameConfig_def
      newSymbols_example)

lemma exampleReel_eq:
  "exampleReel = fst (newReel gameConfig exampleLoader)"
  by (simp add: exampleReel_def)

lemma exampleReel_literal:
  "exampleReel =
     \<lparr>symbols =
         [\<lparr>texture = 0, symbol_x = 0, symbol_y = - 100\<rparr>,
          \<lparr>texture = 1, symbol_x = 0, symbol_y = 0\<rparr>,
          \<lparr>texture = 2, symbol_x = 0, symbol_y = 100\<rparr>,
          \<lparr>texture = 0, symbol_x = 0, symbol_y = 200\<rparr>,
          \<lparr>texture = 1, symbol_x = 0, symbol_y = 300\<rparr>],
       stopping = False, backoutStarted = False, needsToStop = False,
       symbolWidth = 400 / 3, symbolHeight = 100, reelAreaWidth = 800, reelAreaHeight = 400,
       movingDirection = DOWN, spinningTweenDuration = 250 / 3,
       position_x = 0, position_y = 0, tweens = [],
       stoppedSpinningEmitted = 0, loopReelCalls = 0\<rparr>"
  by (simp add: exampleReel_def newReel_example)

lemmas reel_eval =
  reelRun_Cons reelRun_Nil startSpinning_def newTween_def running_def lastFrame_def
  setTweenStatus_def setTweenTime_def startSpinning_resumed_def spinning_onUpdate_def
  stopping_onUpdate_def beginStoppingAnimation_def beginStoppingAnimation_resumed_def
  shiftBack_def loopReel_def loopSymbol_def eps_def exampleLoader_draw stopSpinning_def
  jsMod_def split_beta Let_def

lemma exampleLooping_literal:
  "exampleLooping =
    (\<lparr>symbols =
    [\<lparr>texture = 0, symbol_x = 0, symbol_y = 0\<rparr>,
     \<lparr>texture = 1, symbol_x = 0, symbol_y = 100\<rparr>,
     \<lparr>texture = 2, symbol_x = 0, symbol_y = 200\<rparr>,
     \<lparr>texture = 0, symbol_x = 0, symbol_y = 300\<rparr>,
     \<lparr>texture = 2, symbol_x = 0, symbol_y = - 100\<rparr>],
    stopping = False, backoutStarted = False, needsToStop = True,
    symbolWidth = 400 / 3, symbolHeight = 100, reelAreaWidth = 800,
    reelAreaHeight = 400, movingDirection = DOWN,
    spinningTweenDuration = 250 / 3, position_x = 0, position_y = 0,
    tweens =
      [\<lparr>tweenKind = EaseIn, tweenFromX = 0, tweenFrom = 0, tweenToX = 0,
          tweenTo = 100, tweenDuration = 500 / 3, tweenTime = 0,
          tweenStatus = Completed\<rparr>,
       \<lparr>tweenKind = Spinning, tweenFromX = 0, tweenFrom = 0, tweenToX = 0,
          tweenTo = 200, tweenDuration = 500 / 3, tweenTime = 0,
          tweenStatus = Running\<rparr>],
    stoppedSpinningEmitted = 0, loopReelCalls = 1\<rparr>, exampleLoader\<lparr>randomCalls := 6\<rparr>)"
  by (simp add: exampleLooping_def newReel_example reel_eval)

section \<open>The number of symbols of a reel\<close>

text \<open>
  C8. A reel is built with \<open>symbolsPerReel + 1\<close> symbols, and it has that many
  after any sequence of events: calls of \<open>startSpinning\<close> and \<open>stopSpinning\<close>,
  frames and completions of its tweens, with the passes of \<open>loopReel\<close> and the
  calls of \<open>beginStoppingAnimation\<close> they run.
\<close>

theorem reel_symbols_count:
  "length (symbols (fst (newReel config al))) = config_symbolsPerReel config + 1
   \<and> length (symbols (fst (reelRun (newReel config al) es))) = config_symbolsPerReel config + 1
   \<and> length (symbols (fst (loopReel r al))) = length (symbols r)
   \<and> length (symbols (startSpinning r)) = length (symbols r)
   \<and> length (symbols (stopSpinning r)) = length (symbols r)
   \<and> length (symbols (beginStoppingAnimation r)) = length (symbols r)"
  by (simp add: length_symbols_reelRun length_symbols_newReel length_symbols_loopReel
      startSpinning_def stopSpinning_def symbols_newTween symbols_beginStoppingAnimation)

theorem reel_symbols_count_witness:
  "length (symbols (fst (newReel gameConfig exampleLoader))) = 5
   \<and> length (symbols (fst (reelRun (newReel gameConfig exampleLoader)
        [CallStartSpinning, EaseInComplete 0, CallStopSpinning, SpinningFrame 1 100,
         StoppingFrame 2 120, StoppingComplete 2]))) = 5
   \<and> length (symbols (fst (loopReel exampleReel exampleLoader))) = 5
   \<and> length (symbols (startSpinning exampleReel)) = 5
   \<and> length (symbols (stopSpinning exampleReel)) = 5
   \<and> length (symbols (beginStoppingAnimation exampleReel)) = 5"
  using reel_symbols_count [of gameConfig exampleLoader
          "[CallStartSpinning, EaseInComplete 0, CallStopSpinning, SpinningFrame 1 100,
            StoppingFrame 2 120, StoppingComplete 2]" exampleReel]
  by (simp add: gameConfig_def exampleReel_literal)

section \<open>The pass of \<open>loopReel\<close>\<close>

lemma snd_getRandomSymbolTexture:
  "snd (getRandomSymbolTexture al) = al\<lparr>randomCalls := Suc (randomCalls al)\<rparr>"
  by (simp add: getRandomSymbolTexture_def)

text \<open>
  A loop body that moves every symbol by \<open>g\<close> and gives the symbols that
  satisfy \<open>c\<close> a random texture: the symbol \<open>i\<close> gets the texture of the draw
  that follows the draws for the symbols before it.
\<close>

lemma forEachSymbol_loader:
  assumes f: "\<And>s al. f s al =
      (if c s then ((g s)\<lparr>texture := fst (getRandomSymbolTexture al)\<rparr>,
                    snd (getRandomSymbolTexture al))
       else (g s, al))"
  shows "snd (forEachSymbol f ss al) = al\<lparr>randomCalls := randomCalls al + length (filter c ss)\<rparr>"
proof (induction ss arbitrary: al)
  case Nil
  show ?case by simp
next
  case (Cons s ss)
  show ?case
    by (simp add: split_beta f [of s al] Cons.IH snd_getRandomSymbolTexture)
qed

lemma forEachSymbol_nth:
  assumes f: "\<And>s al. f s al =
      (if c s then ((g s)\<lparr>texture := fst (getRandomSymbolTexture al)\<rparr>,
                    snd (getRandomSymbolTexture al))
       else (g s, al))"
    and i: "i < length ss"
  shows "fst (forEachSymbol f ss al) ! i =
     (if c (ss ! i)
      then (g (ss ! i))\<lparr>texture := fst (getRandomSymbolTexture
              (al\<lparr>randomCalls := randomCalls al + length (filter c (take i ss))\<rparr>))\<rparr>
      else g (ss ! i))"
  using i
proof (induction ss arbitrary: al i)
  case Nil
  then show ?case by simp
next
  case (Cons s ss)
  show ?case
  proof (cases i)
    case 0
    then show ?thesis by (simp add: split_beta f [of s al])
  next
    case (Suc j)
    with Cons.prems have j: "j < length ss" by simp
    show ?thesis
      using Cons.IH [OF j]
      by (simp add: Suc split_beta f [of s al] snd_getRandomSymbolTexture)
  qed
qed

lemma loopSymbol_shape:
  "loopSymbol r s al =
     (if symbol_y s + symbolHeight r \<ge> reelAreaHeight r - eps
      then ((s\<lparr>symbol_y := - symbolHeight r\<rparr>)\<lparr>texture := fst (getRandomSymbolTexture al)\<rparr>,
            snd (getRandomSymbolTexture al))
      else (s\<lparr>symbol_y := symbol_y s + symbolHeight r\<rparr>, al))"
  by (simp add: loopSymbol_def Let_def split_beta)

lemma loopSymbol_shape':
  "loopSymbol r s al =
     (if symbol_y s + symbolHeight r \<ge> reelAreaHeight r - eps
      then ((s\<lparr>symbol_y := (if symbol_y s + symbolHeight r \<ge> reelAreaHeight r - eps
                              then - symbolHeight r else symbol_y s + symbolHeight r)\<rparr>)
              \<lparr>texture := fst (getRandomSymbolTexture al)\<rparr>,
            snd (getRandomSymbolTexture al))
      else (s\<lparr>symbol_y := (if symbol_y s + symbolHeight r \<ge> reelAreaHeight r - eps
                             then - symbolHeight r else symbol_y s + symbolHeight r)\<rparr>, al))"
  by (simp add: loopSymbol_shape)

lemma loopReel_nth:
  assumes "i < length (symbols r)"
  shows "symbols (fst (loopReel r al)) ! i =
     (if symbol_y (symbols r ! i) + symbolHeight r \<ge> reelAreaHeight r - eps
      then (symbols r ! i)
             \<lparr>symbol_y := - symbolHeight r,
              texture := fst (getRandomSymbolTexture
                (al\<lparr>randomCalls := randomCalls al
                   + length (filter (\<lambda>s. symbol_y s + symbolHeight r \<ge> reelAreaHeight r - eps)
                       (take i (symbols r)))\<rparr>))\<rparr>
      else (symbols r ! i)\<lparr>symbol_y := symbol_y (symbols r ! i) + symbolHeight r\<rparr>)"
  using forEachSymbol_nth [where f = "loopSymbol r" and ss = "symbols r" and al = al and i = i,
      OF loopSymbol_shape' assms]
  by (simp add: loopReel_def split_beta)

lemma updateSymbolPosition_shape:
  "updateSymbolPosition r s al =
     (if (if movingDirection r = DOWN then symbol_y s + symbolHeight r \<ge> reelAreaHeight r - eps
          else symbol_y s - symbolHeight r \<le> - symbolHeight r + eps)
      then ((s\<lparr>symbol_y :=
               (if (if movingDirection r = DOWN
                    then symbol_y s + symbolHeight r \<ge> reelAreaHeight r - eps
                    else symbol_y s - symbolHeight r \<le> - symbolHeight r + eps)
                then (if movingDirection r = DOWN then - symbolHeight r else reelAreaHeight r)
                else (if movingDirection r = DOWN then symbol_y s + symbolHeight r
                      else symbol_y s - symbolHeight r))\<rparr>)
              \<lparr>texture := fst (getRandomSymbolTexture al)\<rparr>,
            snd (getRandomSymbolTexture al))
      else (s\<lparr>symbol_y :=
               (if (if movingDirection r = DOWN
                    then symbol_y s + symbolHeight r \<ge> reelAreaHeight r - eps
                    else symbol_y s - symbolHeight r \<le> - symbolHeight r + eps)
                then (if movingDirection r = DOWN then - symbolHeight r else reelAreaHeight r)
                else (if movingDirection r = DOWN then symbol_y s + symbolHeight r
                      else symbol_y s - symbolHeight r))\<rparr>, al))"
  by (simp add: updateSymbolPosition_def Let_def split_beta)

lemma loopReel_upDown_nth:
  assumes "i < length (symbols r)"
  shows "symbols (fst (loopReel_upDown r al)) ! i =
     (if (if movingDirection r = DOWN
          then symbol_y (symbols r ! i) + symbolHeight r \<ge> reelAreaHeight r - eps
          else symbol_y (symbols r ! i) - symbolHeight r \<le> - symbolHeight r + eps)
      then (symbols r ! i)
             \<lparr>symbol_y := (if movingDirection r = DOWN then - symbolHeight r else reelAreaHeight r),
              texture := fst (getRandomSymbolTexture
                (al\<lparr>randomCalls := randomCalls al
                   + length (filter
                       (\<lambda>s. if movingDirection r = DOWN
                            then symbol_y s + symbolHeight r \<ge> reelAreaHeight r - eps
                            else symbol_y s - symbolHeight r \<le> - symbolHeight r + eps)
                       (take i (symbols r)))\<rparr>))\<rparr>
      else (symbols r ! i)
             \<lparr>symbol_y := (if movingDirection r = DOWN then symbol_y (symbols r ! i) + symbolHeight r
                            else symbol_y (symbols r ! i) - symbolHeight r)\<rparr>)"
  using forEachSymbol_nth [where f = "updateSymbolPosition r" and ss = "symbols r" and al = al
      and i = i, OF updateSymbolPosition_shape assms]
  by (simp add: loopReel_upDown_def split_beta)

lemma reelStep_textures:
  "loopReelCalls (fst (reelStep (r, al) e)) = loopReelCalls r \<Longrightarrow>
   map texture (symbols (fst (reelStep (r, al) e))) = map texture (symbols r)"
  by (cases e)
    (auto simp add: split_beta symbols_spinning_onUpdate loopReelCalls_spinning_onUpdate
       symbols_stopping_onUpdate loopReelCalls_stopping_onUpdate split: if_splits)

lemma reelStep_loopReelCalls_mono:
  "loopReelCalls r \<le> loopReelCalls (fst (reelStep (r, al) e))"
  by (cases e)
    (simp_all add: split_beta loopReelCalls_spinning_onUpdate loopReelCalls_stopping_onUpdate)

lemma reelRun_loopReelCalls_mono:
  "loopReelCalls (fst s) \<le> loopReelCalls (fst (reelRun s es))"
proof (induction es arbitrary: s)
  case Nil
  show ?case by (simp add: reelRun_Nil)
next
  case (Cons e es)
  have "loopReelCalls (fst s) \<le> loopReelCalls (fst (reelStep s e))"
    using reelStep_loopReelCalls_mono [of "fst s" "snd s" e] by simp
  also have "\<dots> \<le> loopReelCalls (fst (reelRun (reelStep s e) es))"
    by (rule Cons.IH)
  finally show ?case by (simp add: reelRun_Cons)
qed

lemma reelRun_textures:
  "loopReelCalls (fst (reelRun s es)) = loopReelCalls (fst s) \<Longrightarrow>
   map texture (symbols (fst (reelRun s es))) = map texture (symbols (fst s))"
proof (induction es arbitrary: s)
  case Nil
  show ?case by (simp add: reelRun_Nil)
next
  case (Cons e es)
  have a: "loopReelCalls (fst s) \<le> loopReelCalls (fst (reelStep s e))"
    using reelStep_loopReelCalls_mono [of "fst s" "snd s" e] by simp
  have b: "loopReelCalls (fst (reelStep s e)) \<le> loopReelCalls (fst (reelRun (reelStep s e) es))"
    by (rule reelRun_loopReelCalls_mono)
  from a b Cons.prems have c: "loopReelCalls (fst (reelStep s e)) = loopReelCalls (fst s)"
    and d: "loopReelCalls (fst (reelRun (reelStep s e) es)) = loopReelCalls (fst (reelStep s e))"
    by (simp_all add: reelRun_Cons)
  have "map texture (symbols (fst (reelStep s e))) = map texture (symbols (fst s))"
    using reelStep_textures [of "fst s" "snd s" e] c by simp
  with Cons.IH [OF d] show ?case by (simp add: reelRun_Cons)
qed

lemma nat_floor_eq:
  "(0::real) \<le> x \<Longrightarrow> nat \<lfloor>x\<rfloor> = j \<longleftrightarrow> real j \<le> x \<and> x < real j + 1"
  by linarith

lemma getRandomSymbolTexture_index:
  assumes "0 \<le> mathRandom al (randomCalls al)"
  shows "fst (getRandomSymbolTexture al) = j \<longleftrightarrow>
     real j \<le> mathRandom al (randomCalls al) * real (symbolTextures al)
     \<and> mathRandom al (randomCalls al) * real (symbolTextures al) < real j + 1"
proof -
  have "0 \<le> mathRandom al (randomCalls al) * real (symbolTextures al)"
    using assms by simp
  then show ?thesis
    unfolding getRandomSymbolTexture_def fst_conv
    by (rule nat_floor_eq)
qed

text \<open>
  C2. A pass of \<open>loopReel\<close> moves every symbol by one symbol height in the
  direction of the motion. A symbol that is then at or past the far edge of
  the reel area, up to \<open>eps = 0.1\<close>, is put one symbol before the near edge
  and gets the texture of the next call of \<open>getRandomSymbolTexture\<close>, the
  calls being made in the order of the symbols; any other symbol keeps its
  texture. This holds for the reel that moves down and, in both directions,
  for the reel that moves up or down (\<open>updateSymbolPosition\<close>). No event of
  the reel that runs no pass of \<open>loopReel\<close> changes a texture. The texture a
  call draws is the one whose index is the integer part of the random number
  times the number of textures: every index has an interval of the same
  length (the distribution of \<open>Math.random\<close> itself is outside the model).
\<close>

theorem loopReel_pass:
  assumes "i < length (symbols r)"
  shows
    "(symbol_y (symbols r ! i) + symbolHeight r \<ge> reelAreaHeight r - eps \<longrightarrow>
        symbol_y (symbols (fst (loopReel r al)) ! i) = - symbolHeight r
        \<and> texture (symbols (fst (loopReel r al)) ! i) =
            fst (getRandomSymbolTexture (al\<lparr>randomCalls := randomCalls al
              + length (filter (\<lambda>s. symbol_y s + symbolHeight r \<ge> reelAreaHeight r - eps)
                  (take i (symbols r)))\<rparr>)))
     \<and> (\<not> symbol_y (symbols r ! i) + symbolHeight r \<ge> reelAreaHeight r - eps \<longrightarrow>
        symbol_y (symbols (fst (loopReel r al)) ! i) = symbol_y (symbols r ! i) + symbolHeight r
        \<and> texture (symbols (fst (loopReel r al)) ! i) = texture (symbols r ! i))
     \<and> (movingDirection r \<noteq> DOWN
          \<and> symbol_y (symbols r ! i) - symbolHeight r \<le> - symbolHeight r + eps \<longrightarrow>
        symbol_y (symbols (fst (loopReel_upDown r al)) ! i) = reelAreaHeight r
        \<and> texture (symbols (fst (loopReel_upDown r al)) ! i) =
            fst (getRandomSymbolTexture (al\<lparr>randomCalls := randomCalls al
              + length (filter (\<lambda>s. symbol_y s - symbolHeight r \<le> - symbolHeight r + eps)
                  (take i (symbols r)))\<rparr>)))
     \<and> (movingDirection r \<noteq> DOWN
          \<and> \<not> symbol_y (symbols r ! i) - symbolHeight r \<le> - symbolHeight r + eps \<longrightarrow>
        symbol_y (symbols (fst (loopReel_upDown r al)) ! i) = symbol_y (symbols r ! i) - symbolHeight r
        \<and> texture (symbols (fst (loopReel_upDown r al)) ! i) = texture (symbols r ! i))
     \<and> (movingDirection r = DOWN \<longrightarrow>
        symbols (fst (loopReel_upDown r al)) ! i = symbols (fst (loopReel r al)) ! i)
     \<and> (loopReelCalls (fst (reelRun (r, al) es)) = loopReelCalls r \<longrightarrow>
        map texture (symbols (fst (reelRun (r, al) es))) = map texture (symbols r))
     \<and> (0 \<le> mathRandom al (randomCalls al) \<longrightarrow>
        (fst (getRandomSymbolTexture al) = j \<longleftrightarrow>
           real j \<le> mathRandom al (randomCalls al) * real (symbolTextures al)
           \<and> mathRandom al (randomCalls al) * real (symbolTextures al) < real j + 1))"
proof (intro conjI impI)
  assume "0 \<le> mathRandom al (randomCalls al)"
  then show "fst (getRandomSymbolTexture al) = j \<longleftrightarrow>
           real j \<le> mathRandom al (randomCalls al) * real (symbolTextures al)
           \<and> mathRandom al (randomCalls al) * real (symbolTextures al) < real j + 1"
    by (rule getRandomSymbolTexture_index)
next
  assume "loopReelCalls (fst (reelRun (r, al) es)) = loopReelCalls r"
  then show "map texture (symbols (fst (reelRun (r, al) es))) = map texture (symbols r)"
    using reelRun_textures [of "(r, al)" es] by simp
qed (simp_all add: loopReel_nth [OF assms] loopReel_upDown_nth [OF assms])


theorem loopReel_pass_witness:
  "4 < length (symbols exampleReel)
   \<and> symbol_y (symbols exampleReel ! 4) + symbolHeight exampleReel
        \<ge> reelAreaHeight exampleReel - eps
   \<and> symbol_y (symbols (fst (loopReel exampleReel (exampleLoader\<lparr>randomCalls := 5\<rparr>))) ! 4) = - 100
   \<and> texture (symbols (fst (loopReel exampleReel (exampleLoader\<lparr>randomCalls := 5\<rparr>))) ! 4) = 2
   \<and> \<not> symbol_y (symbols exampleReel ! 0) + symbolHeight exampleReel
        \<ge> reelAreaHeight exampleReel - eps
   \<and> symbol_y (symbols (fst (loopReel exampleReel (exampleLoader\<lparr>randomCalls := 5\<rparr>))) ! 0) = 0
   \<and> texture (symbols (fst (loopReel exampleReel (exampleLoader\<lparr>randomCalls := 5\<rparr>))) ! 0) = 0
   \<and> symbols (fst (loopReel_upDown exampleReel (exampleLoader\<lparr>randomCalls := 5\<rparr>))) ! 4
       = symbols (fst (loopReel exampleReel (exampleLoader\<lparr>randomCalls := 5\<rparr>))) ! 4
   \<and> movingDirection exampleReelUp \<noteq> DOWN
   \<and> symbol_y (symbols exampleReelUp ! 0) - symbolHeight exampleReelUp
        \<le> - symbolHeight exampleReelUp + eps
   \<and> symbol_y (symbols (fst (loopReel_upDown exampleReelUp (exampleLoader\<lparr>randomCalls := 5\<rparr>))) ! 0) = 400
   \<and> texture (symbols (fst (loopReel_upDown exampleReelUp (exampleLoader\<lparr>randomCalls := 5\<rparr>))) ! 0) = 2
   \<and> \<not> symbol_y (symbols exampleReelUp ! 4) - symbolHeight exampleReelUp
        \<le> - symbolHeight exampleReelUp + eps
   \<and> symbol_y (symbols (fst (loopReel_upDown exampleReelUp (exampleLoader\<lparr>randomCalls := 5\<rparr>))) ! 4) = 300
   \<and> texture (symbols (fst (loopReel_upDown exampleReelUp (exampleLoader\<lparr>randomCalls := 5\<rparr>))) ! 4) = 1
   \<and> loopReelCalls (fst (reelRun (exampleReel, exampleLoader\<lparr>randomCalls := 5\<rparr>)
         [CallStartSpinning, CallStopSpinning, EaseInFrame 0 50])) = loopReelCalls exampleReel
   \<and> map texture (symbols (fst (reelRun (exampleReel, exampleLoader\<lparr>randomCalls := 5\<rparr>)
         [CallStartSpinning, CallStopSpinning, EaseInFrame 0 50]))) = [0, 1, 2, 0, 1]
   \<and> 0 \<le> mathRandom (exampleLoader\<lparr>randomCalls := 5\<rparr>) 5
   \<and> fst (getRandomSymbolTexture (exampleLoader\<lparr>randomCalls := 5\<rparr>)) = 2"
  using loopReel_pass [of 4 exampleReel "exampleLoader\<lparr>randomCalls := 5\<rparr>"
          "[CallStartSpinning, CallStopSpinning, EaseInFrame 0 50]" 2]
        loopReel_pass [of 0 exampleReel "exampleLoader\<lparr>randomCalls := 5\<rparr>" "[]" 2]
        loopReel_pass [of 0 exampleReelUp "exampleLoader\<lparr>randomCalls := 5\<rparr>" "[]" 2]
        loopReel_pass [of 4 exampleReelUp "exampleLoader\<lparr>randomCalls := 5\<rparr>" "[]" 2]
  by (simp add: exampleReel_literal exampleReelUp_eq eps_def exampleLoader_draw
      reelRun_Cons reelRun_Nil running_def newTween_def stopSpinning_def startSpinning_def
      exampleLoader_def)

section \<open>Stopping a looping reel\<close>

lemma tweenTime_setTweenTime:
  "k < length (tweens r) \<Longrightarrow> tweenTime (tweens (setTweenTime k t r) ! k) = t"
  by simp

lemma reelStep_starts_stopping:
  assumes "\<not> stopping r" and "stopping (fst (reelStep (r, al) e))"
  shows "\<exists>k t. e = SpinningFrame k t \<and> running r k Spinning
           \<and> t > spinningTweenDuration r \<and> needsToStop r"
proof (cases e)
  case (SpinningFrame k t)
  with assms show ?thesis
    by (auto simp add: stopping_spinning_onUpdate running_def split: if_splits)
next
  case (StoppingComplete k)
  with assms show ?thesis by (simp add: split_beta split: if_splits)
qed (use assms in \<open>simp_all add: split_beta split: if_splits\<close>)

lemma spinning_frame_stops:
  assumes run: "running r k Spinning" and need: "needsToStop r" and ns: "\<not> stopping r"
    and t: "t > spinningTweenDuration r"
  shows "stopping (fst (reelStep (r, al) (SpinningFrame k t)))"
    and "symbols (fst (reelStep (r, al) (SpinningFrame k t))) = symbols (fst (loopReel r al))"
    and "tweenStatus (tweens (fst (reelStep (r, al) (SpinningFrame k t))) ! k) = Paused"
    and "tweenTime (tweens (fst (reelStep (r, al) (SpinningFrame k t))) ! k)
           = jsMod t (spinningTweenDuration r)"
    and "running (fst (reelStep (r, al) (SpinningFrame k t))) (length (tweens r)) Stopping"
    and "length (tweens (fst (reelStep (r, al) (SpinningFrame k t)))) = Suc (length (tweens r))"
  using assms
  by (simp_all add: running_def spinning_onUpdate_def split_beta Let_def
      beginStoppingAnimation_def nth_append)

lemma spinning_frame_goes_on:
  assumes run: "running r k Spinning" and ns: "\<not> stopping r"
    and t: "\<not> t > spinningTweenDuration r"
  shows "\<not> stopping (fst (reelStep (r, al) (SpinningFrame k t)))"
    and "symbols (fst (reelStep (r, al) (SpinningFrame k t))) = symbols r"
    and "running (fst (reelStep (r, al) (SpinningFrame k t))) k Spinning"
    and "length (tweens (fst (reelStep (r, al) (SpinningFrame k t)))) = length (tweens r)"
  using assms
  by (simp_all add: running_def spinning_onUpdate_def split_beta Let_def)

text \<open>
  C3. A call of \<open>stopSpinning\<close> sets \<open>needsToStop\<close> and changes nothing else.
  A reel that is not stopping starts to stop (\<open>beginStoppingAnimation\<close> sets
  \<open>stopping\<close> and makes the stopping tween) in one event only: a frame of a
  running spinning tween whose time has passed \<open>spinningTweenDuration\<close>, with
  \<open>needsToStop\<close> set. In that frame the pass of \<open>loopReel\<close> has run, the time of
  the spinning tween is the time past the boundary, and the spinning tween is
  paused. A frame whose time has not passed \<open>spinningTweenDuration\<close> leaves the
  reel looping, whether a stop was requested or not.
\<close>

theorem stop_at_wrap_boundary_only:
  "reelStep (r, al) CallStopSpinning = (r\<lparr>needsToStop := True\<rparr>, al)
   \<and> (\<not> stopping r \<and> stopping (fst (reelStep (r, al) e)) \<longrightarrow>
        (\<exists>k' t'. e = SpinningFrame k' t' \<and> running r k' Spinning
           \<and> t' > spinningTweenDuration r \<and> needsToStop r))
   \<and> (running r k Spinning \<and> needsToStop r \<and> \<not> stopping r \<and> t > spinningTweenDuration r \<longrightarrow>
        stopping (fst (reelStep (r, al) (SpinningFrame k t)))
        \<and> symbols (fst (reelStep (r, al) (SpinningFrame k t))) = symbols (fst (loopReel r al))
        \<and> tweenStatus (tweens (fst (reelStep (r, al) (SpinningFrame k t))) ! k) = Paused
        \<and> tweenTime (tweens (fst (reelStep (r, al) (SpinningFrame k t))) ! k)
             = jsMod t (spinningTweenDuration r)
        \<and> running (fst (reelStep (r, al) (SpinningFrame k t))) (length (tweens r)) Stopping
        \<and> length (tweens (fst (reelStep (r, al) (SpinningFrame k t))))
             = Suc (length (tweens r)))
   \<and> (running r k Spinning \<and> \<not> stopping r \<and> \<not> t > spinningTweenDuration r \<longrightarrow>
        \<not> stopping (fst (reelStep (r, al) (SpinningFrame k t)))
        \<and> symbols (fst (reelStep (r, al) (SpinningFrame k t))) = symbols r
        \<and> running (fst (reelStep (r, al) (SpinningFrame k t))) k Spinning
        \<and> length (tweens (fst (reelStep (r, al) (SpinningFrame k t)))) = length (tweens r))"
proof (intro conjI)
  show "reelStep (r, al) CallStopSpinning = (r\<lparr>needsToStop := True\<rparr>, al)"
    by (simp add: stopSpinning_def)
next
  show "\<not> stopping r \<and> stopping (fst (reelStep (r, al) e)) \<longrightarrow>
        (\<exists>k' t'. e = SpinningFrame k' t' \<and> running r k' Spinning
           \<and> t' > spinningTweenDuration r \<and> needsToStop r)"
    using reelStep_starts_stopping [of r al e] by blast
next
  show "running r k Spinning \<and> needsToStop r \<and> \<not> stopping r \<and> t > spinningTweenDuration r \<longrightarrow>
        stopping (fst (reelStep (r, al) (SpinningFrame k t)))
        \<and> symbols (fst (reelStep (r, al) (SpinningFrame k t))) = symbols (fst (loopReel r al))
        \<and> tweenStatus (tweens (fst (reelStep (r, al) (SpinningFrame k t))) ! k) = Paused
        \<and> tweenTime (tweens (fst (reelStep (r, al) (SpinningFrame k t))) ! k)
             = jsMod t (spinningTweenDuration r)
        \<and> running (fst (reelStep (r, al) (SpinningFrame k t))) (length (tweens r)) Stopping
        \<and> length (tweens (fst (reelStep (r, al) (SpinningFrame k t))))
             = Suc (length (tweens r))"
    using spinning_frame_stops [of r k t al] by blast
next
  show "running r k Spinning \<and> \<not> stopping r \<and> \<not> t > spinningTweenDuration r \<longrightarrow>
        \<not> stopping (fst (reelStep (r, al) (SpinningFrame k t)))
        \<and> symbols (fst (reelStep (r, al) (SpinningFrame k t))) = symbols r
        \<and> running (fst (reelStep (r, al) (SpinningFrame k t))) k Spinning
        \<and> length (tweens (fst (reelStep (r, al) (SpinningFrame k t)))) = length (tweens r)"
    using spinning_frame_goes_on [of r k t al] by blast
qed

theorem stop_at_wrap_boundary_only_witness:
  "running (fst exampleLooping) 1 Spinning \<and> needsToStop (fst exampleLooping)
   \<and> \<not> stopping (fst exampleLooping)
   \<and> (100::real) > spinningTweenDuration (fst exampleLooping)
   \<and> stopping (fst (reelStep exampleLooping (SpinningFrame 1 100)))
   \<and> (\<exists>k' t'. SpinningFrame 1 100 = SpinningFrame k' t' \<and> running (fst exampleLooping) k' Spinning
         \<and> t' > spinningTweenDuration (fst exampleLooping) \<and> needsToStop (fst exampleLooping))
   \<and> symbols (fst (reelStep exampleLooping (SpinningFrame 1 100)))
       = symbols (fst (loopReel (fst exampleLooping) (snd exampleLooping)))
   \<and> tweenStatus (tweens (fst (reelStep exampleLooping (SpinningFrame 1 100))) ! 1) = Paused
   \<and> tweenTime (tweens (fst (reelStep exampleLooping (SpinningFrame 1 100))) ! 1) = 50 / 3
   \<and> running (fst (reelStep exampleLooping (SpinningFrame 1 100))) 2 Stopping
   \<and> \<not> (50::real) > spinningTweenDuration (fst exampleLooping)
   \<and> \<not> stopping (fst (reelStep exampleLooping (SpinningFrame 1 50)))
   \<and> symbols (fst (reelStep exampleLooping (SpinningFrame 1 50))) = symbols (fst exampleLooping)
   \<and> running (fst (reelStep exampleLooping (SpinningFrame 1 50))) 1 Spinning"
  using stop_at_wrap_boundary_only [of "fst exampleLooping" "snd exampleLooping"
          "SpinningFrame 1 100" 1 100]
        stop_at_wrap_boundary_only [of "fst exampleLooping" "snd exampleLooping"
          "SpinningFrame 1 50" 1 50]
  by (simp add: exampleLooping_literal reel_eval)

section \<open>A stop requested during the ease-in\<close>

lemma noStoppingTweenRunning_iff:
  "noStoppingTweenRunning r \<longleftrightarrow>
     (\<forall>tw \<in> set (tweens r). \<not> (tweenKind tw = Stopping \<and> tweenStatus tw = Running))"
  by (simp add: noStoppingTweenRunning_def list_all_iff)

lemma noStoppingTweenRunning_not_running:
  "noStoppingTweenRunning r \<Longrightarrow> \<not> running r k Stopping"
  by (auto simp add: noStoppingTweenRunning_iff running_def)

lemma in_set_update: "x \<in> set (xs[k := y]) \<Longrightarrow> x = y \<or> x \<in> set xs"
  using set_update_subset_insert [of xs k y] by auto

lemma noStoppingTweenRunning_update:
  assumes "noStoppingTweenRunning r" "tweens r' = (tweens r)[k := tw]"
    "\<not> (tweenKind tw = Stopping \<and> tweenStatus tw = Running)"
  shows "noStoppingTweenRunning r'"
  using assms in_set_update [of _ "tweens r" k tw]
  by (auto simp add: noStoppingTweenRunning_iff)

lemma noStoppingTweenRunning_append:
  assumes "noStoppingTweenRunning r" "tweens r' = tweens r @ [tw]"
    "\<not> (tweenKind tw = Stopping \<and> tweenStatus tw = Running)"
  shows "noStoppingTweenRunning r'"
  using assms by (auto simp add: noStoppingTweenRunning_iff)

lemma noStoppingTweenRunning_same:
  assumes "noStoppingTweenRunning r" "tweens r' = tweens r"
  shows "noStoppingTweenRunning r'"
  using assms by (simp add: noStoppingTweenRunning_def)

text \<open>While no stop is requested, a reel that is not stopping goes on as it is.\<close>

lemma reelStep_keeps_looping:
  assumes e: "e \<noteq> CallStopSpinning"
    and inv: "\<not> needsToStop r" "\<not> stopping r" "noStoppingTweenRunning r"
  shows "\<not> needsToStop (fst (reelStep (r, al) e))"
    and "\<not> stopping (fst (reelStep (r, al) e))"
    and "noStoppingTweenRunning (fst (reelStep (r, al) e))"
    and "stoppedSpinningEmitted (fst (reelStep (r, al) e)) = stoppedSpinningEmitted r"
    and "running r j Spinning \<Longrightarrow> running (fst (reelStep (r, al) e)) j Spinning"
proof -
  show "\<not> needsToStop (fst (reelStep (r, al) e))"
    using e inv by (cases e) (simp_all add: noStoppingTweenRunning_not_running split_beta)
  show "\<not> stopping (fst (reelStep (r, al) e))"
    using e inv
    by (cases e)
      (simp_all add: noStoppingTweenRunning_not_running split_beta stopping_spinning_onUpdate)
  show "stoppedSpinningEmitted (fst (reelStep (r, al) e)) = stoppedSpinningEmitted r"
    using e inv by (cases e) (simp_all add: noStoppingTweenRunning_not_running split_beta)
  show "noStoppingTweenRunning (fst (reelStep (r, al) e))"
  proof (cases e)
    case CallStartSpinning
    then show ?thesis
      using inv by (auto simp add: noStoppingTweenRunning_iff startSpinning_def)
  next
    case (EaseInFrame k v)
    then show ?thesis
      using inv by (auto simp add: noStoppingTweenRunning_iff)
  next
    case (EaseInComplete k)
    then show ?thesis
      using inv
      by (auto simp add: noStoppingTweenRunning_iff startSpinning_resumed_def split_beta Let_def
          dest!: in_set_update)
  next
    case (SpinningFrame k t)
    then show ?thesis
      using inv
      by (auto simp add: noStoppingTweenRunning_iff spinning_onUpdate_def split_beta Let_def
          running_def dest!: in_set_update)
  qed (use e inv in \<open>simp_all add: noStoppingTweenRunning_not_running\<close>)
  show "running (fst (reelStep (r, al) e)) j Spinning" if "running r j Spinning"
    using e inv that
    by (cases e)
      (auto simp add: noStoppingTweenRunning_not_running running_def nth_append
        nth_list_update startSpinning_def startSpinning_resumed_def spinning_onUpdate_def
        split_beta Let_def)
qed

lemma reelStep_constants:
  "symbolHeight (fst (reelStep s e)) = symbolHeight (fst s)"
  "reelAreaHeight (fst (reelStep s e)) = reelAreaHeight (fst s)"
  "spinningTweenDuration (fst (reelStep s e)) = spinningTweenDuration (fst s)"
  by (cases s; cases e; simp add: split_beta)+

lemma reelRun_constants:
  "symbolHeight (fst (reelRun s es)) = symbolHeight (fst s)"
  "reelAreaHeight (fst (reelRun s es)) = reelAreaHeight (fst s)"
  "spinningTweenDuration (fst (reelRun s es)) = spinningTweenDuration (fst s)"
  by (induction es arbitrary: s) (simp_all add: reelRun_Nil reelRun_Cons reelStep_constants)

lemma reelRun_keeps_looping:
  assumes "CallStopSpinning \<notin> set es"
    and "\<not> needsToStop r" "\<not> stopping r" "noStoppingTweenRunning r"
  shows "\<not> needsToStop (fst (reelRun (r, al) es))
    \<and> \<not> stopping (fst (reelRun (r, al) es))
    \<and> noStoppingTweenRunning (fst (reelRun (r, al) es))
    \<and> stoppedSpinningEmitted (fst (reelRun (r, al) es)) = stoppedSpinningEmitted r
    \<and> (running r j Spinning \<longrightarrow> running (fst (reelRun (r, al) es)) j Spinning)"
  using assms
proof (induction es arbitrary: r al)
  case Nil
  then show ?case by (simp add: reelRun_Nil)
next
  case (Cons e es)
  obtain r' al' where step: "reelStep (r, al) e = (r', al')"
    by (cases "reelStep (r, al) e")
  have e: "e \<noteq> CallStopSpinning" and es: "CallStopSpinning \<notin> set es"
    using Cons.prems(1) by auto
  note keep = reelStep_keeps_looping [OF e Cons.prems(2,3,4), where al = al, unfolded step fst_conv]
  have "\<not> needsToStop (fst (reelRun (r', al') es))
    \<and> \<not> stopping (fst (reelRun (r', al') es))
    \<and> noStoppingTweenRunning (fst (reelRun (r', al') es))
    \<and> stoppedSpinningEmitted (fst (reelRun (r', al') es)) = stoppedSpinningEmitted r'
    \<and> (running r' j Spinning \<longrightarrow> running (fst (reelRun (r', al') es)) j Spinning)"
    by (rule Cons.IH [OF es keep(1,2,3)])
  with keep(4) keep(5) [where j = j] show ?case
    by (simp add: reelRun_Cons step)
qed

lemma easeIn_complete_clears:
  assumes "running r k EaseIn" "\<not> stopping r" "noStoppingTweenRunning r"
  shows "\<not> needsToStop (fst (reelStep (r, al) (EaseInComplete k)))"
    and "\<not> stopping (fst (reelStep (r, al) (EaseInComplete k)))"
    and "noStoppingTweenRunning (fst (reelStep (r, al) (EaseInComplete k)))"
    and "stoppedSpinningEmitted (fst (reelStep (r, al) (EaseInComplete k)))
           = stoppedSpinningEmitted r"
    and "running (fst (reelStep (r, al) (EaseInComplete k))) (length (tweens r)) Spinning"
  using assms
  by (auto simp add: noStoppingTweenRunning_iff startSpinning_resumed_def split_beta Let_def
      running_def nth_append dest!: in_set_update)

text \<open>
  C10. A stop requested while the ease-in tween runs is lost. The call of
  \<open>stopSpinning\<close> sets \<open>needsToStop\<close>; when the ease-in tween completes,
  \<open>startSpinning\<close> clears it before it makes the spinning tween. From then on,
  whatever the frames, as long as \<open>stopSpinning\<close> is not called again the reel
  does not start to stop: no stopping tween is made, \<open>stoppedSpinning\<close> is not
  emitted, and the spinning tween keeps running. A later call of
  \<open>stopSpinning\<close> stops the reel at the next frame past the boundary.
\<close>

theorem stop_during_easeIn_is_lost:
  assumes "running r k EaseIn" and "\<not> stopping r" and "noStoppingTweenRunning r"
    and "CallStopSpinning \<notin> set es"
  shows "needsToStop (fst (reelStep (r, al) CallStopSpinning))
    \<and> \<not> needsToStop (fst (reelRun (r, al) [CallStopSpinning, EaseInComplete k]))
    \<and> \<not> needsToStop (fst (reelRun (r, al) (CallStopSpinning # EaseInComplete k # es)))
    \<and> \<not> stopping (fst (reelRun (r, al) (CallStopSpinning # EaseInComplete k # es)))
    \<and> noStoppingTweenRunning (fst (reelRun (r, al) (CallStopSpinning # EaseInComplete k # es)))
    \<and> stoppedSpinningEmitted (fst (reelRun (r, al) (CallStopSpinning # EaseInComplete k # es)))
         = stoppedSpinningEmitted r
    \<and> running (fst (reelRun (r, al) (CallStopSpinning # EaseInComplete k # es)))
         (length (tweens r)) Spinning
    \<and> (t > spinningTweenDuration r \<longrightarrow>
         stopping (fst (reelRun (r, al)
           (CallStopSpinning # EaseInComplete k # es
              @ [CallStopSpinning, SpinningFrame (length (tweens r)) t]))))"
proof -
  let ?r0 = "stopSpinning r"
  have r0: "running ?r0 k EaseIn" "\<not> stopping ?r0" "noStoppingTweenRunning ?r0"
    using assms(1,2,3) by (simp_all add: running_def noStoppingTweenRunning_def)
  obtain r1 al1 where res: "startSpinning_resumed (lastFrame k ?r0) al = (r1, al1)"
    by (cases "startSpinning_resumed (lastFrame k ?r0) al")
  have step: "reelStep (?r0, al) (EaseInComplete k) = (r1, al1)"
    using r0(1) by (simp add: res)
  note clear = easeIn_complete_clears [OF r0, where al = al, unfolded step fst_conv]
  have n: "running r1 (length (tweens r)) Spinning"
    using clear(5) by simp
  have d1: "spinningTweenDuration r1 = spinningTweenDuration r"
    using reelStep_constants(3) [of "(?r0, al)" "EaseInComplete k", unfolded step] by simp
  obtain r2 al2 where run: "reelRun (r1, al1) es = (r2, al2)"
    by (cases "reelRun (r1, al1) es")
  have keep: "\<not> needsToStop r2 \<and> \<not> stopping r2 \<and> noStoppingTweenRunning r2
      \<and> stoppedSpinningEmitted r2 = stoppedSpinningEmitted r1
      \<and> (running r1 (length (tweens r)) Spinning \<longrightarrow> running r2 (length (tweens r)) Spinning)"
    using reelRun_keeps_looping [OF assms(4) clear(1,2,3), where al = al1
        and j = "length (tweens r)"]
    by (simp add: run)
  have d2: "spinningTweenDuration r2 = spinningTweenDuration r"
    using reelRun_constants(3) [of "(r1, al1)" es] by (simp add: run d1)
  have whole: "reelRun (r, al) (CallStopSpinning # EaseInComplete k # es) = (r2, al2)"
    by (simp add: reelRun_Cons r0(1) res run)
  have later: "stopping (fst (reelRun (r, al)
           (CallStopSpinning # EaseInComplete k # es
              @ [CallStopSpinning, SpinningFrame (length (tweens r)) t])))"
    if t: "t > spinningTweenDuration r"
  proof -
    have "reelRun (r, al) (CallStopSpinning # EaseInComplete k # es
              @ [CallStopSpinning, SpinningFrame (length (tweens r)) t])
          = reelStep (stopSpinning r2, al2) (SpinningFrame (length (tweens r)) t)"
      using whole reelRun_append [of "(r, al)" "CallStopSpinning # EaseInComplete k # es"
          "[CallStopSpinning, SpinningFrame (length (tweens r)) t]"]
      by (simp add: reelRun_Cons reelRun_Nil)
    moreover have "stopping (fst (reelStep (stopSpinning r2, al2)
        (SpinningFrame (length (tweens r)) t)))"
    proof (rule spinning_frame_stops(1))
      show "running (stopSpinning r2) (length (tweens r)) Spinning"
        using keep n by (simp add: running_def)
      show "needsToStop (stopSpinning r2)" by simp
      show "\<not> stopping (stopSpinning r2)" using keep by simp
      show "spinningTweenDuration (stopSpinning r2) < t" using t d2 by simp
    qed
    ultimately show ?thesis by simp
  qed
  have first: "reelRun (r, al) [CallStopSpinning, EaseInComplete k] = (r1, al1)"
    by (simp add: reelRun_Cons reelRun_Nil r0(1) res)
  have latch: "needsToStop (fst (reelStep (r, al) CallStopSpinning))"
    by simp
  show ?thesis
    unfolding whole first fst_conv
    using clear keep n later latch by auto
qed

theorem stop_during_easeIn_is_lost_witness:
  "running (fst exampleEasingIn) 0 EaseIn \<and> \<not> stopping (fst exampleEasingIn)
   \<and> noStoppingTweenRunning (fst exampleEasingIn)
   \<and> CallStopSpinning \<notin> set [SpinningFrame 1 100, SpinningFrame 1 90]
   \<and> needsToStop (fst (reelStep exampleEasingIn CallStopSpinning))
   \<and> \<not> needsToStop (fst (reelRun exampleEasingIn [CallStopSpinning, EaseInComplete 0]))
   \<and> \<not> stopping (fst (reelRun exampleEasingIn
         [CallStopSpinning, EaseInComplete 0, SpinningFrame 1 100, SpinningFrame 1 90]))
   \<and> stoppedSpinningEmitted (fst (reelRun exampleEasingIn
         [CallStopSpinning, EaseInComplete 0, SpinningFrame 1 100, SpinningFrame 1 90])) = 0
   \<and> running (fst (reelRun exampleEasingIn
         [CallStopSpinning, EaseInComplete 0, SpinningFrame 1 100, SpinningFrame 1 90]))
         1 Spinning
   \<and> (100::real) > spinningTweenDuration (fst exampleEasingIn)
   \<and> stopping (fst (reelRun exampleEasingIn
         [CallStopSpinning, EaseInComplete 0, SpinningFrame 1 100, SpinningFrame 1 90,
          CallStopSpinning, SpinningFrame 1 100]))"
  using stop_during_easeIn_is_lost [of "fst exampleEasingIn" 0
          "[SpinningFrame 1 100, SpinningFrame 1 90]" "snd exampleEasingIn" 100]
  by (simp add: exampleEasingIn_def newReel_example reelRun_Cons reelRun_Nil startSpinning_def
      newTween_def running_def noStoppingTweenRunning_def stopSpinning_def)

section \<open>Counting the reels that have stopped\<close>

lemma onStoppedSpinning_fields [simp]:
  "reels (reelArea (onStoppedSpinning w)) = reels (reelArea w)"
  "gsapTime (onStoppedSpinning w) = gsapTime w"
  "delayedCalls (onStoppedSpinning w) = delayedCalls w"
  "assetLoader (onStoppedSpinning w) = assetLoader w"
  "reelsFinishedSpinningCount (reelArea (onStoppedSpinning w))
     = reelsFinishedSpinningCount (reelArea w) + 1"
  by (simp_all add: onStoppedSpinning_def Let_def emit_def)

lemma emitted_onStoppedSpinning:
  "emitted (onStoppedSpinning w) =
     emitted w @
       (if reelsFinishedSpinningCount (reelArea w) + 1 = length (reels (reelArea w))
        then [(gsapTime w, allStoppedSpinning)] else [])"
  by (simp add: onStoppedSpinning_def Let_def emit_def)

lemma onStoppedSpinning_funpow:
  "reels (reelArea ((onStoppedSpinning ^^ m) w)) = reels (reelArea w)
   \<and> gsapTime ((onStoppedSpinning ^^ m) w) = gsapTime w
   \<and> reelsFinishedSpinningCount (reelArea ((onStoppedSpinning ^^ m) w))
        = reelsFinishedSpinningCount (reelArea w) + m
   \<and> emitted ((onStoppedSpinning ^^ m) w) =
        emitted w @
          (if reelsFinishedSpinningCount (reelArea w) < length (reels (reelArea w))
              \<and> length (reels (reelArea w)) \<le> reelsFinishedSpinningCount (reelArea w) + m
           then [(gsapTime w, allStoppedSpinning)] else [])"
proof (induction m)
  case 0
  show ?case by simp
next
  case (Suc m)
  then show ?case
    by (auto simp add: emitted_onStoppedSpinning)
qed

lemma scheduleStarts_fields [simp]:
  "reelArea (scheduleStarts is w) = reelArea w"
  "emitted (scheduleStarts is w) = emitted w"
  "gsapTime (scheduleStarts is w) = gsapTime w"
  "assetLoader (scheduleStarts is w) = assetLoader w"
  by (induction "is" arbitrary: w) (simp_all add: delayedCall_def)

lemma scheduleStops_fields [simp]:
  "reelArea (scheduleStops is w) = reelArea w"
  "emitted (scheduleStops is w) = emitted w"
  "gsapTime (scheduleStops is w) = gsapTime w"
  "assetLoader (scheduleStops is w) = assetLoader w"
  by (induction "is" arbitrary: w) (simp_all add: delayedCall_def)

lemma ReelArea_startSpinning_Inr:
  assumes "ReelArea_startSpinning w = Inr w'"
  shows "reelsFinishedSpinningCount (reelArea w') = 0"
    and "reels (reelArea w') = reels (reelArea w)"
    and "emitted w' = emitted w"
    and "gsapTime w' = gsapTime w"
    and "stopDelay (reelArea w') = stopDelay (reelArea w)"
    and "startInterval (reelArea w') = startInterval (reelArea w)"
    and "stopInterval (reelArea w') = stopInterval (reelArea w)"
    and "real (length (reels (reelArea w))) * startInterval (reelArea w) \<le> stopDelay (reelArea w)"
  using assms
  by (auto simp add: ReelArea_startSpinning_def Let_def split: if_splits)

lemma reelStep_emitted:
  "stoppedSpinningEmitted (fst (reelStep (r, al) e)) =
     (case e of StoppingComplete k \<Rightarrow>
        (if running r k Stopping then Suc (stoppedSpinningEmitted r)
         else stoppedSpinningEmitted r)
      | _ \<Rightarrow> stoppedSpinningEmitted r)"
  by (cases e) (simp_all add: split_beta)

lemma updateReel_fields [simp]:
  "reels (reelArea (updateReel i f w)) = (reels (reelArea w))[i := f (reels (reelArea w) ! i)]"
  "reelsFinishedSpinningCount (reelArea (updateReel i f w))
     = reelsFinishedSpinningCount (reelArea w)"
  "stopDelay (reelArea (updateReel i f w)) = stopDelay (reelArea w)"
  "startInterval (reelArea (updateReel i f w)) = startInterval (reelArea w)"
  "stopInterval (reelArea (updateReel i f w)) = stopInterval (reelArea w)"
  "emitted (updateReel i f w) = emitted w"
  "gsapTime (updateReel i f w) = gsapTime w"
  "delayedCalls (updateReel i f w) = delayedCalls w"
  "assetLoader (updateReel i f w) = assetLoader w"
  by (simp_all add: updateReel_def)

lemma reelEvent_count:
  assumes "i < length (reels (reelArea w))"
  shows "reelsFinishedSpinningCount (reelArea (reelEvent i ev w)) =
     reelsFinishedSpinningCount (reelArea w)
       + (stoppedSpinningEmitted (reels (reelArea (reelEvent i ev w)) ! i)
          - stoppedSpinningEmitted (reels (reelArea w) ! i))"
    and "stoppedSpinningEmitted (reels (reelArea (reelEvent i ev w)) ! i)
          - stoppedSpinningEmitted (reels (reelArea w) ! i) \<le> 1"
    and "stoppedSpinningEmitted (reels (reelArea w) ! i)
          \<le> stoppedSpinningEmitted (reels (reelArea (reelEvent i ev w)) ! i)"
  using assms reelStep_emitted [of "reels (reelArea w) ! i" "assetLoader w" ev]
  by (auto simp add: reelEvent_def Let_def split_beta split: ReelEvent.splits if_splits)

lemma worldRun_Nil: "worldRun w [] = w"
  by (simp add: worldRun_def)

lemma worldRun_Cons: "worldRun w (e # es) = worldRun (worldStep w e) es"
  by (simp add: worldRun_def)

lemma countEmitted_emit:
  "countEmitted e (emit e' w) = (if e' = e then Suc (countEmitted e w) else countEmitted e w)"
  by (simp add: countEmitted_def emit_def)

lemma emit_fields [simp]:
  "reelArea (emit e w) = reelArea w"
  "gsapTime (emit e w) = gsapTime w"
  "delayedCalls (emit e w) = delayedCalls w"
  "assetLoader (emit e w) = assetLoader w"
  by (simp_all add: emit_def)

lemma countEmitted_updateReel [simp]: "countEmitted e (updateReel i f w) = countEmitted e w"
  by (simp add: countEmitted_def)

lemma last_index_iff: "int i = int n - 1 \<longleftrightarrow> 0 < n \<and> i = n - 1"
  by arith

text \<open>Running a delayed call: what it does to the counts.\<close>

lemma runDelayedCall_fields:
  "length (reels (reelArea (runDelayedCall w c))) = length (reels (reelArea w))"
  "reelsFinishedSpinningCount (reelArea (runDelayedCall w c))
     = reelsFinishedSpinningCount (reelArea w)"
  "gsapTime (runDelayedCall w c) = gsapTime w"
  "delayedCalls (runDelayedCall w c) = delayedCalls w"
  "countEmitted allStoppedSpinning (runDelayedCall w c) = countEmitted allStoppedSpinning w"
  "countEmitted allStartedSpinning (runDelayedCall w c) =
     countEmitted allStartedSpinning w
       + (if c = StartReel (length (reels (reelArea w)) - 1) \<and> 0 < length (reels (reelArea w))
          then 1 else 0)"
proof -
  show "length (reels (reelArea (runDelayedCall w c))) = length (reels (reelArea w))"
    by (cases c) (simp_all add: Let_def)
  show "reelsFinishedSpinningCount (reelArea (runDelayedCall w c))
     = reelsFinishedSpinningCount (reelArea w)"
    by (cases c) (simp_all add: Let_def)
  show "gsapTime (runDelayedCall w c) = gsapTime w"
    by (cases c) (simp_all add: Let_def)
  show "delayedCalls (runDelayedCall w c) = delayedCalls w"
    by (cases c) (simp_all add: Let_def)
  show "countEmitted allStoppedSpinning (runDelayedCall w c) = countEmitted allStoppedSpinning w"
    by (cases c) (simp_all add: Let_def countEmitted_emit)
  show "countEmitted allStartedSpinning (runDelayedCall w c) =
     countEmitted allStartedSpinning w
       + (if c = StartReel (length (reels (reelArea w)) - 1) \<and> 0 < length (reels (reelArea w))
          then 1 else 0)"
    by (cases c) (auto simp add: Let_def countEmitted_emit last_index_iff)
qed

lemma foldl_runDelayedCall:
  "length (reels (reelArea (foldl runDelayedCall w cs))) = length (reels (reelArea w))
   \<and> reelsFinishedSpinningCount (reelArea (foldl runDelayedCall w cs))
       = reelsFinishedSpinningCount (reelArea w)
   \<and> gsapTime (foldl runDelayedCall w cs) = gsapTime w
   \<and> delayedCalls (foldl runDelayedCall w cs) = delayedCalls w
   \<and> countEmitted allStoppedSpinning (foldl runDelayedCall w cs)
       = countEmitted allStoppedSpinning w
   \<and> countEmitted allStartedSpinning (foldl runDelayedCall w cs) =
       countEmitted allStartedSpinning w
         + (if 0 < length (reels (reelArea w))
            then length (filter (\<lambda>c. c = StartReel (length (reels (reelArea w)) - 1)) cs)
            else 0)"
proof (induction cs arbitrary: w)
  case Nil
  show ?case by simp
next
  case (Cons c cs)
  show ?case
    using Cons.IH [of "runDelayedCall w c"]
    by (simp add: runDelayedCall_fields)
qed

lemma length_filter_sort_key:
  "length (filter P (map snd (sort_key fst xs))) = length (filter (\<lambda>c. P (snd c)) xs)"
proof -
  have "filter P (map snd (sort_key fst xs)) = map snd (filter (\<lambda>c. P (snd c)) (sort_key fst xs))"
    by (simp add: filter_map comp_def)
  also have "filter (\<lambda>c. P (snd c)) (sort_key fst xs) = sort_key fst (filter (\<lambda>c. P (snd c)) xs)"
    by (rule filter_sort)
  finally show ?thesis by simp
qed

text \<open>A tick runs the delayed calls that are due, each once, and removes them.\<close>

lemma updateRoot_fields:
  "length (reels (reelArea (updateRoot t w))) = length (reels (reelArea w))"
  "reelsFinishedSpinningCount (reelArea (updateRoot t w))
     = reelsFinishedSpinningCount (reelArea w)"
  "gsapTime (updateRoot t w) = t"
  "delayedCalls (updateRoot t w) = filter (\<lambda>c. \<not> fst c \<le> t) (delayedCalls w)"
  "countEmitted allStoppedSpinning (updateRoot t w) = countEmitted allStoppedSpinning w"
  "countEmitted allStartedSpinning (updateRoot t w) =
     countEmitted allStartedSpinning w
       + (if 0 < length (reels (reelArea w))
          then length (filter (\<lambda>c. fst c \<le> t \<and> snd c = StartReel (length (reels (reelArea w)) - 1))
                 (delayedCalls w))
          else 0)"
proof -
  let ?w0 = "w\<lparr>gsapTime := t, delayedCalls := filter (\<lambda>c. \<not> fst c \<le> t) (delayedCalls w)\<rparr>"
  let ?cs = "map snd (sort_key fst (filter (\<lambda>c. fst c \<le> t) (delayedCalls w)))"
  let ?last = "StartReel (length (reels (reelArea w)) - 1)"
  have eq: "updateRoot t w = foldl runDelayedCall ?w0 ?cs"
    by (simp add: updateRoot_def)
  have w0: "reelArea ?w0 = reelArea w" "gsapTime ?w0 = t"
    "delayedCalls ?w0 = filter (\<lambda>c. \<not> fst c \<le> t) (delayedCalls w)"
    "countEmitted allStoppedSpinning ?w0 = countEmitted allStoppedSpinning w"
    "countEmitted allStartedSpinning ?w0 = countEmitted allStartedSpinning w"
    by (simp_all add: countEmitted_def)
  note F = foldl_runDelayedCall [of ?w0 ?cs, folded eq, unfolded w0]
  have "length (filter (\<lambda>c. c = ?last) ?cs)
      = length (filter (\<lambda>c. snd c = ?last) (filter (\<lambda>c. fst c \<le> t) (delayedCalls w)))"
    by (rule length_filter_sort_key)
  also have "filter (\<lambda>c. snd c = ?last) (filter (\<lambda>c. fst c \<le> t) (delayedCalls w))
      = filter (\<lambda>c. fst c \<le> t \<and> snd c = ?last) (delayedCalls w)"
    by simp
  finally have L: "length (filter (\<lambda>c. c = ?last) ?cs)
      = length (filter (\<lambda>c. fst c \<le> t \<and> snd c = ?last) (delayedCalls w))" .
  show "length (reels (reelArea (updateRoot t w))) = length (reels (reelArea w))"
    using F by blast
  show "reelsFinishedSpinningCount (reelArea (updateRoot t w))
     = reelsFinishedSpinningCount (reelArea w)"
    using F by blast
  show "gsapTime (updateRoot t w) = t"
    using F by blast
  show "delayedCalls (updateRoot t w) = filter (\<lambda>c. \<not> fst c \<le> t) (delayedCalls w)"
    using F by blast
  show "countEmitted allStoppedSpinning (updateRoot t w) = countEmitted allStoppedSpinning w"
    using F by blast
  show "countEmitted allStartedSpinning (updateRoot t w) =
     countEmitted allStartedSpinning w
       + (if 0 < length (reels (reelArea w))
          then length (filter (\<lambda>c. fst c \<le> t \<and> snd c = ?last) (delayedCalls w))
          else 0)"
    using F unfolding L by blast
qed

lemma map_emitted_update:
  assumes "stoppedSpinningEmitted (f (rs ! i)) = stoppedSpinningEmitted (rs ! i)"
  shows "map stoppedSpinningEmitted (rs[i := f (rs ! i)]) = map stoppedSpinningEmitted rs"
proof (cases "i < length rs")
  case True
  then show ?thesis
    using assms by (simp add: map_update list_update_same_conv)
next
  case False
  then have "rs[i := f (rs ! i)] = rs"
    by (simp add: list_update_beyond)
  then show ?thesis by simp
qed

lemma runDelayedCall_reels_emitted:
  "map stoppedSpinningEmitted (reels (reelArea (runDelayedCall w c)))
     = map stoppedSpinningEmitted (reels (reelArea w))"
  by (cases c) (simp_all add: Let_def map_emitted_update)

lemma foldl_runDelayedCall_reels_emitted:
  "map stoppedSpinningEmitted (reels (reelArea (foldl runDelayedCall w cs)))
     = map stoppedSpinningEmitted (reels (reelArea w))"
  by (induction cs arbitrary: w) (simp_all add: runDelayedCall_reels_emitted)

lemma updateRoot_reels_emitted:
  "map stoppedSpinningEmitted (reels (reelArea (updateRoot t w)))
     = map stoppedSpinningEmitted (reels (reelArea w))"
  by (simp add: updateRoot_def foldl_runDelayedCall_reels_emitted)

lemma ReelArea_stopSpinning_fields:
  "length (reels (reelArea (ReelArea_stopSpinning w))) = length (reels (reelArea w))"
  "reelsFinishedSpinningCount (reelArea (ReelArea_stopSpinning w))
     = reelsFinishedSpinningCount (reelArea w)"
  "gsapTime (ReelArea_stopSpinning w) = gsapTime w"
  "delayedCalls (ReelArea_stopSpinning w) = delayedCalls w"
  "countEmitted e (ReelArea_stopSpinning w) = countEmitted e w"
  "map stoppedSpinningEmitted (reels (reelArea (ReelArea_stopSpinning w)))
     = map stoppedSpinningEmitted (reels (reelArea w))"
  by (simp_all add: ReelArea_stopSpinning_def countEmitted_def comp_def)

lemma countEmitted_onStoppedSpinning:
  "countEmitted allStartedSpinning (onStoppedSpinning w) = countEmitted allStartedSpinning w"
  "countEmitted allStoppedSpinning (onStoppedSpinning w) =
     countEmitted allStoppedSpinning w
       + (if reelsFinishedSpinningCount (reelArea w) + 1 = length (reels (reelArea w))
          then 1 else 0)"
  by (simp_all add: countEmitted_def emitted_onStoppedSpinning)

lemma countEmitted_assetLoader [simp]:
  "countEmitted e (w\<lparr>assetLoader := a\<rparr>) = countEmitted e w"
  by (simp add: countEmitted_def)

lemma reelEvent_fields:
  "length (reels (reelArea (reelEvent i ev w))) = length (reels (reelArea w))"
  "gsapTime (reelEvent i ev w) = gsapTime w"
  "delayedCalls (reelEvent i ev w) = delayedCalls w"
  "countEmitted allStartedSpinning (reelEvent i ev w) = countEmitted allStartedSpinning w"
  by (simp_all add: reelEvent_def Let_def split_beta countEmitted_onStoppedSpinning)

text \<open>
  The event of a reel makes the area count one more reel exactly when the
  reel emits \<open>stoppedSpinning\<close>, and the area emits \<open>allStoppedSpinning\<close>
  exactly when the count becomes the number of reels.
\<close>

lemma sum_list_update_Suc:
  assumes "i < length xs"
  shows "sum_list (xs[i := Suc (xs ! i)]) = Suc (sum_list xs)"
  using assms
proof (induction xs arbitrary: i)
  case Nil
  then show ?case by simp
next
  case (Cons x xs)
  then show ?case by (cases i) simp_all
qed

lemma reelEvent_counts:
  "reelsFinishedSpinningCount (reelArea (reelEvent i ev w))
       + sum_list (map stoppedSpinningEmitted (reels (reelArea w)))
     = reelsFinishedSpinningCount (reelArea w)
       + sum_list (map stoppedSpinningEmitted (reels (reelArea (reelEvent i ev w))))"
  "countEmitted allStoppedSpinning (reelEvent i ev w) =
     countEmitted allStoppedSpinning w
       + (if reelsFinishedSpinningCount (reelArea (reelEvent i ev w))
               = length (reels (reelArea w))
             \<and> reelsFinishedSpinningCount (reelArea w) \<noteq> length (reels (reelArea w))
          then 1 else 0)"
  "reelsFinishedSpinningCount (reelArea w)
     \<le> reelsFinishedSpinningCount (reelArea (reelEvent i ev w))"
  "reelsFinishedSpinningCount (reelArea (reelEvent i ev w))
     \<le> Suc (reelsFinishedSpinningCount (reelArea w))"
proof -
  let ?r = "reels (reelArea w) ! i"
  let ?r1 = "fst (reelStep (?r, assetLoader w) ev)"
  let ?w1 = "(updateReel i (\<lambda>_. ?r1) w)\<lparr>assetLoader := snd (reelStep (?r, assetLoader w) ev)\<rparr>"
  have w1: "reels (reelArea ?w1) = (reels (reelArea w))[i := ?r1]"
    "reelsFinishedSpinningCount (reelArea ?w1) = reelsFinishedSpinningCount (reelArea w)"
    "countEmitted allStoppedSpinning ?w1 = countEmitted allStoppedSpinning w"
    by simp_all
  consider (out) "\<not> i < length (reels (reelArea w))"
    | (same) "i < length (reels (reelArea w))"
        "stoppedSpinningEmitted ?r1 = stoppedSpinningEmitted ?r"
    | (more) "i < length (reels (reelArea w))"
        "stoppedSpinningEmitted ?r1 = Suc (stoppedSpinningEmitted ?r)"
    using reelStep_emitted [of ?r "assetLoader w" ev]
    by (cases ev) (auto split: if_splits)
  then have "reelsFinishedSpinningCount (reelArea (reelEvent i ev w))
       + sum_list (map stoppedSpinningEmitted (reels (reelArea w)))
     = reelsFinishedSpinningCount (reelArea w)
       + sum_list (map stoppedSpinningEmitted (reels (reelArea (reelEvent i ev w))))
    \<and> countEmitted allStoppedSpinning (reelEvent i ev w) =
     countEmitted allStoppedSpinning w
       + (if reelsFinishedSpinningCount (reelArea (reelEvent i ev w))
               = length (reels (reelArea w))
             \<and> reelsFinishedSpinningCount (reelArea w) \<noteq> length (reels (reelArea w))
          then 1 else 0)
    \<and> reelsFinishedSpinningCount (reelArea w)
     \<le> reelsFinishedSpinningCount (reelArea (reelEvent i ev w))
    \<and> reelsFinishedSpinningCount (reelArea (reelEvent i ev w))
     \<le> Suc (reelsFinishedSpinningCount (reelArea w))"
  proof cases
    case out
    then show ?thesis by (simp add: reelEvent_def)
  next
    case same
    have "map stoppedSpinningEmitted ((reels (reelArea w))[i := ?r1])
        = map stoppedSpinningEmitted (reels (reelArea w))"
      using same by (simp add: map_update list_update_same_conv)
    then show ?thesis
      using same by (simp add: reelEvent_def Let_def split_beta w1)
  next
    case more
    have "map stoppedSpinningEmitted ((reels (reelArea w))[i := ?r1])
        = (map stoppedSpinningEmitted (reels (reelArea w)))
            [i := Suc (map stoppedSpinningEmitted (reels (reelArea w)) ! i)]"
      using more by (simp add: map_update)
    then have "sum_list (map stoppedSpinningEmitted ((reels (reelArea w))[i := ?r1]))
        = Suc (sum_list (map stoppedSpinningEmitted (reels (reelArea w))))"
      using more(1) sum_list_update_Suc [of i "map stoppedSpinningEmitted (reels (reelArea w))"]
      by simp
    then show ?thesis
      using more
      by (simp add: reelEvent_def Let_def split_beta w1 countEmitted_onStoppedSpinning)
  qed
  then show "reelsFinishedSpinningCount (reelArea (reelEvent i ev w))
       + sum_list (map stoppedSpinningEmitted (reels (reelArea w)))
     = reelsFinishedSpinningCount (reelArea w)
       + sum_list (map stoppedSpinningEmitted (reels (reelArea (reelEvent i ev w))))"
    and "countEmitted allStoppedSpinning (reelEvent i ev w) =
     countEmitted allStoppedSpinning w
       + (if reelsFinishedSpinningCount (reelArea (reelEvent i ev w))
               = length (reels (reelArea w))
             \<and> reelsFinishedSpinningCount (reelArea w) \<noteq> length (reels (reelArea w))
          then 1 else 0)"
    and "reelsFinishedSpinningCount (reelArea w)
     \<le> reelsFinishedSpinningCount (reelArea (reelEvent i ev w))"
    and "reelsFinishedSpinningCount (reelArea (reelEvent i ev w))
     \<le> Suc (reelsFinishedSpinningCount (reelArea w))"
    by blast+
qed

text \<open>The same for every event of the world.\<close>

lemma worldStep_counts:
  "length (reels (reelArea (worldStep w e))) = length (reels (reelArea w))"
  "reelsFinishedSpinningCount (reelArea (worldStep w e))
       + sum_list (map stoppedSpinningEmitted (reels (reelArea w)))
     = reelsFinishedSpinningCount (reelArea w)
       + sum_list (map stoppedSpinningEmitted (reels (reelArea (worldStep w e))))"
  "countEmitted allStoppedSpinning (worldStep w e) =
     countEmitted allStoppedSpinning w
       + (if reelsFinishedSpinningCount (reelArea (worldStep w e))
               = length (reels (reelArea w))
             \<and> reelsFinishedSpinningCount (reelArea w) \<noteq> length (reels (reelArea w))
          then 1 else 0)"
  "reelsFinishedSpinningCount (reelArea w)
     \<le> reelsFinishedSpinningCount (reelArea (worldStep w e))"
  "reelsFinishedSpinningCount (reelArea (worldStep w e))
     \<le> Suc (reelsFinishedSpinningCount (reelArea w))"
proof -
  show "length (reels (reelArea (worldStep w e))) = length (reels (reelArea w))"
    by (cases e) (simp_all add: updateRoot_fields reelEvent_fields ReelArea_stopSpinning_fields)
  show "reelsFinishedSpinningCount (reelArea (worldStep w e))
       + sum_list (map stoppedSpinningEmitted (reels (reelArea w)))
     = reelsFinishedSpinningCount (reelArea w)
       + sum_list (map stoppedSpinningEmitted (reels (reelArea (worldStep w e))))"
    by (cases e)
      (simp_all add: updateRoot_fields updateRoot_reels_emitted reelEvent_counts(1)
        ReelArea_stopSpinning_fields)
  show "countEmitted allStoppedSpinning (worldStep w e) =
     countEmitted allStoppedSpinning w
       + (if reelsFinishedSpinningCount (reelArea (worldStep w e))
               = length (reels (reelArea w))
             \<and> reelsFinishedSpinningCount (reelArea w) \<noteq> length (reels (reelArea w))
          then 1 else 0)"
    by (cases e)
      (simp_all add: updateRoot_fields reelEvent_counts(2) ReelArea_stopSpinning_fields)
  show "reelsFinishedSpinningCount (reelArea w)
     \<le> reelsFinishedSpinningCount (reelArea (worldStep w e))"
    by (cases e)
      (simp_all add: updateRoot_fields reelEvent_counts(3) ReelArea_stopSpinning_fields)
  show "reelsFinishedSpinningCount (reelArea (worldStep w e))
     \<le> Suc (reelsFinishedSpinningCount (reelArea w))"
    by (cases e)
      (simp_all add: updateRoot_fields reelEvent_counts(4) ReelArea_stopSpinning_fields)
qed

lemma worldRun_counts:
  "length (reels (reelArea (worldRun w es))) = length (reels (reelArea w))
   \<and> reelsFinishedSpinningCount (reelArea (worldRun w es))
       + sum_list (map stoppedSpinningEmitted (reels (reelArea w)))
     = reelsFinishedSpinningCount (reelArea w)
       + sum_list (map stoppedSpinningEmitted (reels (reelArea (worldRun w es))))
   \<and> reelsFinishedSpinningCount (reelArea w)
       \<le> reelsFinishedSpinningCount (reelArea (worldRun w es))
   \<and> countEmitted allStoppedSpinning (worldRun w es) =
       countEmitted allStoppedSpinning w
         + (if reelsFinishedSpinningCount (reelArea w) < length (reels (reelArea w))
               \<and> length (reels (reelArea w))
                    \<le> reelsFinishedSpinningCount (reelArea (worldRun w es))
            then 1 else 0)"
proof (induction es arbitrary: w)
  case Nil
  show ?case by (simp add: worldRun_Nil)
next
  case (Cons e es)
  note step = worldStep_counts [of w e]
  note IH = Cons.IH [of "worldStep w e"]
  show ?case
    unfolding worldRun_Cons
    using step IH by (auto split: if_splits)
qed

lemma three: "(3::nat) = Suc (Suc (Suc 0))"
  by simp

lemma newSymbols_example_k:
  "newSymbols 5 (exampleLoader\<lparr>randomCalls := k\<rparr>) =
     ([\<lparr>texture = k mod 3, symbol_x = 0, symbol_y = 0\<rparr>,
       \<lparr>texture = Suc k mod 3, symbol_x = 0, symbol_y = 0\<rparr>,
       \<lparr>texture = Suc (Suc k) mod 3, symbol_x = 0, symbol_y = 0\<rparr>,
       \<lparr>texture = Suc (Suc (Suc k)) mod 3, symbol_x = 0, symbol_y = 0\<rparr>,
       \<lparr>texture = Suc (Suc (Suc (Suc k))) mod 3, symbol_x = 0, symbol_y = 0\<rparr>],
      exampleLoader\<lparr>randomCalls := Suc (Suc (Suc (Suc (Suc k))))\<rparr>)"
  apply (subst five)
  apply (simp only: newSymbols.simps exampleLoader_draw Let_def split_conv)
  done

lemma newReel_threeReels:
  "newReel threeReels (exampleLoader\<lparr>randomCalls := k\<rparr>) =
     (\<lparr>symbols =
         [\<lparr>texture = k mod 3, symbol_x = 0, symbol_y = - 100\<rparr>,
          \<lparr>texture = Suc k mod 3, symbol_x = 0, symbol_y = 0\<rparr>,
          \<lparr>texture = Suc (Suc k) mod 3, symbol_x = 0, symbol_y = 100\<rparr>,
          \<lparr>texture = Suc (Suc (Suc k)) mod 3, symbol_x = 0, symbol_y = 200\<rparr>,
          \<lparr>texture = Suc (Suc (Suc (Suc k))) mod 3, symbol_x = 0, symbol_y = 300\<rparr>],
       stopping = False, backoutStarted = False, needsToStop = False,
       symbolWidth = 800 / 3, symbolHeight = 100, reelAreaWidth = 800, reelAreaHeight = 400,
       movingDirection = DOWN, spinningTweenDuration = 250 / 3,
       position_x = 0, position_y = 0, tweens = [],
       stoppedSpinningEmitted = 0, loopReelCalls = 0\<rparr>,
      exampleLoader\<lparr>randomCalls := Suc (Suc (Suc (Suc (Suc k))))\<rparr>)"
  by (simp add: newReel_def threeReels_def gameConfig_def newSymbols_example_k)

lemma newReel_threeReels_0:
  "newReel threeReels (exampleLoader\<lparr>randomCalls := 0\<rparr>) =
     (\<lparr>symbols =
        [\<lparr>texture = 0, symbol_x = 0, symbol_y = - 100\<rparr>,
         \<lparr>texture = 1, symbol_x = 0, symbol_y = 0\<rparr>,
         \<lparr>texture = 2, symbol_x = 0, symbol_y = 100\<rparr>,
         \<lparr>texture = 0, symbol_x = 0, symbol_y = 200\<rparr>,
         \<lparr>texture = 1, symbol_x = 0, symbol_y = 300\<rparr>],
        stopping = False, backoutStarted = False, needsToStop = False,
        symbolWidth = 800 / 3, symbolHeight = 100, reelAreaWidth = 800,
        reelAreaHeight = 400, movingDirection = DOWN,
        spinningTweenDuration = 250 / 3, position_x = 0, position_y = 0,
        tweens = [], stoppedSpinningEmitted = 0, loopReelCalls = 0\<rparr>, exampleLoader\<lparr>randomCalls := 5\<rparr>)"
  using newReel_threeReels [of 0] by simp

lemma newReel_threeReels_5:
  "newReel threeReels (exampleLoader\<lparr>randomCalls := 5\<rparr>) =
     (\<lparr>symbols =
        [\<lparr>texture = 2, symbol_x = 0, symbol_y = - 100\<rparr>,
         \<lparr>texture = 0, symbol_x = 0, symbol_y = 0\<rparr>,
         \<lparr>texture = 1, symbol_x = 0, symbol_y = 100\<rparr>,
         \<lparr>texture = 2, symbol_x = 0, symbol_y = 200\<rparr>,
         \<lparr>texture = 0, symbol_x = 0, symbol_y = 300\<rparr>],
        stopping = False, backoutStarted = False, needsToStop = False,
        symbolWidth = 800 / 3, symbolHeight = 100, reelAreaWidth = 800,
        reelAreaHeight = 400, movingDirection = DOWN,
        spinningTweenDuration = 250 / 3, position_x = 0,
        position_y = 0, tweens = [], stoppedSpinningEmitted = 0,
        loopReelCalls = 0\<rparr>, exampleLoader\<lparr>randomCalls := 10\<rparr>)"
  using newReel_threeReels [of 5] by simp

lemma newReel_threeReels_10:
  "newReel threeReels (exampleLoader\<lparr>randomCalls := 10\<rparr>) =
     (\<lparr>symbols =
        [\<lparr>texture = 1, symbol_x = 0, symbol_y = - 100\<rparr>,
         \<lparr>texture = 2, symbol_x = 0, symbol_y = 0\<rparr>,
         \<lparr>texture = 0, symbol_x = 0, symbol_y = 100\<rparr>,
         \<lparr>texture = 1, symbol_x = 0, symbol_y = 200\<rparr>,
         \<lparr>texture = 2, symbol_x = 0, symbol_y = 300\<rparr>],
        stopping = False, backoutStarted = False, needsToStop = False,
        symbolWidth = 800 / 3, symbolHeight = 100, reelAreaWidth = 800,
        reelAreaHeight = 400, movingDirection = DOWN,
        spinningTweenDuration = 250 / 3, position_x = 0,
        position_y = 0, tweens = [], stoppedSpinningEmitted = 0,
        loopReelCalls = 0\<rparr>, exampleLoader\<lparr>randomCalls := 15\<rparr>)"
  using newReel_threeReels [of 10] by simp

lemma exampleWorld_literal:
  "exampleWorld =
    \<lparr>reelArea = \<lparr>reels =
    [\<lparr>symbols =
        [\<lparr>texture = 0, symbol_x = 0, symbol_y = - 100\<rparr>,
         \<lparr>texture = 1, symbol_x = 0, symbol_y = 0\<rparr>,
         \<lparr>texture = 2, symbol_x = 0, symbol_y = 100\<rparr>,
         \<lparr>texture = 0, symbol_x = 0, symbol_y = 200\<rparr>,
         \<lparr>texture = 1, symbol_x = 0, symbol_y = 300\<rparr>],
        stopping = False, backoutStarted = False, needsToStop = False,
        symbolWidth = 800 / 3, symbolHeight = 100, reelAreaWidth = 800,
        reelAreaHeight = 400, movingDirection = DOWN,
        spinningTweenDuration = 250 / 3, position_x = 0, position_y = 0,
        tweens = [], stoppedSpinningEmitted = 0, loopReelCalls = 0\<rparr>,
     \<lparr>symbols =
        [\<lparr>texture = 2, symbol_x = 0, symbol_y = - 100\<rparr>,
         \<lparr>texture = 0, symbol_x = 0, symbol_y = 0\<rparr>,
         \<lparr>texture = 1, symbol_x = 0, symbol_y = 100\<rparr>,
         \<lparr>texture = 2, symbol_x = 0, symbol_y = 200\<rparr>,
         \<lparr>texture = 0, symbol_x = 0, symbol_y = 300\<rparr>],
        stopping = False, backoutStarted = False, needsToStop = False,
        symbolWidth = 800 / 3, symbolHeight = 100, reelAreaWidth = 800,
        reelAreaHeight = 400, movingDirection = DOWN,
        spinningTweenDuration = 250 / 3, position_x = 800 / 3,
        position_y = 0, tweens = [], stoppedSpinningEmitted = 0,
        loopReelCalls = 0\<rparr>,
     \<lparr>symbols =
        [\<lparr>texture = 1, symbol_x = 0, symbol_y = - 100\<rparr>,
         \<lparr>texture = 2, symbol_x = 0, symbol_y = 0\<rparr>,
         \<lparr>texture = 0, symbol_x = 0, symbol_y = 100\<rparr>,
         \<lparr>texture = 1, symbol_x = 0, symbol_y = 200\<rparr>,
         \<lparr>texture = 2, symbol_x = 0, symbol_y = 300\<rparr>],
        stopping = False, backoutStarted = False, needsToStop = False,
        symbolWidth = 800 / 3, symbolHeight = 100, reelAreaWidth = 800,
        reelAreaHeight = 400, movingDirection = DOWN,
        spinningTweenDuration = 250 / 3, position_x = 1600 / 3,
        position_y = 0, tweens = [], stoppedSpinningEmitted = 0,
        loopReelCalls = 0\<rparr>],
    reelsFinishedSpinningCount = 0, stopDelay = 4000, stopInterval = 400,
    startInterval = 100\<rparr>,
    assetLoader = exampleLoader\<lparr>randomCalls := 15\<rparr>, gsapTime = 0, delayedCalls = [],
    emitted = []\<rparr>"
proof -
  have cfg: "config_reelsCount threeReels = Suc (Suc (Suc 0))"
    "config_reelAreaWidth threeReels = 800" "config_stopDelay threeReels = 4000"
    "config_stopInterval threeReels = 400" "config_startInterval threeReels = 100"
    "config_movingDirection threeReels = DOWN" "config_reelAreaHeight threeReels = 400"
    "config_symbolsPerReel threeReels = 4"
    by (simp_all add: threeReels_def gameConfig_def)
  have rs: "newReels (Suc (Suc (Suc 0))) threeReels (exampleLoader\<lparr>randomCalls := 0\<rparr>)
    = ([fst (newReel threeReels (exampleLoader\<lparr>randomCalls := 0\<rparr>)),
        fst (newReel threeReels (exampleLoader\<lparr>randomCalls := 5\<rparr>)),
        fst (newReel threeReels (exampleLoader\<lparr>randomCalls := 10\<rparr>))],
       exampleLoader\<lparr>randomCalls := 15\<rparr>)"
    by (simp only: newReels.simps Let_def split_conv newReel_threeReels_0
        newReel_threeReels_5 newReel_threeReels_10 fst_conv)
  have w: "exampleWorld = newWorld threeReels (exampleLoader\<lparr>randomCalls := 0\<rparr>)"
    unfolding exampleWorld_def by (subst exampleLoader_0) (rule refl)
  show ?thesis
    unfolding w newWorld_def newReelArea_def cfg rs
    by (simp add: newReel_threeReels_0 newReel_threeReels_5 newReel_threeReels_10 Let_def)
qed


lemma exampleStarted_eq:
  "ReelArea_startSpinning exampleWorld = Inr exampleStarted"
  "exampleStarted = exampleWorld\<lparr>delayedCalls :=
      [(0, StartReel 0), (100, StartReel 1), (200, StartReel 2),
       (4000, StopReel 0), (4400, StopReel 1), (4800, StopReel 2)]\<rparr>"
proof -
  have s: "ReelArea_startSpinning exampleWorld = Inr (exampleWorld\<lparr>delayedCalls :=
      [(0, StartReel 0), (100, StartReel 1), (200, StartReel 2),
       (4000, StopReel 0), (4400, StopReel 1), (4800, StopReel 2)]\<rparr>)"
    by (simp add: exampleWorld_literal ReelArea_startSpinning_def Let_def upt_rec delayedCall_def)
  show "exampleStarted = exampleWorld\<lparr>delayedCalls :=
      [(0, StartReel 0), (100, StartReel 1), (200, StartReel 2),
       (4000, StopReel 0), (4400, StopReel 1), (4800, StopReel 2)]\<rparr>"
    by (simp add: exampleStarted_def s)
  then show "ReelArea_startSpinning exampleWorld = Inr exampleStarted"
    using s by simp
qed

lemmas world_eval =
  worldRun_Cons worldRun_Nil updateRoot_def updateReel_def reelEvent_def
  onStoppedSpinning_def emit_def ReelArea_stopSpinning_def

lemma exampleStopped_eval:
  "reelsFinishedSpinningCount (reelArea exampleStopped) = 3"
  "emitted exampleStopped = [(200, allStartedSpinning), (200, allStoppedSpinning)]"
  "map stoppedSpinningEmitted (reels (reelArea exampleStopped)) = [1, 1, 1]"
  "length (reels (reelArea exampleStopped)) = 3"
  "startInterval (reelArea exampleStopped) = 100"
  "stopDelay (reelArea exampleStopped) = 4000"
  by (simp_all add: exampleStopped_def exampleCycle_def exampleStarted_eq(2)
      exampleWorld_literal world_eval reel_eval)

lemma exampleStopped_two_reels:
  "reelsFinishedSpinningCount (reelArea (worldRun exampleStarted (take 9 exampleCycle))) = 2"
  by (simp add: exampleCycle_def exampleStarted_eq(2) exampleWorld_literal world_eval reel_eval)

lemma exampleRestarted_eq: "ReelArea_startSpinning exampleStopped = Inr exampleRestarted"
  by (simp add: exampleRestarted_def ReelArea_startSpinning_def Let_def exampleStopped_eval)

lemma exampleRestarted_literal:
  "exampleRestarted = exampleStopped\<lparr>
     reelArea := (reelArea exampleStopped)\<lparr>reelsFinishedSpinningCount := 0\<rparr>,
     delayedCalls := [(4000, StopReel 0), (4400, StopReel 1), (4800, StopReel 2),
        (200, StartReel 0), (300, StartReel 1), (400, StartReel 2),
        (4200, StopReel 0), (4600, StopReel 1), (5000, StopReel 2)]\<rparr>"
  by (simp add: exampleRestarted_def ReelArea_startSpinning_def Let_def upt_rec delayedCall_def
        exampleStopped_def exampleCycle_def exampleStarted_eq(2)
      exampleWorld_literal world_eval reel_eval)

lemma exampleCycle2_eval:
  "reelsFinishedSpinningCount (reelArea (worldRun exampleRestarted exampleCycle2)) = 3"
  by (simp add: exampleRestarted_literal exampleCycle2_def
      exampleStopped_def exampleCycle_def exampleStarted_eq(2)
      exampleWorld_literal world_eval reel_eval)

text \<open>
  C7. The listener of the area adds one to \<open>reelsFinishedSpinningCount\<close> for
  every \<open>stoppedSpinning\<close> a reel emits, and emits \<open>allStoppedSpinning\<close>
  when the count is then the number of reels. \<open>startSpinning\<close> of the area
  sets the count to 0; nothing else lowers it. So after a call of
  \<open>startSpinning\<close> that does not throw, whatever the events that follow
  (ticks of the clock, events of the reels, clicks on the stop button), the
  count is the number of \<open>stoppedSpinning\<close> events the reels have emitted
  since, and the area has emitted \<open>allStoppedSpinning\<close> once if the count has
  reached the number of reels and not at all if it has not.
\<close>

theorem allStoppedSpinning_once_per_cycle:
  assumes "ReelArea_startSpinning w = Inr w'"
  shows "reelsFinishedSpinningCount (reelArea w') = 0
    \<and> reelsFinishedSpinningCount (reelArea (onStoppedSpinning v))
         = reelsFinishedSpinningCount (reelArea v) + 1
    \<and> emitted (onStoppedSpinning v) =
         emitted v @
           (if reelsFinishedSpinningCount (reelArea v) + 1 = length (reels (reelArea v))
            then [(gsapTime v, allStoppedSpinning)] else [])
    \<and> reelsFinishedSpinningCount (reelArea (worldRun w' evs))
           + sum_list (map stoppedSpinningEmitted (reels (reelArea w)))
         = sum_list (map stoppedSpinningEmitted (reels (reelArea (worldRun w' evs))))
    \<and> countEmitted allStoppedSpinning (worldRun w' evs) =
         countEmitted allStoppedSpinning w
           + (if 0 < length (reels (reelArea w))
                 \<and> length (reels (reelArea w))
                      \<le> reelsFinishedSpinningCount (reelArea (worldRun w' evs))
              then 1 else 0)"
proof -
  note s = ReelArea_startSpinning_Inr [OF assms]
  have e: "countEmitted allStoppedSpinning w' = countEmitted allStoppedSpinning w"
    using s(3) by (simp add: countEmitted_def)
  show ?thesis
    using worldRun_counts [of w' evs] s(1,2) e
    by (simp add: emitted_onStoppedSpinning)
qed

theorem allStoppedSpinning_once_per_cycle_witness:
  "ReelArea_startSpinning exampleWorld = Inr exampleStarted
   \<and> reelsFinishedSpinningCount (reelArea exampleStarted) = 0
   \<and> reelsFinishedSpinningCount (reelArea (worldRun exampleStarted (take 9 exampleCycle))) = 2
   \<and> countEmitted allStoppedSpinning (worldRun exampleStarted (take 9 exampleCycle)) = 0
   \<and> reelsFinishedSpinningCount (reelArea (worldRun exampleStarted exampleCycle)) = 3
   \<and> countEmitted allStoppedSpinning (worldRun exampleStarted exampleCycle) = 1
   \<and> ReelArea_startSpinning exampleStopped = Inr exampleRestarted
   \<and> reelsFinishedSpinningCount (reelArea exampleRestarted) = 0
   \<and> reelsFinishedSpinningCount (reelArea (worldRun exampleRestarted exampleCycle2)) = 3
   \<and> countEmitted allStoppedSpinning (worldRun exampleRestarted exampleCycle2) = 2"
proof -
  have w: "length (reels (reelArea exampleWorld)) = 3"
    "countEmitted allStoppedSpinning exampleWorld = 0"
    by (simp_all add: exampleWorld_literal countEmitted_def)
  have st: "countEmitted allStoppedSpinning exampleStopped = 1"
    by (simp add: countEmitted_def exampleStopped_eval)
  note a = allStoppedSpinning_once_per_cycle [OF exampleStarted_eq(1),
      where v = exampleWorld and evs = "take 9 exampleCycle"]
  note b = allStoppedSpinning_once_per_cycle [OF exampleStarted_eq(1),
      where v = exampleWorld and evs = exampleCycle]
  note c = allStoppedSpinning_once_per_cycle [OF exampleRestarted_eq,
      where v = exampleWorld and evs = exampleCycle2]
  show ?thesis
    using a b c exampleStopped_eval(1,4) exampleStopped_two_reels exampleStarted_eq(1)
      exampleRestarted_eq w st exampleCycle2_eval
    by (simp add: exampleStopped_def [symmetric])
qed

section \<open>The schedule of the reel area\<close>

lemma delayedCall_fields [simp]:
  "reelArea (delayedCall d c w) = reelArea w"
  "gsapTime (delayedCall d c w) = gsapTime w"
  "emitted (delayedCall d c w) = emitted w"
  "delayedCalls (delayedCall d c w) = delayedCalls w @ [(gsapTime w + d, c)]"
  by (simp_all add: delayedCall_def)

lemma delayedCalls_scheduleStarts:
  "delayedCalls (scheduleStarts is w) =
     delayedCalls w
       @ map (\<lambda>i. (gsapTime w + real i * startInterval (reelArea w), StartReel i)) is"
  by (induction "is" arbitrary: w) simp_all

lemma delayedCalls_scheduleStops:
  "delayedCalls (scheduleStops is w) =
     delayedCalls w
       @ map (\<lambda>i. (gsapTime w + (stopDelay (reelArea w) + real i * stopInterval (reelArea w)),
                   StopReel i)) is"
  by (induction "is" arbitrary: w) simp_all

lemma delayedCalls_startSpinning:
  assumes "ReelArea_startSpinning w = Inr w'"
  shows "delayedCalls w' =
     delayedCalls w
       @ map (\<lambda>i. (gsapTime w + real i * startInterval (reelArea w), StartReel i))
           [0..<length (reels (reelArea w))]
       @ map (\<lambda>i. (gsapTime w + (stopDelay (reelArea w) + real i * stopInterval (reelArea w)),
                   StopReel i))
           [0..<length (reels (reelArea w))]"
  using assms
  by (auto simp add: ReelArea_startSpinning_def Let_def delayedCalls_scheduleStarts
      delayedCalls_scheduleStops split: if_splits)

lemma filter_commute: "filter P (filter Q xs) = filter Q (filter P xs)"
  by (induction xs) simp_all

lemma filter_conj: "filter (\<lambda>c. P c \<and> Q c) xs = filter P (filter Q xs)"
  by (induction xs) simp_all

lemma filter_StartReel_starts:
  assumes "0 < n"
  shows "filter (\<lambda>c. snd c = StartReel (n - 1)) (map (\<lambda>i. (f i, StartReel i)) [0..<n])
     = [(f (n - 1), StartReel (n - 1))]"
proof -
  obtain m where n: "n = Suc m"
    using assms by (cases n) simp_all
  have "filter (\<lambda>c. snd c = StartReel m) (map (\<lambda>i. (f i, StartReel i)) [0..<m]) = []"
    by (simp add: filter_empty_conv)
  then show ?thesis
    by (simp add: n)
qed

lemma filter_StartReel_stops:
  "filter (\<lambda>c. snd c = StartReel k) (map (\<lambda>i. (f i, StopReel i)) is) = []"
  by (simp add: filter_empty_conv)

text \<open>
  The delayed call that starts the last reel is pending (\<open>f\<close> is false) or
  has run (\<open>f\<close> is true): the area emits \<open>allStartedSpinning\<close> at the first
  tick at or after the time it is due, and never again.
\<close>

lemma worldRun_allStarted:
  assumes "length (reels (reelArea v)) = n" and "0 < n"
    and "filter (\<lambda>c. snd c = StartReel (n - 1)) (delayedCalls v)
           = (if f then [] else [(due, StartReel (n - 1))])"
  shows "countEmitted allStartedSpinning (worldRun v evs) =
     countEmitted allStartedSpinning v
       + (if \<not> f \<and> (\<exists>t. Tick t \<in> set evs \<and> due \<le> t) then 1 else 0)"
  using assms
proof (induction evs arbitrary: v f)
  case Nil
  show ?case by (simp add: worldRun_Nil)
next
  case (Cons e evs)
  show ?case
  proof (cases e)
    case (Tick t)
    let ?v1 = "updateRoot t v"
    let ?last = "\<lambda>c::real \<times> DelayedCall. snd c = StartReel (n - 1)"
    have len: "length (reels (reelArea ?v1)) = n"
      using Cons.prems(1) by (simp add: updateRoot_fields)
    have "filter ?last (delayedCalls ?v1)
        = filter (\<lambda>c. \<not> fst c \<le> t) (filter ?last (delayedCalls v))"
      unfolding updateRoot_fields by (rule filter_commute)
    also have "\<dots> = filter (\<lambda>c. \<not> fst c \<le> t) (if f then [] else [(due, StartReel (n - 1))])"
      by (simp only: Cons.prems(3))
    also have "\<dots> = (if f \<or> due \<le> t then [] else [(due, StartReel (n - 1))])"
      by simp
    finally have pend: "filter ?last (delayedCalls ?v1)
        = (if f \<or> due \<le> t then [] else [(due, StartReel (n - 1))])" .
    have "length (filter (\<lambda>c. fst c \<le> t \<and> snd c = StartReel (n - 1)) (delayedCalls v))
        = length (filter (\<lambda>c. fst c \<le> t) (filter ?last (delayedCalls v)))"
      by (simp only: filter_conj)
    also have "\<dots> = length (filter (\<lambda>c. fst c \<le> t)
        (if f then [] else [(due, StartReel (n - 1))]))"
      by (simp only: Cons.prems(3))
    also have "\<dots> = (if \<not> f \<and> due \<le> t then 1 else 0)"
      by simp
    finally have fired: "length (filter (\<lambda>c. fst c \<le> t \<and> snd c = StartReel (n - 1))
        (delayedCalls v)) = (if \<not> f \<and> due \<le> t then 1 else 0)" .
    have now: "countEmitted allStartedSpinning ?v1
        = countEmitted allStartedSpinning v + (if \<not> f \<and> due \<le> t then 1 else 0)"
      using Cons.prems(1,2) fired by (simp add: updateRoot_fields)
    have "countEmitted allStartedSpinning (worldRun ?v1 evs) =
        countEmitted allStartedSpinning ?v1
          + (if \<not> (f \<or> due \<le> t) \<and> (\<exists>t. Tick t \<in> set evs \<and> due \<le> t) then 1 else 0)"
      by (rule Cons.IH [OF len Cons.prems(2) pend])
    with now show ?thesis
      by (auto simp add: worldRun_Cons Tick)
  next
    case (OfReel i ev)
    let ?v1 = "reelEvent i ev v"
    have "countEmitted allStartedSpinning (worldRun ?v1 evs) =
        countEmitted allStartedSpinning ?v1
          + (if \<not> f \<and> (\<exists>t. Tick t \<in> set evs \<and> due \<le> t) then 1 else 0)"
      using Cons.prems by (intro Cons.IH) (simp_all add: reelEvent_fields)
    then show ?thesis
      by (simp add: worldRun_Cons OfReel reelEvent_fields)
  next
    case StopClicked
    let ?v1 = "ReelArea_stopSpinning v"
    have "countEmitted allStartedSpinning (worldRun ?v1 evs) =
        countEmitted allStartedSpinning ?v1
          + (if \<not> f \<and> (\<exists>t. Tick t \<in> set evs \<and> due \<le> t) then 1 else 0)"
      using Cons.prems by (intro Cons.IH) (simp_all add: ReelArea_stopSpinning_fields)
    then show ?thesis
      by (simp add: worldRun_Cons StopClicked ReelArea_stopSpinning_fields)
  qed
qed

text \<open>
  C6. A call of \<open>startSpinning\<close> of the area that does not throw makes, for
  the reel \<open>i\<close>, a delayed call due \<open>i * startInterval\<close> after the call that
  starts the reel, and a delayed call due \<open>stopDelay + i * stopInterval\<close>
  after the call that calls \<open>stopSpinning\<close> of the reel (it sets the flag and
  starts no animation). The delayed call of the last reel emits
  \<open>allStartedSpinning\<close> right after it has called \<open>startSpinning\<close> of the
  reel; no other delayed call emits anything. So, when no such call was
  pending, the area emits \<open>allStartedSpinning\<close> exactly once, at the first
  tick at or after the time the last start is due, whatever else happens.
\<close>

theorem startSpinning_schedule:
  assumes "ReelArea_startSpinning w = Inr w'"
  shows "delayedCalls w' =
      delayedCalls w
        @ map (\<lambda>i. (gsapTime w + real i * startInterval (reelArea w), StartReel i))
            [0..<length (reels (reelArea w))]
        @ map (\<lambda>i. (gsapTime w + (stopDelay (reelArea w) + real i * stopInterval (reelArea w)),
                    StopReel i))
            [0..<length (reels (reelArea w))]
    \<and> reels (reelArea (runDelayedCall v (StartReel i)))
        = (reels (reelArea v))[i := startSpinning (reels (reelArea v) ! i)]
    \<and> emitted (runDelayedCall v (StartReel i)) =
        emitted v @ (if int i = int (length (reels (reelArea v))) - 1
                     then [(gsapTime v, allStartedSpinning)] else [])
    \<and> runDelayedCall v (StopReel i) = updateReel i stopSpinning v
    \<and> (0 < length (reels (reelArea w))
        \<and> list_all (\<lambda>c. snd c \<noteq> StartReel (length (reels (reelArea w)) - 1)) (delayedCalls w)
       \<longrightarrow> countEmitted allStartedSpinning (worldRun w' evs) =
            countEmitted allStartedSpinning w
              + (if \<exists>t. Tick t \<in> set evs
                       \<and> gsapTime w
                           + real (length (reels (reelArea w)) - 1) * startInterval (reelArea w)
                          \<le> t
                 then 1 else 0))"
proof -
  let ?n = "length (reels (reelArea w))"
  let ?due = "gsapTime w + real (?n - 1) * startInterval (reelArea w)"
  note s = ReelArea_startSpinning_Inr [OF assms]
  note dcs = delayedCalls_startSpinning [OF assms]
  have run: "countEmitted allStartedSpinning (worldRun w' evs) =
      countEmitted allStartedSpinning w
        + (if \<exists>t. Tick t \<in> set evs \<and> ?due \<le> t then 1 else 0)"
    if n: "0 < ?n"
      and none: "list_all (\<lambda>c. snd c \<noteq> StartReel (?n - 1)) (delayedCalls w)"
  proof -
    have old: "filter (\<lambda>c. snd c = StartReel (?n - 1)) (delayedCalls w) = []"
      using none by (simp add: filter_empty_conv list_all_iff)
    have pend: "filter (\<lambda>c. snd c = StartReel (?n - 1)) (delayedCalls w')
        = (if False then [] else [(?due, StartReel (?n - 1))])"
      unfolding dcs filter_append old filter_StartReel_stops filter_StartReel_starts [OF n]
      by simp
    have len: "length (reels (reelArea w')) = ?n"
      using s(2) by simp
    have e: "countEmitted allStartedSpinning w' = countEmitted allStartedSpinning w"
      using s(3) by (simp add: countEmitted_def)
    show ?thesis
      using worldRun_allStarted [OF len n pend, of evs] e by simp
  qed
  have cb: "reels (reelArea (runDelayedCall v (StartReel i)))
        = (reels (reelArea v))[i := startSpinning (reels (reelArea v) ! i)]"
    "emitted (runDelayedCall v (StartReel i)) =
        emitted v @ (if int i = int (length (reels (reelArea v))) - 1
                     then [(gsapTime v, allStartedSpinning)] else [])"
    "runDelayedCall v (StopReel i) = updateReel i stopSpinning v"
    by (simp_all add: Let_def emit_def)
  show ?thesis
    using dcs cb run by blast
qed

lemma exampleStarted_ticks:
  "map (\<lambda>r. length (tweens r))
     (reels (reelArea (worldRun exampleStarted [Tick 0, Tick 100, Tick 199]))) = [1, 1, 0]"
  "emitted (worldRun exampleStarted [Tick 0, Tick 100, Tick 199]) = []"
  "map (\<lambda>r. length (tweens r))
     (reels (reelArea (worldRun exampleStarted [Tick 0, Tick 100, Tick 199, Tick 200])))
     = [1, 1, 1]"
  "emitted (worldRun exampleStarted [Tick 0, Tick 100, Tick 199, Tick 200])
     = [(200, allStartedSpinning)]"
  by (simp_all add: exampleStarted_eq(2) exampleWorld_literal world_eval reel_eval)

theorem startSpinning_schedule_witness:
  "ReelArea_startSpinning exampleWorld = Inr exampleStarted
   \<and> delayedCalls exampleStarted =
       [(0, StartReel 0), (100, StartReel 1), (200, StartReel 2),
        (4000, StopReel 0), (4400, StopReel 1), (4800, StopReel 2)]
   \<and> 0 < length (reels (reelArea exampleWorld))
   \<and> list_all (\<lambda>c. snd c \<noteq> StartReel (length (reels (reelArea exampleWorld)) - 1))
        (delayedCalls exampleWorld)
   \<and> countEmitted allStartedSpinning (worldRun exampleStarted [Tick 0, Tick 100, Tick 199]) = 0
   \<and> countEmitted allStartedSpinning
        (worldRun exampleStarted [Tick 0, Tick 100, Tick 199, Tick 200, Tick 300]) = 1
   \<and> map (\<lambda>r. length (tweens r))
        (reels (reelArea (worldRun exampleStarted [Tick 0, Tick 100, Tick 199]))) = [1, 1, 0]
   \<and> map (\<lambda>r. length (tweens r))
        (reels (reelArea (worldRun exampleStarted [Tick 0, Tick 100, Tick 199, Tick 200])))
        = [1, 1, 1]
   \<and> emitted (worldRun exampleStarted [Tick 0, Tick 100, Tick 199, Tick 200])
        = [(200, allStartedSpinning)]"
proof -
  have w: "length (reels (reelArea exampleWorld)) = 3" "delayedCalls exampleWorld = []"
    "countEmitted allStartedSpinning exampleWorld = 0" "gsapTime exampleWorld = 0"
    "startInterval (reelArea exampleWorld) = 100" "stopInterval (reelArea exampleWorld) = 400"
    "stopDelay (reelArea exampleWorld) = 4000"
    by (simp_all add: exampleWorld_literal countEmitted_def)
  note a = startSpinning_schedule [OF exampleStarted_eq(1),
      where v = exampleWorld and i = 2 and evs = "[Tick 0, Tick 100, Tick 199]"]
  note b = startSpinning_schedule [OF exampleStarted_eq(1),
      where v = exampleWorld and i = 2 and evs = "[Tick 0, Tick 100, Tick 199, Tick 200, Tick 300]"]
  have d: "delayedCalls exampleStarted =
       [(0, StartReel 0), (100, StartReel 1), (200, StartReel 2),
        (4000, StopReel 0), (4400, StopReel 1), (4800, StopReel 2)]"
    using a by (simp add: w upt_rec)
  have c0: "countEmitted allStartedSpinning
      (worldRun exampleStarted [Tick 0, Tick 100, Tick 199]) = 0"
    using a by (auto simp add: w)
  have c1: "countEmitted allStartedSpinning
      (worldRun exampleStarted [Tick 0, Tick 100, Tick 199, Tick 200, Tick 300]) = 1"
    using b by (auto simp add: w)
  show ?thesis
    using d c0 c1 exampleStarted_ticks exampleStarted_eq(1) by (simp add: w)
qed

section \<open>The positions of the symbols over a cycle\<close>

lemma symbol_y_forEach_loopSymbol:
  "map symbol_y (fst (forEachSymbol (loopSymbol r) ss al)) =
     map (\<lambda>y. if y + symbolHeight r \<ge> reelAreaHeight r - eps then - symbolHeight r
               else y + symbolHeight r) (map symbol_y ss)"
  by (induction ss arbitrary: al) (simp_all add: split_beta loopSymbol_def Let_def)

lemma positions_loopReel:
  "symbol_y ` set (symbols (fst (loopReel r al))) =
     (\<lambda>y. if y + symbolHeight r \<ge> reelAreaHeight r - eps then - symbolHeight r
           else y + symbolHeight r) ` symbol_y ` set (symbols r)"
proof -
  have "symbol_y ` set (symbols (fst (loopReel r al)))
      = set (map symbol_y (symbols (fst (loopReel r al))))"
    by (simp only: set_map)
  also have "\<dots> = set (map (\<lambda>y. if y + symbolHeight r \<ge> reelAreaHeight r - eps
      then - symbolHeight r else y + symbolHeight r) (map symbol_y (symbols r)))"
    by (simp only: symbols_loopReel symbol_y_forEach_loopSymbol)
  also have "\<dots> = (\<lambda>y. if y + symbolHeight r \<ge> reelAreaHeight r - eps then - symbolHeight r
           else y + symbolHeight r) ` symbol_y ` set (symbols r)"
    by (simp only: set_map)
  finally show ?thesis .
qed

lemma set_restingOffsets: "set (restingOffsets h n) = (\<lambda>i. (real i - 1) * h) ` {0..n}"
  by (simp only: restingOffsets_def set_map set_upt atLeastLessThanSuc_atLeastAtMost)

text \<open>
  When the symbol height exceeds \<open>eps\<close>, a pass maps the resting offsets to
  themselves (the last symbol wraps), and the offsets moved back by one symbol
  to the resting offsets (no symbol wraps).
\<close>

lemma wrap_resting:
  assumes n: "0 < n" and h: "eps < h"
  shows "(\<lambda>y. if y + h \<ge> real n * h - eps then - h else y + h) ` (\<lambda>i. (real i - 1) * h) ` {0..n}
     = (\<lambda>i. (real i - 1) * h) ` {0..n}"
proof -
  have e: "0 < eps" by (simp add: eps_def)
  have h0: "0 < h" using h e by simp
  define m where "m = (\<lambda>y. if y + h \<ge> real n * h - eps then - h else y + h)"
  define g where "g = (\<lambda>i::nat. (real i - 1) * h)"
  have below: "\<not> real i * h \<ge> real n * h - eps" if "i < n" for i
  proof -
    have "real i + 1 \<le> real n" using that by simp
    then have "(real i + 1) * h \<le> real n * h"
      using h0 by (simp add: mult_right_mono)
    then have "real i * h + h \<le> real n * h" by (simp add: algebra_simps)
    then show ?thesis using h by simp
  qed
  have last: "m (g n) = g 0"
    using e by (simp add: m_def g_def algebra_simps)
  have other: "m (g i) = g (Suc i)" if "i < n" for i
    using below [OF that] by (simp add: m_def g_def algebra_simps)
  have "m ` g ` {0..n} = g ` {0..n}"
  proof (intro equalityI subsetI)
    fix y assume "y \<in> m ` g ` {0..n}"
    then obtain i where i: "i \<le> n" "y = m (g i)" by auto
    show "y \<in> g ` {0..n}"
    proof (cases "i = n")
      case True
      then have "y = g 0" using i last by simp
      then show ?thesis by simp
    next
      case False
      then have "i < n" using i by simp
      then have "y = g (Suc i)" "Suc i \<le> n" using i other by simp_all
      then show ?thesis by simp
    qed
  next
    fix y assume "y \<in> g ` {0..n}"
    then obtain j where j: "j \<le> n" "y = g j" by auto
    show "y \<in> m ` g ` {0..n}"
    proof (cases j)
      case 0
      then have "y = m (g n)" using j last by simp
      then show ?thesis by simp
    next
      case (Suc i)
      then have "i < n" using j by simp
      then have "y = m (g i)" "i \<le> n" using j Suc other by simp_all
      then show ?thesis by simp
    qed
  qed
  then show ?thesis by (simp only: m_def g_def)
qed

lemma wrap_shifted:
  assumes n: "0 < n" and h: "eps < h"
  shows "(\<lambda>y. if y + h \<ge> real n * h - eps then - h else y + h)
           ` (\<lambda>y. y - h) ` (\<lambda>i. (real i - 1) * h) ` {0..n}
     = (\<lambda>i. (real i - 1) * h) ` {0..n}"
proof -
  have e: "0 < eps" by (simp add: eps_def)
  have h0: "0 < h" using h e by simp
  have keep: "(if ((real i - 1) * h - h) + h \<ge> real n * h - eps then - h
               else ((real i - 1) * h - h) + h) = (real i - 1) * h" if "i \<le> n" for i
  proof -
    have "real i \<le> real n" using that by simp
    then have "real i * h \<le> real n * h"
      using h0 by (simp add: mult_right_mono)
    then have "(real i - 1) * h + h \<le> real n * h" by (simp add: algebra_simps)
    then have "\<not> (real i - 1) * h \<ge> real n * h - eps" using h by simp
    then show ?thesis by simp
  qed
  have "(\<lambda>y. if y + h \<ge> real n * h - eps then - h else y + h)
           ` (\<lambda>y. y - h) ` (\<lambda>i. (real i - 1) * h) ` {0..n}
      = (\<lambda>i. if ((real i - 1) * h - h) + h \<ge> real n * h - eps then - h
               else ((real i - 1) * h - h) + h) ` {0..n}"
    by (simp only: image_image)
  also have "\<dots> = (\<lambda>i. (real i - 1) * h) ` {0..n}"
    by (rule image_cong) (simp_all only: keep atLeastAtMost_iff)
  finally show ?thesis .
qed

lemma loopReel_onGrid:
  assumes "0 < n" and "eps < symbolHeight r" and "onGrid n r"
  shows "set (map symbol_y (symbols (fst (loopReel r al)))) = set (restingOffsets (symbolHeight r) n)"
proof -
  have H: "reelAreaHeight r = real n * symbolHeight r"
    using assms(3) by (simp add: onGrid_def)
  have pos: "symbol_y ` set (symbols r) = (\<lambda>i. (real i - 1) * symbolHeight r) ` {0..n}
      \<or> symbol_y ` set (symbols r)
          = (\<lambda>y. y - symbolHeight r) ` (\<lambda>i. (real i - 1) * symbolHeight r) ` {0..n}"
    using assms(3) by (simp only: onGrid_def set_map set_restingOffsets)
  have "symbol_y ` set (symbols (fst (loopReel r al)))
      = (\<lambda>i. (real i - 1) * symbolHeight r) ` {0..n}"
    using pos
  proof
    assume a: "symbol_y ` set (symbols r) = (\<lambda>i. (real i - 1) * symbolHeight r) ` {0..n}"
    show ?thesis
      unfolding positions_loopReel a H by (rule wrap_resting [OF assms(1,2)])
  next
    assume a: "symbol_y ` set (symbols r)
        = (\<lambda>y. y - symbolHeight r) ` (\<lambda>i. (real i - 1) * symbolHeight r) ` {0..n}"
    show ?thesis
      unfolding positions_loopReel a H by (rule wrap_shifted [OF assms(1,2)])
  qed
  then show ?thesis
    by (simp only: set_map set_restingOffsets)
qed

lemma onGrid_cong:
  assumes "onGrid n r" and "symbols r' = symbols r" and "symbolHeight r' = symbolHeight r"
    and "reelAreaHeight r' = reelAreaHeight r"
  shows "onGrid n r'"
  using assms by (simp add: onGrid_def)

lemma onGrid_resting:
  assumes "reelAreaHeight r = real n * symbolHeight r"
    and "set (map symbol_y (symbols r)) = set (restingOffsets (symbolHeight r) n)"
  shows "onGrid n r"
  using assms by (simp add: onGrid_def)

lemma onGrid_loopReel:
  assumes "0 < n" and "eps < symbolHeight r" and "onGrid n r"
  shows "onGrid n (fst (loopReel r al))"
proof (rule onGrid_resting)
  show "reelAreaHeight (fst (loopReel r al)) = real n * symbolHeight (fst (loopReel r al))"
    using assms(3) by (simp add: onGrid_def)
  show "set (map symbol_y (symbols (fst (loopReel r al))))
      = set (restingOffsets (symbolHeight (fst (loopReel r al))) n)"
    using loopReel_onGrid [OF assms, of al] by simp
qed

lemma onGrid_stopping_onUpdate:
  assumes "0 < n" and "eps < symbolHeight r" and "onGrid n r"
  shows "onGrid n (fst (stopping_onUpdate r al))"
proof (cases "\<not> backoutStarted r \<and> position_y r \<ge> symbolHeight r")
  case True
  have H: "reelAreaHeight r = real n * symbolHeight r"
    using assms(3) by (simp add: onGrid_def)
  note L = loopReel_onGrid [OF assms, of al]
  have "set (map symbol_y (symbols (fst (stopping_onUpdate r al))))
      = (\<lambda>y. y - symbolHeight r) ` set (map symbol_y (symbols (fst (loopReel r al))))"
    using True by (simp add: symbols_stopping_onUpdate image_image)
  also have "\<dots> = set (map (\<lambda>y. y - symbolHeight r) (restingOffsets (symbolHeight r) n))"
    unfolding L by (simp only: set_map)
  finally show ?thesis
    using H by (simp add: onGrid_def)
next
  case False
  then have "symbols (fst (stopping_onUpdate r al)) = symbols r"
    by (auto simp add: symbols_stopping_onUpdate)
  then show ?thesis
    by (intro onGrid_cong [OF assms(3)]) simp_all
qed

text \<open>Every event keeps the symbols on the grid.\<close>

lemma onGrid_reelStep:
  assumes n: "0 < n" and h: "eps < symbolHeight r" and g: "onGrid n r"
  shows "onGrid n (fst (reelStep (r, al) e))"
proof (cases e)
  case CallStartSpinning
  have "onGrid n (startSpinning r)"
    by (rule onGrid_cong [OF g]) simp_all
  then show ?thesis using CallStartSpinning by simp
next
  case CallStopSpinning
  have "onGrid n (stopSpinning r)"
    by (rule onGrid_cong [OF g]) simp_all
  then show ?thesis using CallStopSpinning by simp
next
  case (EaseInFrame k v)
  have "onGrid n (r\<lparr>position_y := v\<rparr>)"
    by (rule onGrid_cong [OF g]) simp_all
  then show ?thesis using g EaseInFrame by simp
next
  case (EaseInComplete k)
  have "onGrid n (fst (startSpinning_resumed (lastFrame k r) al))"
    by (rule onGrid_cong [OF onGrid_loopReel [OF n h g, of al]]) simp_all
  then show ?thesis using g EaseInComplete by simp
next
  case (SpinningFrame k t)
  have "onGrid n (fst (spinning_onUpdate k (setTweenTime k t r) al))"
  proof (cases "tweenTime (tweens (setTweenTime k t r) ! k) > spinningTweenDuration r")
    case True
    show ?thesis
      by (rule onGrid_cong [OF onGrid_loopReel [OF n h g, of al]])
        (use True in \<open>simp_all add: symbols_spinning_onUpdate\<close>)
  next
    case False
    show ?thesis
      by (rule onGrid_cong [OF g])
        (use False in \<open>simp_all add: symbols_spinning_onUpdate\<close>)
  qed
  then show ?thesis using g SpinningFrame by simp
next
  case (StoppingFrame k v)
  have "onGrid n (r\<lparr>position_y := v\<rparr>)"
    by (rule onGrid_cong [OF g]) simp_all
  then have "onGrid n (fst (stopping_onUpdate (r\<lparr>position_y := v\<rparr>) al))"
    using n h by (intro onGrid_stopping_onUpdate) simp_all
  then show ?thesis using g StoppingFrame by simp
next
  case (StoppingComplete k)
  let ?r1 = "fst (stopping_onUpdate (lastFrame k r) al)"
  let ?al1 = "snd (stopping_onUpdate (lastFrame k r) al)"
  have "onGrid n (lastFrame k r)"
    by (rule onGrid_cong [OF g]) simp_all
  then have r1: "onGrid n ?r1"
    using n h by (intro onGrid_stopping_onUpdate) simp_all
  have h1: "eps < symbolHeight ?r1" using h by simp
  have "onGrid n (fst (beginStoppingAnimation_resumed ?r1 ?al1))"
    by (rule onGrid_cong [OF onGrid_loopReel [OF n h1 r1, of ?al1]]) simp_all
  then show ?thesis using g StoppingComplete by (simp add: split_beta)
qed

lemma onGrid_reelRun:
  assumes "0 < n" and "eps < symbolHeight (fst s)" and "onGrid n (fst s)"
  shows "onGrid n (fst (reelRun s es))"
  using assms
proof (induction es arbitrary: s)
  case Nil
  then show ?case by (simp add: reelRun_Nil)
next
  case (Cons e es)
  have "onGrid n (fst (reelStep s e))"
    using onGrid_reelStep [OF Cons.prems(1), of "fst s" "snd s" e] Cons.prems(2,3) by simp
  moreover have "eps < symbolHeight (fst (reelStep s e))"
    using Cons.prems(2) by (simp add: reelStep_constants)
  ultimately show ?case
    using Cons.IH [OF Cons.prems(1)] by (simp add: reelRun_Cons)
qed

lemma upt_Cons_length: "[i..<i + Suc m] = i # [Suc i..<Suc i + m]"
  by (simp add: upt_conv_Cons del: upt_Suc)

lemma symbol_y_placeSymbols:
  "map symbol_y (placeSymbols h i ss) = map (\<lambda>j. (real j - 1) * h) [i..<i + length ss]"
proof (induction ss arbitrary: i)
  case Nil
  show ?case by simp
next
  case (Cons s ss)
  have "map symbol_y (placeSymbols h i (s # ss))
      = (real i - 1) * h # map symbol_y (placeSymbols h (Suc i) ss)"
    by simp
  also have "\<dots> = (real i - 1) * h # map (\<lambda>j. (real j - 1) * h) [Suc i..<Suc i + length ss]"
    by (simp only: Cons.IH)
  also have "\<dots> = map (\<lambda>j. (real j - 1) * h) (i # [Suc i..<Suc i + length ss])"
    by (simp only: list.map)
  also have "\<dots> = map (\<lambda>j. (real j - 1) * h) [i..<i + Suc (length ss)]"
    by (simp only: upt_Cons_length)
  also have "\<dots> = map (\<lambda>j. (real j - 1) * h) [i..<i + length (s # ss)]"
    by (simp only: length_Cons)
  finally show ?case .
qed

lemma newReel_fields:
  "symbolHeight (fst (newReel config al))
     = config_reelAreaHeight config / real (config_symbolsPerReel config)"
  "reelAreaHeight (fst (newReel config al)) = config_reelAreaHeight config"
  "map symbol_y (symbols (fst (newReel config al)))
     = restingOffsets (config_reelAreaHeight config / real (config_symbolsPerReel config))
         (config_symbolsPerReel config)"
proof -
  let ?h = "config_reelAreaHeight config / real (config_symbolsPerReel config)"
  show "symbolHeight (fst (newReel config al)) = ?h"
    by (simp add: newReel_def split_beta Let_def)
  show "reelAreaHeight (fst (newReel config al)) = config_reelAreaHeight config"
    by (simp add: newReel_def split_beta Let_def)
  have "symbols (fst (newReel config al))
      = placeSymbols ?h 0 (fst (newSymbols (Suc (config_symbolsPerReel config)) al))"
    by (simp add: newReel_def split_beta Let_def)
  then have "map symbol_y (symbols (fst (newReel config al)))
      = map (\<lambda>j. (real j - 1) * ?h)
          [0..<0 + length (fst (newSymbols (Suc (config_symbolsPerReel config)) al))]"
    by (simp only: symbol_y_placeSymbols)
  then show "map symbol_y (symbols (fst (newReel config al)))
      = restingOffsets ?h (config_symbolsPerReel config)"
    by (simp only: length_newSymbols restingOffsets_def add_0)
qed

lemma onGrid_newReel:
  assumes "0 < config_symbolsPerReel config"
  shows "onGrid (config_symbolsPerReel config) (fst (newReel config al))"
  using assms by (simp add: onGrid_def newReel_fields)

lemma stopping_complete_resting:
  assumes n: "0 < n" and h: "eps < symbolHeight r" and g: "onGrid n r"
    and k: "running r k Stopping"
  shows "set (map symbol_y (symbols (fst (reelStep (r, al) (StoppingComplete k)))))
      = set (restingOffsets (symbolHeight r) n)"
    and "position_y (fst (reelStep (r, al) (StoppingComplete k))) = 0"
    and "\<not> stopping (fst (reelStep (r, al) (StoppingComplete k)))"
    and "stoppedSpinningEmitted (fst (reelStep (r, al) (StoppingComplete k)))
      = Suc (stoppedSpinningEmitted r)"
proof -
  let ?r1 = "fst (stopping_onUpdate (lastFrame k r) al)"
  let ?al1 = "snd (stopping_onUpdate (lastFrame k r) al)"
  have "onGrid n (lastFrame k r)"
    by (rule onGrid_cong [OF g]) simp_all
  then have r1: "onGrid n ?r1"
    using n h by (intro onGrid_stopping_onUpdate) simp_all
  have h1: "eps < symbolHeight ?r1" using h by simp
  have "set (map symbol_y (symbols (fst (loopReel ?r1 ?al1))))
      = set (restingOffsets (symbolHeight ?r1) n)"
    by (rule loopReel_onGrid [OF n h1 r1])
  then show "set (map symbol_y (symbols (fst (reelStep (r, al) (StoppingComplete k)))))
      = set (restingOffsets (symbolHeight r) n)"
    using k by (simp add: split_beta)
  show "position_y (fst (reelStep (r, al) (StoppingComplete k))) = 0"
    using k by (simp add: split_beta)
  show "\<not> stopping (fst (reelStep (r, al) (StoppingComplete k)))"
    using k by (simp add: split_beta)
  show "stoppedSpinningEmitted (fst (reelStep (r, al) (StoppingComplete k)))
      = Suc (stoppedSpinningEmitted r)"
    using k by (simp add: split_beta)
qed

text \<open>
  A reel whose symbols are higher than \<open>eps\<close>, with the numbers taken as reals
  (the sums and products are exact, where the code rounds each of them to a
  double). The reel is built with
  its symbols at the resting offsets \<open>- h, 0, h, \<dots>, (n - 1) * h\<close>. Whatever
  the events up to a running stopping tween (calls, frames, passes of
  \<open>loopReel\<close>, one or several cycles), when the stopping tween completes the
  set of the positions of the symbols is again the set of the resting
  offsets, the position of the reel is 0, the reel is not stopping and it has
  emitted \<open>stoppedSpinning\<close>. The order of the symbols in the array and their
  textures are not the ones of the start.
\<close>

lemma cycle_restores_resting_offsets_exact:
  assumes "0 < config_symbolsPerReel config"
    and "eps * real (config_symbolsPerReel config) < config_reelAreaHeight config"
    and "running (fst (reelRun (newReel config al) es)) k Stopping"
  shows "set (map symbol_y (symbols (fst (newReel config al))))
      = set (restingOffsets (config_reelAreaHeight config / real (config_symbolsPerReel config))
          (config_symbolsPerReel config))
    \<and> set (map symbol_y (symbols (fst (reelRun (newReel config al) (es @ [StoppingComplete k])))))
      = set (restingOffsets (config_reelAreaHeight config / real (config_symbolsPerReel config))
          (config_symbolsPerReel config))
    \<and> position_y (fst (reelRun (newReel config al) (es @ [StoppingComplete k]))) = 0
    \<and> \<not> stopping (fst (reelRun (newReel config al) (es @ [StoppingComplete k])))
    \<and> stoppedSpinningEmitted (fst (reelRun (newReel config al) (es @ [StoppingComplete k])))
      = Suc (stoppedSpinningEmitted (fst (reelRun (newReel config al) es)))"
proof -
  let ?n = "config_symbolsPerReel config"
  let ?h = "config_reelAreaHeight config / real ?n"
  obtain r al' where run: "reelRun (newReel config al) es = (r, al')"
    by (cases "reelRun (newReel config al) es")
  have h0: "eps < symbolHeight (fst (newReel config al))"
    using assms(1,2) by (simp add: newReel_fields pos_less_divide_eq)
  have hr: "symbolHeight r = ?h"
    using reelRun_constants(1) [of "newReel config al" es] by (simp add: run newReel_fields)
  have g: "onGrid ?n r"
    using onGrid_reelRun [OF assms(1) h0 onGrid_newReel [OF assms(1)], of es] by (simp add: run)
  have k: "running r k Stopping"
    using assms(3) by (simp add: run)
  have h: "eps < symbolHeight r"
    using h0 hr by (simp add: newReel_fields)
  have last: "reelRun (newReel config al) (es @ [StoppingComplete k])
      = reelStep (r, al') (StoppingComplete k)"
    by (simp only: reelRun_append run reelRun_Cons reelRun_Nil)
  show ?thesis
    unfolding last run fst_conv
    using stopping_complete_resting [OF assms(1) h g k, of al'] hr
    by (simp add: newReel_fields)
qed

lemma reelCycle_running:
  "running (fst (reelRun (newReel gameConfig exampleLoader) reelCycle)) 2 Stopping"
  "stoppedSpinningEmitted (fst (reelRun (newReel gameConfig exampleLoader) reelCycle)) = 0"
  by (simp_all add: reelCycle_def newReel_example reel_eval)

lemma reelCycle_restores_resting_offsets:
  "0 < config_symbolsPerReel gameConfig
   \<and> eps * real (config_symbolsPerReel gameConfig) < config_reelAreaHeight gameConfig
   \<and> running (fst (reelRun (newReel gameConfig exampleLoader) reelCycle)) 2 Stopping
   \<and> set (map symbol_y (symbols (fst (newReel gameConfig exampleLoader))))
       = {- 100, 0, 100, 200, 300}
   \<and> set (map symbol_y (symbols (fst (reelRun (newReel gameConfig exampleLoader)
         (reelCycle @ [StoppingComplete 2]))))) = {- 100, 0, 100, 200, 300}
   \<and> position_y (fst (reelRun (newReel gameConfig exampleLoader)
         (reelCycle @ [StoppingComplete 2]))) = 0
   \<and> \<not> stopping (fst (reelRun (newReel gameConfig exampleLoader)
         (reelCycle @ [StoppingComplete 2])))
   \<and> stoppedSpinningEmitted (fst (reelRun (newReel gameConfig exampleLoader)
         (reelCycle @ [StoppingComplete 2]))) = 1"
proof -
  have c: "0 < config_symbolsPerReel gameConfig"
    "eps * real (config_symbolsPerReel gameConfig) < config_reelAreaHeight gameConfig"
    by (simp_all add: gameConfig_def eps_def)
  have g: "set (restingOffsets (config_reelAreaHeight gameConfig
      / real (config_symbolsPerReel gameConfig)) (config_symbolsPerReel gameConfig))
      = {- 100, 0, 100, 200, 300}"
    by (auto simp add: gameConfig_def restingOffsets_def upt_rec)
  show ?thesis
    using cycle_restores_resting_offsets_exact [OF c reelCycle_running(1)] c reelCycle_running
    by (simp only: g) simp
qed

lemma newReel_tiny:
  "newReel tinyConfig exampleLoader =
     (\<lparr>symbols =
         [\<lparr>texture = 0, symbol_x = 0, symbol_y = - (1 / 20)\<rparr>,
          \<lparr>texture = 1, symbol_x = 0, symbol_y = 0\<rparr>,
          \<lparr>texture = 2, symbol_x = 0, symbol_y = 1 / 20\<rparr>,
          \<lparr>texture = 0, symbol_x = 0, symbol_y = 1 / 10\<rparr>,
          \<lparr>texture = 1, symbol_x = 0, symbol_y = 3 / 20\<rparr>],
       stopping = False, backoutStarted = False, needsToStop = False,
       symbolWidth = 400 / 3, symbolHeight = 1 / 20, reelAreaWidth = 800,
       reelAreaHeight = 1 / 5,
       movingDirection = DOWN, spinningTweenDuration = 250 / 3,
       position_x = 0, position_y = 0, tweens = [],
       stoppedSpinningEmitted = 0, loopReelCalls = 0\<rparr>,
      exampleLoader\<lparr>randomCalls := 5\<rparr>)"
  by (simp add: newReel_def tinyConfig_def gameConfig_def newSymbols_example Let_def)

lemma tiny_ne: "{- (1 / 20), 0, 1 / 20} \<noteq> {- (1 / 20), 0, 1 / 20, 1 / 10, 3 / 20 :: real}"
proof
  assume "{- (1 / 20), 0, 1 / 20} = {- (1 / 20), 0, 1 / 20, 1 / 10, 3 / 20 :: real}"
  then have "(1 / 10 :: real) \<in> {- (1 / 20), 0, 1 / 20}"
    by simp
  then show False by simp
qed

text \<open>
  C9 on the code, for a reel area 0.2 high with 4 symbols per reel: a symbol is
  0.05 high, less than the \<open>eps\<close> of \<open>loopReel\<close>. The comment of \<open>loopReel\<close> says
  that only the last symbol is close to the boundary and that the pass puts
  one random symbol on the top. Here the first pass moves three symbols to the
  top, each with a new random draw, and after a whole cycle (the stopping tween has
  completed, the reel is at 0 and has emitted \<open>stoppedSpinning\<close>) three symbols
  are at the same position: the set of the positions is not the set of the
  resting offsets of the start.
\<close>

theorem tiny_symbols_wrap_together:
  "symbolHeight (fst (newReel tinyConfig exampleLoader)) = 1 / 20
   \<and> reelAreaHeight (fst (newReel tinyConfig exampleLoader)) = 1 / 5
   \<and> symbolHeight (fst (newReel tinyConfig exampleLoader)) < eps
   \<and> map symbol_y (symbols (fst (newReel tinyConfig exampleLoader)))
       = [- (1 / 20), 0, 1 / 20, 1 / 10, 3 / 20]
   \<and> map texture (symbols (fst (newReel tinyConfig exampleLoader))) = [0, 1, 2, 0, 1]
   \<and> map symbol_y (symbols (fst (loopReel (fst (newReel tinyConfig exampleLoader))
         (snd (newReel tinyConfig exampleLoader)))))
       = [0, 1 / 20, - (1 / 20), - (1 / 20), - (1 / 20)]
   \<and> map texture (symbols (fst (loopReel (fst (newReel tinyConfig exampleLoader))
         (snd (newReel tinyConfig exampleLoader)))))
       = [0, 1, 2, 0, 1]
   \<and> randomCalls (snd (newReel tinyConfig exampleLoader)) = 5
   \<and> randomCalls (snd (loopReel (fst (newReel tinyConfig exampleLoader))
         (snd (newReel tinyConfig exampleLoader)))) = 8
   \<and> running (fst (reelRun (newReel tinyConfig exampleLoader) shortCycle)) 2 Stopping
   \<and> map symbol_y (symbols (fst (reelRun (newReel tinyConfig exampleLoader)
         (shortCycle @ [StoppingComplete 2])))) = [- (1 / 20), 0, 1 / 20, 1 / 20, 1 / 20]
   \<and> position_y (fst (reelRun (newReel tinyConfig exampleLoader)
         (shortCycle @ [StoppingComplete 2]))) = 0
   \<and> \<not> stopping (fst (reelRun (newReel tinyConfig exampleLoader)
         (shortCycle @ [StoppingComplete 2])))
   \<and> stoppedSpinningEmitted (fst (reelRun (newReel tinyConfig exampleLoader)
         (shortCycle @ [StoppingComplete 2]))) = 1
   \<and> set (map symbol_y (symbols (fst (reelRun (newReel tinyConfig exampleLoader)
         (shortCycle @ [StoppingComplete 2])))))
       \<noteq> set (map symbol_y (symbols (fst (newReel tinyConfig exampleLoader))))"
proof -
  have start:
    "symbolHeight (fst (newReel tinyConfig exampleLoader)) = 1 / 20"
    "reelAreaHeight (fst (newReel tinyConfig exampleLoader)) = 1 / 5"
    "symbolHeight (fst (newReel tinyConfig exampleLoader)) < eps"
    "map symbol_y (symbols (fst (newReel tinyConfig exampleLoader)))
       = [- (1 / 20), 0, 1 / 20, 1 / 10, 3 / 20]"
    "map texture (symbols (fst (newReel tinyConfig exampleLoader))) = [0, 1, 2, 0, 1]"
    "randomCalls (snd (newReel tinyConfig exampleLoader)) = 5"
    by (simp_all add: newReel_tiny eps_def)
  have pass:
    "map symbol_y (symbols (fst (loopReel (fst (newReel tinyConfig exampleLoader))
         (snd (newReel tinyConfig exampleLoader)))))
       = [0, 1 / 20, - (1 / 20), - (1 / 20), - (1 / 20)]"
    "map texture (symbols (fst (loopReel (fst (newReel tinyConfig exampleLoader))
         (snd (newReel tinyConfig exampleLoader)))))
       = [0, 1, 2, 0, 1]"
    "randomCalls (snd (loopReel (fst (newReel tinyConfig exampleLoader))
         (snd (newReel tinyConfig exampleLoader)))) = 8"
    by (simp_all add: newReel_tiny reel_eval)
  have cycle:
    "running (fst (reelRun (newReel tinyConfig exampleLoader) shortCycle)) 2 Stopping"
    "map symbol_y (symbols (fst (reelRun (newReel tinyConfig exampleLoader)
         (shortCycle @ [StoppingComplete 2])))) = [- (1 / 20), 0, 1 / 20, 1 / 20, 1 / 20]"
    "position_y (fst (reelRun (newReel tinyConfig exampleLoader)
         (shortCycle @ [StoppingComplete 2]))) = 0"
    "\<not> stopping (fst (reelRun (newReel tinyConfig exampleLoader)
         (shortCycle @ [StoppingComplete 2])))"
    "stoppedSpinningEmitted (fst (reelRun (newReel tinyConfig exampleLoader)
         (shortCycle @ [StoppingComplete 2]))) = 1"
    by (simp_all add: shortCycle_def newReel_tiny reel_eval)
  have sets:
    "set (map symbol_y (symbols (fst (reelRun (newReel tinyConfig exampleLoader)
         (shortCycle @ [StoppingComplete 2])))))
       \<noteq> set (map symbol_y (symbols (fst (newReel tinyConfig exampleLoader))))"
    using tiny_ne by (simp only: cycle(2) start(4)) simp
  from start pass cycle sets show ?thesis by blast
qed
section \<open>The other versions of the reel\<close>

lemma reelRun_upDown_Cons: "reelRun_upDown s (e # es) = reelRun_upDown (reelStep_upDown s e) es"
  by (simp add: reelRun_upDown_def)

lemma reelRun_upDown_Nil: "reelRun_upDown s [] = s"
  by (simp add: reelRun_upDown_def)

lemma reelRun_fourDirections_Cons:
  "reelRun_fourDirections s (e # es) = reelRun_fourDirections (reelStep_fourDirections s e) es"
  by (simp add: reelRun_fourDirections_def)

lemma reelRun_fourDirections_Nil: "reelRun_fourDirections s [] = s"
  by (simp add: reelRun_fourDirections_def)

lemmas upDown_eval =
  reelRun_upDown_Cons reelRun_upDown_Nil newTween_def running_def lastFrame_def
  setTweenStatus_def setTweenTime_def startSpinning_upDown_def
  startSpinning_resumed_upDown_def spinning_onUpdate_upDown_def
  stopping_onUpdate_upDown_def beginStoppingAnimation_upDown_def
  beginStoppingAnimation_resumed_upDown_def shiftSymbols_def loopReel_upDown_def
  updateSymbolPosition_def crossedUpperThreshold_def crossedLowerThreshold_def
  isTreshholdCrossed_def eps_def exampleLoader_draw stopSpinning_def jsMod_def
  split_beta Let_def

lemmas fourDirections_eval =
  reelRun_fourDirections_Cons reelRun_fourDirections_Nil newTween_def running_def
  lastFrame_def setTweenStatus_def setTweenTime_def startSpinning_fourDirections_def
  startSpinning_resumed_fourDirections_def spinning_onUpdate_fourDirections_def
  beginStoppingAnimation_fourDirections_def loopReel_fourDirections_def
  shiftSymbolPosition_def getSymbolMovementDirection_def isSymbolOffScreen_def
  getReelPosition_def getSpinningReelPosition_def eps_def exampleLoader_draw
  stopSpinning_def jsMod_def split_beta Let_def

lemma newReel_upDown_example:
  "newReel_upDown (gameConfig\<lparr>config_movingDirection := UP\<rparr>) exampleLoader =
     (exampleReelUp, exampleLoader\<lparr>randomCalls := 5\<rparr>)"
  by (simp add: exampleReelUp_def newReel_upDown_def newReel_def gameConfig_def
      newSymbols_example Let_def)

lemma exampleStoppingUp_literal:
  "exampleStoppingUp =
   (\<lparr>symbols =
    [\<lparr>texture = 2, symbol_x = 0, symbol_y = 300\<rparr>,
     \<lparr>texture = 0, symbol_x = 0, symbol_y = 400\<rparr>,
     \<lparr>texture = 2, symbol_x = 0, symbol_y = 0\<rparr>,
     \<lparr>texture = 0, symbol_x = 0, symbol_y = 100\<rparr>,
     \<lparr>texture = 1, symbol_x = 0, symbol_y = 200\<rparr>],
    stopping = True, backoutStarted = False, needsToStop = True,
    symbolWidth = 400 / 3, symbolHeight = 100, reelAreaWidth = 800,
    reelAreaHeight = 400, movingDirection = UP,
    spinningTweenDuration = 250 / 3, position_x = 0, position_y = - 20,
    tweens =
      [\<lparr>tweenKind = EaseIn, tweenFromX = 0, tweenFrom = 0, tweenToX = 0,
          tweenTo = - 100, tweenDuration = 500 / 3, tweenTime = 0,
          tweenStatus = Completed\<rparr>,
       \<lparr>tweenKind = Spinning, tweenFromX = 0, tweenFrom = 0, tweenToX = 0,
          tweenTo = - 200, tweenDuration = 500 / 3, tweenTime = 50 / 3,
          tweenStatus = Paused\<rparr>,
       \<lparr>tweenKind = Stopping, tweenFromX = 0, tweenFrom = - 20,
          tweenToX = 0, tweenTo = - 100, tweenDuration = 1000 / 3,
          tweenTime = 0, tweenStatus = Running\<rparr>],
    stoppedSpinningEmitted = 0, loopReelCalls = 2\<rparr>, exampleLoader\<lparr>randomCalls := 7\<rparr>)"
  by (simp add: exampleStoppingUp_def shortCycle_def newReel_upDown_example exampleReelUp_eq
      upDown_eval)

lemma exampleStopping_literal:
  "exampleStopping =
   (\<lparr>symbols =
    [\<lparr>texture = 0, symbol_x = 0, symbol_y = 100\<rparr>,
     \<lparr>texture = 1, symbol_x = 0, symbol_y = 200\<rparr>,
     \<lparr>texture = 2, symbol_x = 0, symbol_y = 300\<rparr>,
     \<lparr>texture = 0, symbol_x = 0, symbol_y = - 100\<rparr>,
     \<lparr>texture = 2, symbol_x = 0, symbol_y = 0\<rparr>],
    stopping = True, backoutStarted = False, needsToStop = True,
    symbolWidth = 400 / 3, symbolHeight = 100, reelAreaWidth = 800,
    reelAreaHeight = 400, movingDirection = DOWN,
    spinningTweenDuration = 250 / 3, position_x = 0, position_y = 20,
    tweens =
      [\<lparr>tweenKind = EaseIn, tweenFromX = 0, tweenFrom = 0, tweenToX = 0,
          tweenTo = 100, tweenDuration = 500 / 3, tweenTime = 0,
          tweenStatus = Completed\<rparr>,
       \<lparr>tweenKind = Spinning, tweenFromX = 0, tweenFrom = 0, tweenToX = 0,
          tweenTo = 200, tweenDuration = 500 / 3, tweenTime = 50 / 3,
          tweenStatus = Paused\<rparr>,
       \<lparr>tweenKind = Stopping, tweenFromX = 0, tweenFrom = 20, tweenToX = 0,
          tweenTo = 100, tweenDuration = 1000 / 3, tweenTime = 0,
          tweenStatus = Running\<rparr>],
    stoppedSpinningEmitted = 0, loopReelCalls = 2\<rparr>, exampleLoader\<lparr>randomCalls := 7\<rparr>)"
  by (simp add: exampleStopping_def shortCycle_def newReel_example reel_eval)

text \<open>
  In the first version, the callback of the stopping tween does nothing once
  \<open>backoutStarted\<close> is set, and sets it the first time the position of the
  reel is at or past one symbol height.
\<close>

lemma stopping_onUpdate_once:
  "backoutStarted r \<Longrightarrow> stopping_onUpdate r al = (r, al)"
  "\<not> backoutStarted r \<Longrightarrow> position_y r \<ge> symbolHeight r \<Longrightarrow>
     backoutStarted (fst (stopping_onUpdate r al))
     \<and> loopReelCalls (fst (stopping_onUpdate r al)) = Suc (loopReelCalls r)"
  "\<not> position_y r \<ge> symbolHeight r \<Longrightarrow> stopping_onUpdate r al = (r, al)"
  by (simp_all add: stopping_onUpdate_def split_beta Let_def)

text \<open>
  In the second version, a frame at or past minus one symbol height that is
  not at or past plus one symbol height runs the pass and the shift, and
  leaves \<open>backoutStarted\<close> as it was: the next such frame does the same.
\<close>

lemma stopping_onUpdate_upDown_again:
  assumes "\<not> backoutStarted r" and "crossedLowerThreshold r" and "\<not> crossedUpperThreshold r"
  shows "\<not> backoutStarted (fst (stopping_onUpdate_upDown r al))"
    and "loopReelCalls (fst (stopping_onUpdate_upDown r al)) = Suc (loopReelCalls r)"
  using assms
  by (simp_all add: stopping_onUpdate_upDown_def isTreshholdCrossed_def split_beta Let_def
      shiftSymbols_def)

text \<open>
  C5 on the code. The reel of the second version moving up, in its stopping
  animation: the frame at \<open>- 110\<close> is past the threshold \<open>- 100\<close> and runs the
  pass of \<open>loopReel\<close> and the shift, but \<open>backoutStarted\<close> stays false, so the
  frame at \<open>- 105\<close> and the last frame at \<open>- 100\<close> run them again: four passes
  over the stop (three compensations and the final pass) where the reel of the
  first version, on the mirrored frames, runs two (one compensation and the
  final pass). The repeated compensation finds no symbol to wrap and puts every
  symbol back where it was, so the symbols are the same after it.
\<close>

theorem backout_repeats_moving_up:
  "movingDirection (fst exampleStoppingUp) = UP
   \<and> running (fst exampleStoppingUp) 2 Stopping
   \<and> \<not> backoutStarted (fst exampleStoppingUp)
   \<and> loopReelCalls (fst exampleStoppingUp) = 2
   \<and> loopReelCalls (fst (reelRun_upDown exampleStoppingUp [StoppingFrame 2 (- 110)])) = 3
   \<and> \<not> backoutStarted (fst (reelRun_upDown exampleStoppingUp [StoppingFrame 2 (- 110)]))
   \<and> loopReelCalls (fst (reelRun_upDown exampleStoppingUp
         [StoppingFrame 2 (- 110), StoppingFrame 2 (- 105)])) = 4
   \<and> \<not> backoutStarted (fst (reelRun_upDown exampleStoppingUp
         [StoppingFrame 2 (- 110), StoppingFrame 2 (- 105)]))
   \<and> symbols (fst (reelRun_upDown exampleStoppingUp
         [StoppingFrame 2 (- 110), StoppingFrame 2 (- 105)]))
       = symbols (fst (reelRun_upDown exampleStoppingUp [StoppingFrame 2 (- 110)]))
   \<and> loopReelCalls (fst (reelRun_upDown exampleStoppingUp
         [StoppingFrame 2 (- 110), StoppingFrame 2 (- 105), StoppingComplete 2])) = 6
   \<and> stoppedSpinningEmitted (fst (reelRun_upDown exampleStoppingUp
         [StoppingFrame 2 (- 110), StoppingFrame 2 (- 105), StoppingComplete 2])) = 1
   \<and> running (fst exampleStopping) 2 Stopping
   \<and> loopReelCalls (fst exampleStopping) = 2
   \<and> loopReelCalls (fst (reelRun exampleStopping [StoppingFrame 2 110])) = 3
   \<and> backoutStarted (fst (reelRun exampleStopping [StoppingFrame 2 110]))
   \<and> loopReelCalls (fst (reelRun exampleStopping [StoppingFrame 2 110, StoppingFrame 2 105])) = 3
   \<and> loopReelCalls (fst (reelRun exampleStopping
         [StoppingFrame 2 110, StoppingFrame 2 105, StoppingComplete 2])) = 4"
proof -
  have up:
    "movingDirection (fst exampleStoppingUp) = UP"
    "running (fst exampleStoppingUp) 2 Stopping"
    "\<not> backoutStarted (fst exampleStoppingUp)"
    "loopReelCalls (fst exampleStoppingUp) = 2"
    "loopReelCalls (fst (reelRun_upDown exampleStoppingUp [StoppingFrame 2 (- 110)])) = 3"
    "\<not> backoutStarted (fst (reelRun_upDown exampleStoppingUp [StoppingFrame 2 (- 110)]))"
    "loopReelCalls (fst (reelRun_upDown exampleStoppingUp
          [StoppingFrame 2 (- 110), StoppingFrame 2 (- 105)])) = 4"
    "\<not> backoutStarted (fst (reelRun_upDown exampleStoppingUp
          [StoppingFrame 2 (- 110), StoppingFrame 2 (- 105)]))"
    "symbols (fst (reelRun_upDown exampleStoppingUp
          [StoppingFrame 2 (- 110), StoppingFrame 2 (- 105)]))
        = symbols (fst (reelRun_upDown exampleStoppingUp [StoppingFrame 2 (- 110)]))"
    "loopReelCalls (fst (reelRun_upDown exampleStoppingUp
          [StoppingFrame 2 (- 110), StoppingFrame 2 (- 105), StoppingComplete 2])) = 6"
    "stoppedSpinningEmitted (fst (reelRun_upDown exampleStoppingUp
          [StoppingFrame 2 (- 110), StoppingFrame 2 (- 105), StoppingComplete 2])) = 1"
    by (simp_all add: exampleStoppingUp_literal upDown_eval)
  have down:
    "running (fst exampleStopping) 2 Stopping"
    "loopReelCalls (fst exampleStopping) = 2"
    "loopReelCalls (fst (reelRun exampleStopping [StoppingFrame 2 110])) = 3"
    "backoutStarted (fst (reelRun exampleStopping [StoppingFrame 2 110]))"
    "loopReelCalls (fst (reelRun exampleStopping [StoppingFrame 2 110, StoppingFrame 2 105])) = 3"
    "loopReelCalls (fst (reelRun exampleStopping
          [StoppingFrame 2 110, StoppingFrame 2 105, StoppingComplete 2])) = 4"
    by (simp_all add: exampleStopping_literal reel_eval)
  from up down show ?thesis by blast
qed

text \<open>
  In the third version no step makes a stopping tween, sets \<open>stopping\<close> or emits
  \<open>stoppedSpinning\<close>.
\<close>

lemma loopReel_fourDirections_keeps:
  "stoppedSpinningEmitted (fst (loopReel_fourDirections r al)) = stoppedSpinningEmitted r"
  "stopping (fst (loopReel_fourDirections r al)) = stopping r"
  "tweens (fst (loopReel_fourDirections r al)) = tweens r"
  by (simp_all add: loopReel_fourDirections_def split_beta)

lemma list_all_update:
  "list_all P xs \<Longrightarrow> P x \<Longrightarrow> list_all P (xs[k := x])"
  by (induction xs arbitrary: k) (auto split: nat.splits)

lemma reelStep_fourDirections_emitted:
  "stoppedSpinningEmitted (fst (reelStep_fourDirections s e)) = stoppedSpinningEmitted (fst s)"
  by (cases s; cases e)
    (simp_all add: startSpinning_fourDirections_def newTween_def stopSpinning_def
      startSpinning_resumed_fourDirections_def spinning_onUpdate_fourDirections_def
      beginStoppingAnimation_fourDirections_def loopReel_fourDirections_def lastFrame_def
      setTweenStatus_def setTweenTime_def split_beta Let_def)

lemma reelStep_fourDirections_stopping:
  "stopping (fst (reelStep_fourDirections s e)) = stopping (fst s)"
  by (cases s; cases e)
    (simp_all add: startSpinning_fourDirections_def newTween_def stopSpinning_def
      startSpinning_resumed_fourDirections_def spinning_onUpdate_fourDirections_def
      beginStoppingAnimation_fourDirections_def loopReel_fourDirections_def lastFrame_def
      setTweenStatus_def setTweenTime_def split_beta Let_def)

lemma reelStep_fourDirections_no_stopping_tween:
  assumes "list_all (\<lambda>t. tweenKind t \<noteq> Stopping) (tweens (fst s))"
  shows "list_all (\<lambda>t. tweenKind t \<noteq> Stopping) (tweens (fst (reelStep_fourDirections s e)))"
  using assms
  by (cases s; cases e)
    (simp_all add: startSpinning_fourDirections_def stopSpinning_def newTween_def
      startSpinning_resumed_fourDirections_def spinning_onUpdate_fourDirections_def
      beginStoppingAnimation_fourDirections_def loopReel_fourDirections_keeps
      setTweenStatus_def setTweenTime_def lastFrame_def running_def list_all_update
      split_beta Let_def)

lemma reelRun_fourDirections_emitted:
  "stoppedSpinningEmitted (fst (reelRun_fourDirections s evs)) = stoppedSpinningEmitted (fst s)"
  by (induction evs arbitrary: s)
    (simp_all add: reelRun_fourDirections_Nil reelRun_fourDirections_Cons
      reelStep_fourDirections_emitted)

lemma reelRun_fourDirections_stopping:
  "stopping (fst (reelRun_fourDirections s evs)) = stopping (fst s)"
  by (induction evs arbitrary: s)
    (simp_all add: reelRun_fourDirections_Nil reelRun_fourDirections_Cons
      reelStep_fourDirections_stopping)

lemma reelRun_fourDirections_no_stopping_tween:
  "list_all (\<lambda>t. tweenKind t \<noteq> Stopping) (tweens (fst s))
   \<Longrightarrow> list_all (\<lambda>t. tweenKind t \<noteq> Stopping) (tweens (fst (reelRun_fourDirections s evs)))"
  by (induction evs arbitrary: s)
    (simp_all add: reelRun_fourDirections_Nil reelRun_fourDirections_Cons
      reelStep_fourDirections_no_stopping_tween)

lemma newReel_fourDirections_fields:
  "stoppedSpinningEmitted (fst (newReel_fourDirections config al)) = 0"
  "\<not> stopping (fst (newReel_fourDirections config al))"
  "tweens (fst (newReel_fourDirections config al)) = []"
  by (simp_all add: newReel_fourDirections_def newReel_def split_beta Let_def)

lemma newReel_fourDirections_example:
  "newReel_fourDirections gameConfig exampleLoader = newReel gameConfig exampleLoader"
  by (simp add: newReel_fourDirections_def newReel_example) (simp add: gameConfig_def)

lemma exampleFourDirections_literal:
  "exampleFourDirections =
   (\<lparr>symbols =
    [\<lparr>texture = 0, symbol_x = 0, symbol_y = 100\<rparr>,
     \<lparr>texture = 1, symbol_x = 0, symbol_y = 200\<rparr>,
     \<lparr>texture = 2, symbol_x = 0, symbol_y = 300\<rparr>,
     \<lparr>texture = 0, symbol_x = 0, symbol_y = 0\<rparr>,
     \<lparr>texture = 2, symbol_x = 0, symbol_y = 100\<rparr>],
    stopping = False, backoutStarted = False, needsToStop = True,
    symbolWidth = 400 / 3, symbolHeight = 100, reelAreaWidth = 800,
    reelAreaHeight = 400, movingDirection = DOWN,
    spinningTweenDuration = 250 / 3, position_x = 0, position_y = 120,
    tweens =
      [\<lparr>tweenKind = EaseIn, tweenFromX = 0, tweenFrom = 0, tweenToX = 0,
          tweenTo = 100, tweenDuration = 500 / 3, tweenTime = 0,
          tweenStatus = Completed\<rparr>,
       \<lparr>tweenKind = Spinning, tweenFromX = 0, tweenFrom = 100, tweenToX = 0,
          tweenTo = 300, tweenDuration = 500 / 3, tweenTime = 50 / 3,
          tweenStatus = Paused\<rparr>],
    stoppedSpinningEmitted = 0, loopReelCalls = 2\<rparr>, exampleLoader\<lparr>randomCalls := 7\<rparr>)"
  by (simp add: exampleFourDirections_def shortCycle_def newReel_fourDirections_example
      newReel_example fourDirections_eval)

text \<open>
  C4 on the code. In the third version \<open>beginStoppingAnimation\<close> returns at
  once, before its test of \<open>stopping\<close>: whatever the configuration and the
  events, the reel never sets \<open>stopping\<close> and never emits \<open>stoppedSpinning\<close>.
  On the example, the spinning tween has paused with a stop requested and
  there is no stopping tween. In the first version the same events make one
  stopping tween, and a reel whose two spinning tweens both call
  \<open>beginStoppingAnimation\<close> makes one stopping tween and emits
  \<open>stoppedSpinning\<close> once.
\<close>

theorem fourDirections_never_stops:
  "stoppedSpinningEmitted
     (fst (reelRun_fourDirections (newReel_fourDirections config al) evs)) = 0
   \<and> \<not> stopping (fst (reelRun_fourDirections (newReel_fourDirections config al) evs))
   \<and> list_all (\<lambda>t. tweenKind t \<noteq> Stopping)
        (tweens (fst (reelRun_fourDirections (newReel_fourDirections config al) evs)))
   \<and> needsToStop (fst exampleFourDirections)
   \<and> map tweenKind (tweens (fst exampleFourDirections)) = [EaseIn, Spinning]
   \<and> map tweenStatus (tweens (fst exampleFourDirections)) = [Completed, Paused]
   \<and> stoppedSpinningEmitted
        (fst (reelRun_fourDirections exampleFourDirections [StoppingComplete 2])) = 0
   \<and> map tweenKind (tweens (fst exampleStopping)) = [EaseIn, Spinning, Stopping]
   \<and> stoppedSpinningEmitted (fst (reelRun exampleStopping [StoppingComplete 2])) = 1
   \<and> map tweenKind (tweens (fst (reelRun (newReel gameConfig exampleLoader) startedTwice)))
       = [EaseIn, EaseIn, Spinning, Spinning, Stopping]
   \<and> map tweenStatus (tweens (fst (reelRun (newReel gameConfig exampleLoader) startedTwice)))
       = [Completed, Completed, Paused, Paused, Running]
   \<and> stoppedSpinningEmitted
        (fst (reelRun (newReel gameConfig exampleLoader)
           (startedTwice @ [StoppingComplete 4, StoppingComplete 5]))) = 1"
proof -
  have general:
    "stoppedSpinningEmitted
       (fst (reelRun_fourDirections (newReel_fourDirections config al) evs)) = 0"
    "\<not> stopping (fst (reelRun_fourDirections (newReel_fourDirections config al) evs))"
    "list_all (\<lambda>t. tweenKind t \<noteq> Stopping)
       (tweens (fst (reelRun_fourDirections (newReel_fourDirections config al) evs)))"
    by (simp_all add: reelRun_fourDirections_emitted reelRun_fourDirections_stopping
        reelRun_fourDirections_no_stopping_tween newReel_fourDirections_fields)
  have third:
    "needsToStop (fst exampleFourDirections)"
    "map tweenKind (tweens (fst exampleFourDirections)) = [EaseIn, Spinning]"
    "map tweenStatus (tweens (fst exampleFourDirections)) = [Completed, Paused]"
    "stoppedSpinningEmitted
       (fst (reelRun_fourDirections exampleFourDirections [StoppingComplete 2])) = 0"
    by (simp_all add: exampleFourDirections_literal reelRun_fourDirections_Cons
        reelRun_fourDirections_Nil)
  have first:
    "map tweenKind (tweens (fst exampleStopping)) = [EaseIn, Spinning, Stopping]"
    "stoppedSpinningEmitted (fst (reelRun exampleStopping [StoppingComplete 2])) = 1"
    by (simp_all add: exampleStopping_literal reel_eval)
  have twice:
    "map tweenKind (tweens (fst (reelRun (newReel gameConfig exampleLoader) startedTwice)))
       = [EaseIn, EaseIn, Spinning, Spinning, Stopping]"
    "map tweenStatus (tweens (fst (reelRun (newReel gameConfig exampleLoader) startedTwice)))
       = [Completed, Completed, Paused, Paused, Running]"
    "stoppedSpinningEmitted
        (fst (reelRun (newReel gameConfig exampleLoader)
           (startedTwice @ [StoppingComplete 4, StoppingComplete 5]))) = 1"
    by (simp_all add: startedTwice_def newReel_example reel_eval)
  from general third first twice show ?thesis by blast
qed

theorem fourDirections_never_stops_witness:
  "stoppedSpinningEmitted
     (fst (reelRun_fourDirections (newReel_fourDirections gameConfig exampleLoader)
        (shortCycle @ [SpinningFrame 1 100, StoppingComplete 2]))) = 0
   \<and> \<not> stopping
        (fst (reelRun_fourDirections (newReel_fourDirections gameConfig exampleLoader)
           (shortCycle @ [SpinningFrame 1 100, StoppingComplete 2])))
   \<and> list_all (\<lambda>t. tweenKind t \<noteq> Stopping)
        (tweens (fst (reelRun_fourDirections (newReel_fourDirections gameConfig exampleLoader)
           (shortCycle @ [SpinningFrame 1 100, StoppingComplete 2]))))"
  using fourDirections_never_stops
          [of gameConfig exampleLoader "shortCycle @ [SpinningFrame 1 100, StoppingComplete 2]"]
  by blast
end
